theory Spec2Isabelle
  imports Complex_Main "HOL-Library.Log_Nat"
begin

section \<open>Python floats: IEEE 754 binary64 with round-to-nearest-even\<close>

text \<open>
  The calculator of \<^verbatim>\<open>app.py\<close> computes with Python \<^verbatim>\<open>float\<close>s. A finite float is
  modelled by the rational number it denotes; every arithmetic operation computes the exact
  rational result and rounds it to the nearest binary64 value, ties to even, as IEEE 754
  prescribes. The two zeros are identified: they compare equal in Python and this program
  never divides by a variable nor inspects a sign.
\<close>

definition rhe :: "rat \<Rightarrow> int" where
  \<comment> \<open>round half to even, to an integer\<close>
  "rhe y = (let f = \<lfloor>y\<rfloor>; d = y - of_int f in
            if d < 1/2 then f else if 1/2 < d then f + 1
            else if even f then f else f + 1)"

definition ilog2 :: "rat \<Rightarrow> int" where
  \<comment> \<open>for \<open>x \<noteq> 0\<close>, the exponent \<open>e\<close> with \<open>2 powi e \<le> \<bar>x\<bar> < 2 powi (e + 1)\<close>\<close>
  "ilog2 x = (case quotient_of \<bar>x\<bar> of (p, q) \<Rightarrow>
     let k = bitlen p - bitlen q in if 2 powi k \<le> \<bar>x\<bar> then k else k - 1)"

definition ulp_exp :: "rat \<Rightarrow> int" where
  \<comment> \<open>exponent of the unit in the last place: 53 significant bits, subnormals below \<open>2 powi (-1022)\<close>\<close>
  "ulp_exp x = max (ilog2 x) (- 1022) - 52"

definition rnd :: "rat \<Rightarrow> rat" where
  \<comment> \<open>nearest binary64 value, the exponent range unbounded above\<close>
  "rnd x = of_int (rhe (x / 2 powi ulp_exp x)) * 2 powi ulp_exp x"

datatype pyfloat = Finite rat | PosInf | NegInf | NaN

definition fl :: "rat \<Rightarrow> pyfloat" where
  \<comment> \<open>rounding with overflow to an infinity\<close>
  "fl x = (let r = rnd x in
           if 2 ^ 1024 \<le> r then PosInf else if r \<le> - (2 ^ 1024) then NegInf else Finite r)"

definition lit :: "rat \<Rightarrow> pyfloat" where
  \<comment> \<open>a decimal literal of the source, read as the nearest float\<close>
  "lit r = fl r"

datatype py_error = KeyError string | OverflowError | ZeroDivisionError

definition bind_err :: "py_error + 'a \<Rightarrow> ('a \<Rightarrow> py_error + 'b) \<Rightarrow> py_error + 'b" where
  "bind_err m f = (case m of Inl e \<Rightarrow> Inl e | Inr v \<Rightarrow> f v)"

definition float_of_int :: "int \<Rightarrow> py_error + pyfloat" where
  \<comment> \<open>the conversion of an \<^verbatim>\<open>int\<close> operand in mixed arithmetic; raises when too large\<close>
  "float_of_int n = (case fl (of_int n) of Finite r \<Rightarrow> Inr (Finite r) | _ \<Rightarrow> Inl OverflowError)"

fun fneg :: "pyfloat \<Rightarrow> pyfloat" where
  "fneg (Finite a) = Finite (- a)"
| "fneg PosInf = NegInf"
| "fneg NegInf = PosInf"
| "fneg NaN = NaN"

fun fadd :: "pyfloat \<Rightarrow> pyfloat \<Rightarrow> pyfloat" where
  "fadd (Finite a) (Finite b) = fl (a + b)"
| "fadd NaN _ = NaN"
| "fadd _ NaN = NaN"
| "fadd PosInf NegInf = NaN"
| "fadd NegInf PosInf = NaN"
| "fadd PosInf _ = PosInf"
| "fadd NegInf _ = NegInf"
| "fadd _ PosInf = PosInf"
| "fadd _ NegInf = NegInf"

definition fsub :: "pyfloat \<Rightarrow> pyfloat \<Rightarrow> pyfloat" where
  "fsub x y = fadd x (fneg y)"

definition inf_of_sign :: "bool \<Rightarrow> pyfloat" where
  "inf_of_sign positive = (if positive then PosInf else NegInf)"

fun fmul :: "pyfloat \<Rightarrow> pyfloat \<Rightarrow> pyfloat" where
  "fmul (Finite a) (Finite b) = fl (a * b)"
| "fmul NaN _ = NaN"
| "fmul _ NaN = NaN"
| "fmul PosInf (Finite b) = (if b = 0 then NaN else inf_of_sign (0 < b))"
| "fmul NegInf (Finite b) = (if b = 0 then NaN else inf_of_sign (b < 0))"
| "fmul (Finite a) PosInf = (if a = 0 then NaN else inf_of_sign (0 < a))"
| "fmul (Finite a) NegInf = (if a = 0 then NaN else inf_of_sign (a < 0))"
| "fmul PosInf PosInf = PosInf"
| "fmul NegInf NegInf = PosInf"
| "fmul PosInf NegInf = NegInf"
| "fmul NegInf PosInf = NegInf"

fun fdiv :: "pyfloat \<Rightarrow> pyfloat \<Rightarrow> py_error + pyfloat" where
  "fdiv x (Finite b) =
     (if b = 0 then Inl ZeroDivisionError
      else Inr (case x of Finite a \<Rightarrow> fl (a / b)
                | PosInf \<Rightarrow> inf_of_sign (0 < b)
                | NegInf \<Rightarrow> inf_of_sign (b < 0)
                | NaN \<Rightarrow> NaN))"
| "fdiv x NaN = Inr NaN"
| "fdiv (Finite a) _ = Inr (Finite 0)"
| "fdiv NaN _ = Inr NaN"
| "fdiv _ _ = Inr NaN"

fun fgt :: "pyfloat \<Rightarrow> pyfloat \<Rightarrow> bool" where
  \<comment> \<open>\<^verbatim>\<open>x > y\<close>; every comparison with a NaN is false\<close>
  "fgt NaN _ = False"
| "fgt _ NaN = False"
| "fgt (Finite a) (Finite b) = (b < a)"
| "fgt PosInf PosInf = False"
| "fgt PosInf _ = True"
| "fgt _ PosInf = False"
| "fgt NegInf _ = False"
| "fgt _ NegInf = True"

definition fge :: "pyfloat \<Rightarrow> pyfloat \<Rightarrow> bool" where
  \<comment> \<open>\<^verbatim>\<open>x >= y\<close>\<close>
  "fge x y = (x \<noteq> NaN \<and> y \<noteq> NaN \<and> (x = y \<or> fgt x y))"

fun py_round3 :: "pyfloat \<Rightarrow> pyfloat" where
  \<comment> \<open>\<^verbatim>\<open>round(x, 3)\<close>: the exact value of \<open>x\<close> is rounded half-even to three decimals,
      and that decimal is read back as the nearest float; non-finite values are returned\<close>
  "py_round3 (Finite a) = fl (of_int (rhe (a * 1000)) / 1000)"
| "py_round3 x = x"

definition py_sum :: "pyfloat list \<Rightarrow> pyfloat" where
  \<comment> \<open>\<^verbatim>\<open>sum(xs)\<close>: the items are added from left to right to the start value \<^verbatim>\<open>0\<close>,
      each addition rounded, as CPython does up to version 3.11 (later versions compensate
      the rounding errors of the partial sums)\<close>
  "py_sum xs = foldl fadd (Finite 0) xs"

definition dict_get :: "(string \<times> 'v) list \<Rightarrow> string \<Rightarrow> py_error + 'v" where
  \<comment> \<open>\<^verbatim>\<open>d[k]\<close>: a missing key raises\<close>
  "dict_get d k = (case map_of d k of None \<Rightarrow> Inl (KeyError k) | Some v \<Rightarrow> Inr v)"


section \<open>The constants of \<^verbatim>\<open>app.py\<close> (lines 14 to 48)\<close>

definition COUNTRIES :: "string list" where
  "COUNTRIES = [''India'']"

definition ELECTRICITY_EF :: "(string \<times> pyfloat) list" where
  "ELECTRICITY_EF = [(''India'', lit (716 / 1000))]"

definition TRANSPORT_EF_PAXKM :: "(string \<times> pyfloat) list" where
  "TRANSPORT_EF_PAXKM =
     [(''car'', lit (170 / 1000)), (''bus'', lit (97 / 1000)), (''rail'', lit (8 / 1000))]"

definition DIET_DAILY :: "(string \<times> pyfloat) list" where
  "DIET_DAILY =
     [(''High meat'', lit (719 / 100)), (''Medium meat'', lit (563 / 100)),
      (''Low meat'', lit (467 / 100)), (''Fish-based'', lit (391 / 100)),
      (''Vegetarian'', lit (381 / 100)), (''Vegan'', lit (289 / 100))]"

definition WASTE_EF :: "(string \<times> pyfloat) list" where
  "WASTE_EF =
     [(''Landfill (typical managed)'', lit (45 / 100)),
      (''Incineration (energy recovery)'', lit (110 / 100)),
      (''Composting/AD (food/green fractions)'', lit (10 / 100))]"

section \<open>The calculation (lines 98 to 128)\<close>

text \<open>
  The script reads its inputs from form widgets into global variables and computes in
  straight-line code. The inputs are collected in a record, under the names of the
  script's variables; the variables the calculation assigns form a second record.
\<close>

record activity_input =
  country :: string
  mode :: string
  daily_commute_km :: pyfloat
  commute_days :: int
  car_occupancy :: pyfloat
  monthly_kwh :: pyfloat
  diet_type :: string
  weekly_waste_kg :: pyfloat
  waste_treatment :: string
  segregation :: int

record category_tonnes =
  Transportation :: pyfloat
  Electricity :: pyfloat
  Diet :: pyfloat
  Waste :: pyfloat

record calculation =
  transport_emissions_kg :: pyfloat
  electricity_emissions_kg :: pyfloat
  diet_emissions_kg :: pyfloat
  waste_emissions_kg :: pyfloat
  categories :: category_tonnes
  total_tonnes :: pyfloat

definition cat_values :: "category_tonnes \<Rightarrow> pyfloat list" where
  \<comment> \<open>\<^verbatim>\<open>category_tonnes.values()\<close>, in insertion order\<close>
  "cat_values c = [Transportation c, Electricity c, Diet c, Waste c]"

definition transport_kg :: "activity_input \<Rightarrow> py_error + pyfloat" where
  \<comment> \<open>lines 100 to 108\<close>
  "transport_kg inp =
     bind_err (float_of_int (commute_days inp)) (\<lambda>days.
       let annual_commute_km = fmul (daily_commute_km inp) days;
           pax_km = annual_commute_km
       in if mode inp = ''car'' \<and> fgt (car_occupancy inp) (Finite 0)
          then bind_err (dict_get TRANSPORT_EF_PAXKM ''car'') (\<lambda>transport_ef.
                 Inr (fmul pax_km transport_ef))
          else bind_err (dict_get TRANSPORT_EF_PAXKM (mode inp)) (\<lambda>transport_ef.
                 Inr (fmul pax_km transport_ef)))"

definition electricity_kg :: "string \<Rightarrow> pyfloat \<Rightarrow> py_error + pyfloat" where
  \<comment> \<open>lines 83 and 111, and lines 204 to 205 with the reduced consumption\<close>
  "electricity_kg c kwh =
     (let annual_kwh = fmul kwh (Finite 12)
      in bind_err (dict_get ELECTRICITY_EF c) (\<lambda>ef. Inr (fmul annual_kwh ef)))"

definition diet_kg :: "string \<Rightarrow> py_error + pyfloat" where
  \<comment> \<open>line 114, and line 208\<close>
  "diet_kg d = bind_err (dict_get DIET_DAILY d) (\<lambda>daily. Inr (fmul daily (Finite 365)))"

definition waste_kg :: "pyfloat \<Rightarrow> int \<Rightarrow> string \<Rightarrow> py_error + pyfloat" where
  \<comment> \<open>lines 117 to 119, and lines 212 to 213 with the new segregation rate\<close>
  "waste_kg weekly seg treatment =
     bind_err (float_of_int seg) (\<lambda>s.
     bind_err (fdiv s (Finite 100)) (\<lambda>frac.
       let residual_weekly = fmul weekly (fsub (Finite 1) frac);
           annual_residual_kg = fmul residual_weekly (Finite 52)
       in bind_err (dict_get WASTE_EF treatment) (\<lambda>ef.
            Inr (fmul annual_residual_kg ef))))"

definition tonnes3 :: "pyfloat \<Rightarrow> py_error + pyfloat" where
  \<comment> \<open>\<^verbatim>\<open>round(kg / 1000.0, 3)\<close>\<close>
  "tonnes3 kg = bind_err (fdiv kg (Finite 1000)) (\<lambda>t. Inr (py_round3 t))"

definition compute :: "activity_input \<Rightarrow> py_error + calculation" where
  "compute inp =
     bind_err (transport_kg inp) (\<lambda>t_kg.
     bind_err (electricity_kg (country inp) (monthly_kwh inp)) (\<lambda>e_kg.
     bind_err (diet_kg (diet_type inp)) (\<lambda>d_kg.
     bind_err (waste_kg (weekly_waste_kg inp) (segregation inp) (waste_treatment inp)) (\<lambda>w_kg.
     bind_err (tonnes3 t_kg) (\<lambda>t.
     bind_err (tonnes3 e_kg) (\<lambda>e.
     bind_err (tonnes3 d_kg) (\<lambda>d.
     bind_err (tonnes3 w_kg) (\<lambda>w.
       let c = \<lparr>Transportation = t, Electricity = e, Diet = d, Waste = w\<rparr>
       in Inr \<lparr>transport_emissions_kg = t_kg, electricity_emissions_kg = e_kg,
               diet_emissions_kg = d_kg, waste_emissions_kg = w_kg,
               categories = c,
               total_tonnes = py_round3 (py_sum (cat_values c))\<rparr>))))))))"

definition run_script :: "activity_input \<Rightarrow> py_error + calculation" where
  \<comment> \<open>the script up to the results: the sidebar shows \<^verbatim>\<open>ELECTRICITY_EF[country]\<close> (line 58)
      before the form is read and the calculation runs\<close>
  "run_script inp = bind_err (dict_get ELECTRICITY_EF (country inp)) (\<lambda>shown. compute inp)"

section \<open>The what-if scenario (lines 186 to 223)\<close>

record scenario =
  alt_mode :: string
  alt_occupancy :: pyfloat
  kwh_cut :: int
  diet_switch :: string
  extra_segregation :: int

record what_if_result =
  new_trans_kg :: pyfloat
  new_elec_kg :: pyfloat
  new_diet_kg :: pyfloat
  new_segregation :: int
  new_waste_kg :: pyfloat
  new_total_t :: pyfloat
  delta_t :: pyfloat
  saved_shown :: pyfloat

definition new_segregation_of :: "int \<Rightarrow> int \<Rightarrow> int" where
  \<comment> \<open>line 211\<close>
  "new_segregation_of seg extra = min 100 (seg + extra)"

definition what_if :: "activity_input \<Rightarrow> category_tonnes \<Rightarrow> scenario \<Rightarrow> py_error + what_if_result" where
  \<comment> \<open>lines 196 to 223; the second argument is the \<^verbatim>\<open>category_tonnes\<close> of the calculation\<close>
  "what_if inp cur sc =
     bind_err (dict_get TRANSPORT_EF_PAXKM (alt_mode sc)) (\<lambda>new_transport_ef.
     bind_err (float_of_int (commute_days inp)) (\<lambda>days.
       let new_paxkm = fmul (daily_commute_km inp) days;
           new_trans_kg = fmul new_paxkm new_transport_ef
       in
     bind_err (float_of_int (kwh_cut sc)) (\<lambda>cut.
     bind_err (fdiv cut (Finite 100)) (\<lambda>cut_frac.
       let new_monthly_kwh = fmul (monthly_kwh inp) (fsub (Finite 1) cut_frac)
       in
     bind_err (electricity_kg (country inp) new_monthly_kwh) (\<lambda>new_elec_kg.
     bind_err (diet_kg (diet_switch sc)) (\<lambda>new_diet_kg.
       let new_seg = new_segregation_of (segregation inp) (extra_segregation sc)
       in
     bind_err (waste_kg (weekly_waste_kg inp) new_seg (waste_treatment inp)) (\<lambda>new_waste_kg.
     bind_err (fdiv (fadd (fadd (fadd new_trans_kg new_elec_kg) new_diet_kg) new_waste_kg)
                 (Finite 1000)) (\<lambda>new_total_raw.
       let new_total = py_round3 new_total_raw;
           delta = py_round3 (fsub new_total (py_sum (cat_values cur)));
           saved = fneg delta
       in Inr \<lparr>new_trans_kg = new_trans_kg, new_elec_kg = new_elec_kg,
               new_diet_kg = new_diet_kg, new_segregation = new_seg,
               new_waste_kg = new_waste_kg, new_total_t = new_total, delta_t = delta,
               saved_shown = (if fgt saved (Finite 0) then saved else Finite 0)\<rparr>))))))))"

definition alternate_input :: "activity_input \<Rightarrow> scenario \<Rightarrow> py_error + activity_input" where
  \<comment> \<open>the inputs the scenario stands for: each overridden dimension replaced, the others kept\<close>
  "alternate_input inp sc =
     bind_err (float_of_int (kwh_cut sc)) (\<lambda>cut.
     bind_err (fdiv cut (Finite 100)) (\<lambda>cut_frac.
       Inr (inp\<lparr>mode := alt_mode sc, car_occupancy := alt_occupancy sc,
                 monthly_kwh := fmul (monthly_kwh inp) (fsub (Finite 1) cut_frac),
                 diet_type := diet_switch sc,
                 segregation := new_segregation_of (segregation inp) (extra_segregation sc)\<rparr>)))"

section \<open>The export (lines 245 to 275)\<close>

definition export_rows :: "category_tonnes \<Rightarrow> (string \<times> pyfloat) list" where
  \<comment> \<open>lines 245 to 247: the rows of the data frame, and the items of \<^verbatim>\<open>results_tCO2e\<close> (line 274)\<close>
  "export_rows c =
     [(''Transportation'', Transportation c), (''Electricity'', Electricity c),
      (''Diet'', Diet c), (''Waste'', Waste c)] @ [(''Total'', py_sum (cat_values c))]"

definition export_total :: "category_tonnes \<Rightarrow> py_error + pyfloat" where
  "export_total c = dict_get (export_rows c) ''Total''"

section \<open>The input domains\<close>

text \<open>
  An input is valid when its keys are keys of the tables, its three quantities are finite
  floats that are not negative, the days lie in \<open>[0, 365]\<close>, the segregation rate in
  \<open>[0, 100]\<close> and the occupancy is at least 1. The widgets of the form (lines 56 to 96)
  bound the quantities further: the distance by 200, the consumption by 2000 and the waste
  by 100. A scenario is valid when its keys are known, the consumption cut lies in
  \<open>[0, 100]\<close> and the segregation increment is not negative.
\<close>

definition max_float :: rat where
  \<comment> \<open>the largest finite binary64 value\<close>
  "max_float = (2 ^ 53 - 1) * 2 ^ 971"

fun in_range :: "pyfloat \<Rightarrow> rat \<Rightarrow> rat \<Rightarrow> bool" where
  "in_range (Finite a) lo hi = (lo \<le> a \<and> a \<le> hi)"
| "in_range _ lo hi = False"

definition keys :: "(string \<times> 'v) list \<Rightarrow> string list" where
  "keys d = map fst d"

definition known_keys :: "activity_input \<Rightarrow> bool" where
  "known_keys inp =
     (mode inp \<in> set (keys TRANSPORT_EF_PAXKM) \<and>
      country inp \<in> set (keys ELECTRICITY_EF) \<and>
      diet_type inp \<in> set (keys DIET_DAILY) \<and>
      waste_treatment inp \<in> set (keys WASTE_EF))"

definition valid_input :: "activity_input \<Rightarrow> bool" where
  "valid_input inp =
     (known_keys inp \<and>
      in_range (daily_commute_km inp) 0 max_float \<and>
      0 \<le> commute_days inp \<and> commute_days inp \<le> 365 \<and>
      fge (car_occupancy inp) (Finite 1) \<and>
      in_range (monthly_kwh inp) 0 max_float \<and>
      in_range (weekly_waste_kg inp) 0 max_float \<and>
      0 \<le> segregation inp \<and> segregation inp \<le> 100)"

definition form_input :: "activity_input \<Rightarrow> bool" where
  "form_input inp =
     (valid_input inp \<and>
      in_range (daily_commute_km inp) 0 200 \<and>
      in_range (monthly_kwh inp) 0 2000 \<and>
      in_range (weekly_waste_kg inp) 0 100)"

definition valid_scenario :: "scenario \<Rightarrow> bool" where
  "valid_scenario sc =
     (alt_mode sc \<in> set (keys TRANSPORT_EF_PAXKM) \<and>
      fge (alt_occupancy sc) (Finite 1) \<and>
      0 \<le> kwh_cut sc \<and> kwh_cut sc \<le> 100 \<and>
      diet_switch sc \<in> set (keys DIET_DAILY) \<and>
      0 \<le> extra_segregation sc)"

section \<open>Observations on a run\<close>

fun nonneg :: "pyfloat \<Rightarrow> bool" where
  \<comment> \<open>a value of \<open>[0, +inf]\<close>\<close>
  "nonneg (Finite a) = (0 \<le> a)"
| "nonneg PosInf = True"
| "nonneg _ = False"

definition entry_le :: "py_error + pyfloat \<Rightarrow> py_error + pyfloat \<Rightarrow> bool" where
  \<comment> \<open>both runs return, and \<^verbatim>\<open>a <= b\<close> holds of their values\<close>
  "entry_le a b =
     (case a of Inl _ \<Rightarrow> False
      | Inr x \<Rightarrow> (case b of Inl _ \<Rightarrow> False | Inr y \<Rightarrow> fge y x))"

definition fails :: "py_error + 'a \<Rightarrow> bool" where
  "fails r = (case r of Inl _ \<Rightarrow> True | Inr _ \<Rightarrow> False)"

definition category_of :: "(category_tonnes \<Rightarrow> pyfloat) \<Rightarrow> activity_input \<Rightarrow> py_error + pyfloat" where
  \<comment> \<open>one entry of \<^verbatim>\<open>category_tonnes\<close> after the calculation\<close>
  "category_of f inp = bind_err (compute inp) (\<lambda>c. Inr (f (categories c)))"

definition total_of :: "activity_input \<Rightarrow> py_error + pyfloat" where
  "total_of inp = bind_err (compute inp) (\<lambda>c. Inr (total_tonnes c))"

definition exported_total_of :: "activity_input \<Rightarrow> py_error + pyfloat" where
  \<comment> \<open>the \<^verbatim>\<open>Total\<close> of the download tab after the calculation\<close>
  "exported_total_of inp = bind_err (compute inp) (\<lambda>c. export_total (categories c))"

definition run_what_if :: "activity_input \<Rightarrow> scenario \<Rightarrow> py_error + what_if_result" where
  \<comment> \<open>the script runs the calculation, then the what-if tab on its variables\<close>
  "run_what_if inp sc = bind_err (compute inp) (\<lambda>c. what_if inp (categories c) sc)"

definition total_of_alternate :: "activity_input \<Rightarrow> scenario \<Rightarrow> py_error + pyfloat" where
  \<comment> \<open>the total the calculation gives on the inputs the scenario stands for\<close>
  "total_of_alternate inp sc = bind_err (alternate_input inp sc) total_of"

definition raw_tonne :: "pyfloat \<Rightarrow> rat option" where
  \<comment> \<open>\<^verbatim>\<open>kg / 1000.0\<close>, not rounded to three decimals, when it is finite\<close>
  "raw_tonne kg = (case fdiv kg (Finite 1000) of Inr (Finite t) \<Rightarrow> Some t | _ \<Rightarrow> None)"

definition rounding_gap :: "calculation \<Rightarrow> rat option" where
  \<comment> \<open>the distance of the total from the exact sum of the four unrounded tonnes values\<close>
  "rounding_gap c =
     (case raw_tonne (transport_emissions_kg c) of None \<Rightarrow> None | Some t \<Rightarrow>
      case raw_tonne (electricity_emissions_kg c) of None \<Rightarrow> None | Some e \<Rightarrow>
      case raw_tonne (diet_emissions_kg c) of None \<Rightarrow> None | Some d \<Rightarrow>
      case raw_tonne (waste_emissions_kg c) of None \<Rightarrow> None | Some w \<Rightarrow>
      case total_tonnes c of Finite tot \<Rightarrow> Some \<bar>tot - (t + e + d + w)\<bar> | _ \<Rightarrow> None)"

definition gap_of :: "activity_input \<Rightarrow> py_error + rat option" where
  "gap_of inp = bind_err (compute inp) (\<lambda>c. Inr (rounding_gap c))"

fun near :: "pyfloat \<Rightarrow> rat \<Rightarrow> rat \<Rightarrow> bool" where
  \<comment> \<open>a finite value at most \<open>tol\<close> away from \<open>c\<close>\<close>
  "near (Finite a) c tol = (\<bar>a - c\<bar> \<le> tol)"
| "near _ c tol = False"

definition approx_result ::
  "py_error + calculation \<Rightarrow> rat \<Rightarrow> rat \<Rightarrow> rat \<Rightarrow> rat \<Rightarrow> rat \<Rightarrow> rat \<Rightarrow> bool" where
  "approx_result res t e d w tot tol =
     (case res of Inl _ \<Rightarrow> False
      | Inr c \<Rightarrow> near (Transportation (categories c)) t tol \<and>
                 near (Electricity (categories c)) e tol \<and>
                 near (Diet (categories c)) d tol \<and>
                 near (Waste (categories c)) w tol \<and>
                 near (total_tonnes c) tot tol)"

definition all_zero_result :: "py_error + calculation \<Rightarrow> bool" where
  "all_zero_result res =
     (case res of Inl _ \<Rightarrow> False
      | Inr c \<Rightarrow> cat_values (categories c) = [Finite 0, Finite 0, Finite 0, Finite 0] \<and>
                 total_tonnes c = Finite 0)"

section \<open>Concrete inputs\<close>

definition default_input :: activity_input where
  \<comment> \<open>the initial values of the widgets\<close>
  "default_input =
     \<lparr>country = ''India'', mode = ''car'', daily_commute_km = Finite 15, commute_days = 240,
      car_occupancy = Finite 1, monthly_kwh = Finite 250, diet_type = ''Medium meat'',
      weekly_waste_kg = Finite 4, waste_treatment = ''Landfill (typical managed)'',
      segregation = 20\<rparr>"

definition zero_input :: activity_input where
  \<comment> \<open>every slider of a quantity at zero\<close>
  "zero_input =
     default_input\<lparr>daily_commute_km := Finite 0, commute_days := 0, monthly_kwh := Finite 0,
                   weekly_waste_kg := Finite 0\<rparr>"

definition same_scenario :: "activity_input \<Rightarrow> scenario" where
  \<comment> \<open>the what-if widgets set to change nothing\<close>
  "same_scenario inp =
     \<lparr>alt_mode = mode inp, alt_occupancy = car_occupancy inp, kwh_cut = 0,
      diet_switch = diet_type inp, extra_segregation = 0\<rparr>"

definition high_meat_input :: activity_input where
  "high_meat_input =
     default_input\<lparr>diet_type := ''High meat'', weekly_waste_kg := Finite 3, segregation := 0\<rparr>"

definition big_kwh_input :: activity_input where
  \<comment> \<open>the form's initial values with a monthly consumption of \<open>10 ^ 20\<close> kWh\<close>
  "big_kwh_input = default_input\<lparr>monthly_kwh := Finite (10 ^ 20)\<rparr>"

definition cap_scenario :: scenario where
  \<comment> \<open>the what-if widgets with the segregation slider at \<open>+90\<close>\<close>
  "cap_scenario =
     \<lparr>alt_mode = ''bus'', alt_occupancy = Finite 2, kwh_cut = 20, diet_switch = ''Vegan'',
      extra_segregation = 90\<rparr>"

section \<open>The calculation on finite values\<close>

text \<open>
  Where no operation overflows, the calculation is a composition of rounded operations on
  rationals. The functions below name these compositions; they are related to the
  calculation by lemmas, for all valid inputs.
\<close>

definition round3_rat :: "rat \<Rightarrow> rat" where
  "round3_rat a = rnd (of_int (rhe (a * 1000)) / 1000)"

definition tonnes_rat :: "rat \<Rightarrow> rat" where
  "tonnes_rat kg = rnd (kg / 1000)"

definition transport_rat :: "rat \<Rightarrow> int \<Rightarrow> rat \<Rightarrow> rat" where
  "transport_rat d days f = rnd (rnd (d * of_int days) * f)"

definition electricity_rat :: "rat \<Rightarrow> rat \<Rightarrow> rat" where
  "electricity_rat k f = rnd (rnd (k * 12) * f)"

definition residual_rat :: "int \<Rightarrow> rat" where
  "residual_rat seg = rnd (1 - rnd (of_int seg / 100))"

definition waste_rat :: "rat \<Rightarrow> int \<Rightarrow> rat \<Rightarrow> rat" where
  "waste_rat w seg f = rnd (rnd (rnd (w * residual_rat seg) * 52) * f)"

definition sum4_rat :: "rat \<Rightarrow> rat \<Rightarrow> rat \<Rightarrow> rat \<Rightarrow> rat" where
  "sum4_rat t e d w = rnd (rnd (rnd (rnd (0 + t) + e) + d) + w)"

definition calculation_of :: "rat \<Rightarrow> rat \<Rightarrow> rat \<Rightarrow> rat \<Rightarrow> calculation" where
  "calculation_of tk ek dk wk =
     \<lparr>transport_emissions_kg = Finite tk, electricity_emissions_kg = Finite ek,
      diet_emissions_kg = Finite dk, waste_emissions_kg = Finite wk,
      categories =
        \<lparr>Transportation = Finite (round3_rat (tonnes_rat tk)),
         Electricity = Finite (round3_rat (tonnes_rat ek)),
         Diet = Finite (round3_rat (tonnes_rat dk)),
         Waste = Finite (round3_rat (tonnes_rat wk))\<rparr>,
      total_tonnes =
        Finite (round3_rat (sum4_rat (round3_rat (tonnes_rat tk)) (round3_rat (tonnes_rat ek))
                              (round3_rat (tonnes_rat dk)) (round3_rat (tonnes_rat wk))))\<rparr>"

section \<open>Properties of the rounding functions\<close>


lemma rhe_cases:
  "rhe y = \<lfloor>y\<rfloor> \<or> rhe y = \<lfloor>y\<rfloor> + 1"
  by (simp add: rhe_def Let_def)

lemma rhe_err: "\<bar>of_int (rhe y) - y\<bar> \<le> 1/2"
proof -
  have "of_int \<lfloor>y\<rfloor> \<le> y" "y < of_int \<lfloor>y\<rfloor> + 1" by linarith+
  then show ?thesis
    by (auto simp: rhe_def Let_def abs_le_iff)
qed

lemma rhe_unique:
  assumes "\<bar>y - of_int n\<bar> < 1/2" shows "rhe y = n"
proof -
  have "\<bar>of_int (rhe y) - y\<bar> \<le> 1/2" by (rule rhe_err)
  with assms have "\<bar>(of_int (rhe y) :: rat) - of_int n\<bar> < 1" by linarith
  then have "\<bar>(of_int (rhe y - n) :: rat)\<bar> < 1" by simp
  then have "\<bar>rhe y - n\<bar> < 1" by (metis of_int_abs of_int_less_1_iff)
  then show ?thesis by linarith
qed

lemma rhe_of_int [simp]: "rhe (of_int n) = n"
  by (rule rhe_unique) simp

lemma rhe_zero [simp]: "rhe 0 = 0"
  using rhe_of_int[of 0] by simp

lemma rhe_numeral [simp]: "rhe (numeral n) = numeral n"
  using rhe_of_int[of "numeral n"] by simp

lemma rhe_mono:
  assumes "x \<le> y" shows "rhe x \<le> rhe y"
proof (cases "\<lfloor>x\<rfloor> = \<lfloor>y\<rfloor>")
  case True
  with assms show ?thesis
    by (auto simp: rhe_def Let_def)
next
  case False
  with assms have "\<lfloor>x\<rfloor> + 1 \<le> \<lfloor>y\<rfloor>" using floor_mono[OF assms] by linarith
  moreover have "rhe x \<le> \<lfloor>x\<rfloor> + 1" using rhe_cases[of x] by linarith
  moreover have "\<lfloor>y\<rfloor> \<le> rhe y" using rhe_cases[of y] by linarith
  ultimately show ?thesis by linarith
qed


lemma pow2_less_iff: "(2::rat) powi a < 2 powi b \<longleftrightarrow> a < b"
proof
  assume l: "(2::rat) powi a < 2 powi b"
  show "a < b"
  proof (rule ccontr)
    assume "\<not> a < b"
    then have "b \<le> a" by simp
    then have "(2::rat) powi b \<le> 2 powi a" by (intro power_int_increasing) simp_all
    with l show False by simp
  qed
next
  assume "a < b"
  then show "(2::rat) powi a < 2 powi b" by (intro power_int_strict_increasing) simp_all
qed

lemma pow2_le_iff: "(2::rat) powi a \<le> 2 powi b \<longleftrightarrow> a \<le> b"
  using pow2_less_iff[of b a] by (simp add: not_less [symmetric])

lemma ilog2_bounds:
  assumes "x \<noteq> 0"
  shows "2 powi (ilog2 x) \<le> \<bar>x\<bar> \<and> \<bar>x\<bar> < 2 powi (ilog2 x + 1)"
proof -
  obtain p q where pq: "quotient_of \<bar>x\<bar> = (p, q)" by (cases "quotient_of \<bar>x\<bar>")
  have q: "0 < q" using pq by (rule quotient_of_denom_pos)
  have x: "\<bar>x\<bar> = of_int p / of_int q" using pq by (rule quotient_of_div)
  have "0 < \<bar>x\<bar>" using assms by simp
  then have p: "0 < p" using q x by (simp add: zero_less_divide_iff)
  define k where "k = bitlen p - bitlen q"
  have bp: "1 \<le> bitlen p" "1 \<le> bitlen q"
    using p q bitlen_eq_zero_iff[of p] bitlen_eq_zero_iff[of q] bitlen_nonneg[of p] bitlen_nonneg[of q]
    by linarith+
  from bitlen_bounds[OF p] have P: "(2::rat) ^ nat (bitlen p - 1) \<le> of_int p" "of_int p < (2::rat) ^ nat (bitlen p)"
    by (metis of_int_le_iff of_int_numeral of_int_power, metis of_int_less_iff of_int_numeral of_int_power)
  from bitlen_bounds[OF q] have Q: "(2::rat) ^ nat (bitlen q - 1) \<le> of_int q" "of_int q < (2::rat) ^ nat (bitlen q)"
    by (metis of_int_le_iff of_int_numeral of_int_power, metis of_int_less_iff of_int_numeral of_int_power)
  have P': "(2::rat) powi (bitlen p - 1) \<le> of_int p" "of_int p < (2::rat) powi (bitlen p)"
    using P bp by (simp_all add: power_int_def)
  have Q': "(2::rat) powi (bitlen q - 1) \<le> of_int q" "of_int q < (2::rat) powi (bitlen q)"
    using Q bp by (simp_all add: power_int_def)
  have qpos: "(0::rat) < of_int q" using q by simp
  have up: "\<bar>x\<bar> < 2 powi (k + 1)"
  proof -
    have "of_int p < (2::rat) powi (bitlen p)" by (rule P')
    also have "\<dots> = 2 powi (k + 1) * 2 powi (bitlen q - 1)"
      by (simp add: k_def flip: power_int_add)
    also have "\<dots> \<le> 2 powi (k + 1) * of_int q"
      using Q'(1) by (intro mult_left_mono) simp_all
    finally show ?thesis unfolding x using qpos by (simp add: pos_divide_less_eq)
  qed
  have lo: "2 powi (k - 1) \<le> \<bar>x\<bar>"
  proof -
    have "2 powi (k - 1) * of_int q \<le> (2::rat) powi (k - 1) * 2 powi (bitlen q)"
      using Q'(2) by (intro mult_left_mono) simp_all
    also have "\<dots> = 2 powi (bitlen p - 1)"
      by (simp add: k_def flip: power_int_add)
    also have "\<dots> \<le> of_int p" by (rule P')
    finally show ?thesis unfolding x using qpos by (simp add: pos_le_divide_eq)
  qed
  have il: "ilog2 x = (if 2 powi k \<le> \<bar>x\<bar> then k else k - 1)"
    by (simp add: ilog2_def pq k_def Let_def)
  show ?thesis
  proof (cases "2 powi k \<le> \<bar>x\<bar>")
    case True
    then show ?thesis using up il by simp
  next
    case False
    then show ?thesis using lo il by simp
  qed
qed

lemma ilog2_unique:
  assumes "2 powi e \<le> \<bar>x\<bar>" "\<bar>x\<bar> < 2 powi (e + 1)"
  shows "ilog2 x = e"
proof -
  have "\<not> (2::rat) powi e \<le> 0" by (simp add: not_le)
  then have "x \<noteq> 0" using assms(1) by auto
  from ilog2_bounds[OF this] have b: "2 powi (ilog2 x) \<le> \<bar>x\<bar>" "\<bar>x\<bar> < 2 powi (ilog2 x + 1)"
    by simp_all
  have "(2::rat) powi e < 2 powi (ilog2 x + 1)" using assms(1) b(2) by linarith
  then have 1: "e < ilog2 x + 1" by (simp add: pow2_less_iff)
  have "(2::rat) powi (ilog2 x) < 2 powi (e + 1)" using assms(2) b(1) by linarith
  then have 2: "ilog2 x < e + 1" by (simp add: pow2_less_iff)
  from 1 2 show ?thesis by linarith
qed


lemma ilog2_mono:
  assumes "0 < x" "x \<le> y" shows "ilog2 x \<le> ilog2 y"
proof -
  have "x \<noteq> 0" "y \<noteq> 0" using assms by auto
  from ilog2_bounds[OF this(1)] ilog2_bounds[OF this(2)] assms
  have "(2::rat) powi (ilog2 x) < 2 powi (ilog2 y + 1)" by simp
  then have "ilog2 x < ilog2 y + 1" by (simp only: pow2_less_iff)
  then show ?thesis by linarith
qed

lemma ulp_exp_ge: "- 1074 \<le> ulp_exp x"
  by (simp add: ulp_exp_def)

lemma rnd_zero [simp]: "rnd 0 = 0"
  using rhe_of_int[of 0] by (simp add: rnd_def)

lemma rnd_nonneg:
  assumes "0 \<le> x" shows "0 \<le> rnd x"
proof -
  have "0 \<le> x / 2 powi ulp_exp x" using assms by simp
  from rhe_mono[OF this] have "0 \<le> rhe (x / 2 powi ulp_exp x)"
    using rhe_of_int[of 0] by simp
  then show ?thesis by (simp add: rnd_def)
qed

lemma rnd_nonpos:
  assumes "x \<le> 0" shows "rnd x \<le> 0"
proof -
  have "x / 2 powi ulp_exp x \<le> 0" using assms by (simp add: divide_le_0_iff)
  from rhe_mono[OF this] have "rhe (x / 2 powi ulp_exp x) \<le> 0"
    using rhe_of_int[of 0] by simp
  then show ?thesis by (simp add: rnd_def mult_le_0_iff)
qed

lemma rnd_err_ulp: "\<bar>rnd x - x\<bar> \<le> 2 powi ulp_exp x / 2"
proof -
  define u :: rat where "u = 2 powi ulp_exp x"
  define a :: rat where "a = of_int (rhe (x / u)) - x / u"
  have u: "0 < u" by (simp add: u_def)
  have r: "rnd x = of_int (rhe (x / u)) * u" by (simp add: rnd_def u_def)
  have "\<bar>a\<bar> \<le> 1/2" unfolding a_def by (rule rhe_err)
  then have A: "\<bar>a\<bar> * u \<le> 1/2 * u"
    using u by (intro mult_right_mono) simp_all
  have "a * u = rnd x - x"
    using u by (simp add: a_def r left_diff_distrib)
  then have "\<bar>rnd x - x\<bar> = \<bar>a\<bar> * u"
    using u by (metis abs_mult abs_of_pos)
  with A have "\<bar>rnd x - x\<bar> \<le> 1/2 * u" by simp
  then show ?thesis by (simp add: u_def)
qed

lemma rnd_err_rel:
  assumes "2 powi (- 1022) \<le> \<bar>x\<bar>"
  shows "\<bar>rnd x - x\<bar> \<le> \<bar>x\<bar> / 2 ^ 53"
proof -
  have "\<not> (2::rat) powi (- 1022) \<le> 0" by (simp add: not_le)
  then have x0: "x \<noteq> 0" using assms by auto
  from ilog2_bounds[OF x0] have b: "2 powi (ilog2 x) \<le> \<bar>x\<bar>" "\<bar>x\<bar> < 2 powi (ilog2 x + 1)" by simp_all
  have "(2::rat) powi (- 1022) < 2 powi (ilog2 x + 1)" using assms b(2) by linarith
  then have "- 1022 < ilog2 x + 1" by (simp only: pow2_less_iff)
  then have "- 1022 \<le> ilog2 x" by linarith
  then have t: "ulp_exp x = ilog2 x - 52" by (simp add: ulp_exp_def)
  have "\<bar>rnd x - x\<bar> \<le> 2 powi (ilog2 x - 52) / 2" using rnd_err_ulp[of x] by (simp add: t)
  also have "\<dots> = 2 powi (ilog2 x) / 2 ^ 53"
    by (simp add: power_int_diff)
  also have "\<dots> \<le> \<bar>x\<bar> / 2 ^ 53" using b(1) by (simp add: divide_right_mono)
  finally show ?thesis .
qed

lemma rnd_exact:
  assumes "\<bar>n\<bar> < 2 ^ 53" "- 1074 \<le> k"
  shows "rnd (of_int n * 2 powi k) = of_int n * 2 powi k"
proof (cases "n = 0")
  case True
  then show ?thesis by simp
next
  case False
  define x :: rat where "x = of_int n * 2 powi k"
  have x0: "x \<noteq> 0" using False by (simp add: x_def)
  from ilog2_bounds[OF x0] have b: "2 powi (ilog2 x) \<le> \<bar>x\<bar>" by simp
  have "\<bar>x\<bar> = of_int \<bar>n\<bar> * 2 powi k" by (simp add: x_def abs_mult)
  also have "\<dots> < 2 ^ 53 * 2 powi k"
  proof -
    have "(of_int \<bar>n\<bar> :: rat) < of_int (2 ^ 53)" using assms(1) by (simp only: of_int_less_iff)
    then show ?thesis by (intro mult_strict_right_mono) simp_all
  qed
  also have "\<dots> = 2 powi (53 + k)" by (simp add: power_int_add)
  finally have "(2::rat) powi (ilog2 x) < 2 powi (53 + k)" using b by linarith
  then have "ilog2 x < 53 + k" by (simp only: pow2_less_iff)
  then have tk: "ulp_exp x \<le> k" using assms(2) by (simp add: ulp_exp_def)
  define m where "m = nat (k - ulp_exp x)"
  have "x / 2 powi ulp_exp x = of_int n * 2 powi (k - ulp_exp x)"
    by (simp add: x_def power_int_diff)
  also have "\<dots> = of_int n * 2 ^ m" using tk by (simp add: m_def power_int_def)
  also have "\<dots> = of_int (n * 2 ^ m)" by simp
  finally have "rhe (x / 2 powi ulp_exp x) = n * 2 ^ m" by (simp only: rhe_of_int)
  then have "rnd x = of_int (n * 2 ^ m) * 2 powi ulp_exp x" by (simp add: rnd_def)
  also have "\<dots> = of_int n * (2 powi (k - ulp_exp x) * 2 powi ulp_exp x)"
    using tk by (simp add: m_def power_int_def)
  also have "\<dots> = of_int n * 2 powi k" by (simp flip: power_int_add)
  finally show ?thesis by (simp add: x_def)
qed

lemma rnd_of_int:
  assumes "\<bar>n\<bar> \<le> 2 ^ 53" shows "rnd (of_int n) = of_int n"
proof (cases "\<bar>n\<bar> = 2 ^ 53")
  case True
  then have "n = 2 ^ 52 * 2 \<or> n = - (2 ^ 52) * 2" by auto
  then have "(of_int n :: rat) = of_int (2 ^ 52) * 2 powi 1 \<or> (of_int n :: rat) = of_int (- (2 ^ 52)) * 2 powi 1"
    by auto
  then show ?thesis
    using rnd_exact[of "2 ^ 52" 1] rnd_exact[of "- (2 ^ 52)" 1] by auto
next
  case False
  with assms have "\<bar>n\<bar> < 2 ^ 53" by simp
  from rnd_exact[OF this, of 0] show ?thesis by simp
qed


lemma rnd_mono_pos:
  assumes "0 < x" "x \<le> y" shows "rnd x \<le> rnd y"
proof -
  define tx where "tx = ulp_exp x"
  define ty where "ty = ulp_exp y"
  have y: "0 < y" using assms by simp
  have le: "tx \<le> ty" using ilog2_mono[OF assms] by (simp add: tx_def ty_def ulp_exp_def)
  show ?thesis
  proof (cases "tx = ty")
    case True
    have "x / 2 powi ty \<le> y / 2 powi ty" using assms(2) by (simp add: divide_right_mono)
    from rhe_mono[OF this] have "(of_int (rhe (x / 2 powi ty)) :: rat) \<le> of_int (rhe (y / 2 powi ty))"
      by simp
    then have "of_int (rhe (x / 2 powi ty)) * (2::rat) powi ty \<le> of_int (rhe (y / 2 powi ty)) * 2 powi ty"
      by (intro mult_right_mono) simp_all
    then show ?thesis using True by (simp add: rnd_def tx_def ty_def)
  next
    case False
    with le have lt: "tx + 1 \<le> ty" by simp
    have "- 1074 \<le> tx" unfolding tx_def by (rule ulp_exp_ge)
    with lt have ty_eq: "ty = ilog2 y - 52" by (simp add: ty_def ulp_exp_def)
    have y0: "y \<noteq> 0" using y by simp
    from ilog2_bounds[OF y0] y have "2 powi (ty + 52) \<le> y" by (simp add: ty_eq)
    then have "2 powi ty * 2 ^ 52 \<le> y" by (simp add: power_int_add)
    then have "of_int (2 ^ 52) \<le> y / 2 powi ty" by (simp add: pos_le_divide_eq mult.commute)
    from rhe_mono[OF this] have "2 ^ 52 \<le> rhe (y / 2 powi ty)" by (simp only: rhe_of_int)
    then have "(of_int (2 ^ 52) :: rat) \<le> of_int (rhe (y / 2 powi ty))" by (simp only: of_int_le_iff)
    then have "of_int (2 ^ 52) * (2::rat) powi ty \<le> of_int (rhe (y / 2 powi ty)) * 2 powi ty"
      by (intro mult_right_mono) simp_all
    then have lo: "2 powi (ty + 52) \<le> rnd y"
      by (simp add: rnd_def ty_def power_int_add mult.commute)
    have x0: "x \<noteq> 0" using assms by simp
    have "ilog2 x \<le> tx + 52" by (simp add: tx_def ulp_exp_def)
    then have "(2::rat) powi (ilog2 x + 1) \<le> 2 powi (tx + 53)" by (simp only: pow2_le_iff)
    with ilog2_bounds[OF x0] assms(1) have "x \<le> 2 powi (tx + 53)" by simp
    then have "x \<le> 2 powi tx * 2 ^ 53" by (simp add: power_int_add)
    then have "x / 2 powi tx \<le> of_int (2 ^ 53)" by (simp add: pos_divide_le_eq mult.commute)
    from rhe_mono[OF this] have "rhe (x / 2 powi tx) \<le> 2 ^ 53" by (simp only: rhe_of_int)
    then have "(of_int (rhe (x / 2 powi tx)) :: rat) \<le> of_int (2 ^ 53)" by (simp only: of_int_le_iff)
    then have "of_int (rhe (x / 2 powi tx)) * (2::rat) powi tx \<le> of_int (2 ^ 53) * 2 powi tx"
      by (intro mult_right_mono) simp_all
    then have "rnd x \<le> 2 powi (tx + 53)"
      by (simp add: rnd_def tx_def power_int_add mult.commute)
    also have "\<dots> \<le> 2 powi (ty + 52)" using lt by (simp only: pow2_le_iff)
    also note lo
    finally show ?thesis .
  qed
qed

lemma rnd_mono:
  assumes "0 \<le> x" "x \<le> y" shows "rnd x \<le> rnd y"
proof (cases "x = 0")
  case True
  then show ?thesis using rnd_nonneg[of y] assms by simp
next
  case False
  with assms have "0 < x" by simp
  then show ?thesis using assms(2) by (rule rnd_mono_pos)
qed

lemma rnd_le_int:
  assumes "0 \<le> x" "x \<le> of_int n" "n \<le> 2 ^ 53" shows "rnd x \<le> of_int n"
proof -
  have "0 \<le> n" using assms(1,2) by (metis of_int_0_le_iff order_trans)
  with assms(3) have "\<bar>n\<bar> \<le> 2 ^ 53" by simp
  from rnd_of_int[OF this] rnd_mono[OF assms(1,2)] show ?thesis by simp
qed

lemma rhe_tie:
  assumes "y = of_int f + 1/2"
  shows "rhe y = (if even f then f else f + 1)"
proof -
  have "\<lfloor>y\<rfloor> = f" unfolding assms by linarith
  then show ?thesis by (simp add: rhe_def Let_def assms)
qed

lemma rnd_eqI_rhe:
  assumes "m \<le> 1074"
    and "2 ^ 52 \<le> \<bar>x\<bar> * 2 ^ m" and "\<bar>x\<bar> * 2 ^ m < 2 ^ 53"
    and "rhe (x * 2 ^ m) = n"
  shows "rnd x = of_int n / 2 ^ m"
proof -
  define e where "e = 52 - int m"
  have p: "(2::rat) powi (- int m) * 2 ^ m = 1"
    by (simp add: power_int_minus)
  have "2 powi e = 2 ^ 52 * (2::rat) powi (- int m)" by (simp add: e_def power_int_diff power_int_minus field_simps)
  also have "\<dots> \<le> (\<bar>x\<bar> * 2 ^ m) * 2 powi (- int m)" using assms(2) by (intro mult_right_mono) simp_all
  also have "\<dots> = \<bar>x\<bar>" using p by (simp add: mult.assoc mult.commute)
  finally have lo: "2 powi e \<le> \<bar>x\<bar>" .
  have "\<bar>x\<bar> = (\<bar>x\<bar> * 2 ^ m) * 2 powi (- int m)" using p by (simp add: mult.assoc mult.commute)
  also have "\<dots> < 2 ^ 53 * (2::rat) powi (- int m)" using assms(3) by (intro mult_strict_right_mono) simp_all
  also have "\<dots> = 2 powi (e + 1)" by (simp add: e_def power_int_diff power_int_add power_int_minus field_simps)
  finally have hi: "\<bar>x\<bar> < 2 powi (e + 1)" .
  have "ilog2 x = e" using lo hi by (rule ilog2_unique)
  moreover have "- 1022 \<le> e" using assms(1) by (simp add: e_def)
  ultimately have t: "ulp_exp x = - int m" by (simp add: ulp_exp_def e_def)
  have "x / 2 powi (- int m) = x * 2 ^ m" by (simp add: power_int_minus field_simps)
  then have "rhe (x / 2 powi (- int m)) = n" using assms(4) by simp
  then show ?thesis by (simp add: rnd_def t power_int_minus field_simps)
qed

lemma rnd_eqI:
  assumes "m \<le> 1074"
    and "2 ^ 52 \<le> \<bar>x\<bar> * 2 ^ m" and "\<bar>x\<bar> * 2 ^ m < 2 ^ 53"
    and "\<bar>x * 2 ^ m - of_int n\<bar> < 1/2"
  shows "rnd x = of_int n / 2 ^ m"
  using assms(1-3) rhe_unique[OF assms(4)] by (rule rnd_eqI_rhe)

lemma rnd_eqI_up_rhe:
  assumes "2 ^ 52 \<le> \<bar>x\<bar> / 2 ^ m" and "\<bar>x\<bar> / 2 ^ m < 2 ^ 53"
    and "rhe (x / 2 ^ m) = n"
  shows "rnd x = of_int n * 2 ^ m"
proof -
  define e where "e = 52 + int m"
  have "2 powi e = 2 ^ 52 * (2::rat) ^ m" by (simp add: e_def power_int_add)
  also have "\<dots> \<le> (\<bar>x\<bar> / 2 ^ m) * 2 ^ m" using assms(1) by (intro mult_right_mono) simp_all
  also have "\<dots> = \<bar>x\<bar>" by simp
  finally have lo: "2 powi e \<le> \<bar>x\<bar>" .
  have "\<bar>x\<bar> = (\<bar>x\<bar> / 2 ^ m) * 2 ^ m" by simp
  also have "\<dots> < 2 ^ 53 * (2::rat) ^ m" using assms(2) by (intro mult_strict_right_mono) simp_all
  also have "\<dots> = 2 powi (e + 1)" by (simp add: e_def power_int_add)
  finally have hi: "\<bar>x\<bar> < 2 powi (e + 1)" .
  have "ilog2 x = e" using lo hi by (rule ilog2_unique)
  then have t: "ulp_exp x = int m" by (simp add: ulp_exp_def e_def)
  show ?thesis using assms(3) by (simp add: rnd_def t)
qed

lemma rnd_eqI_up:
  assumes "2 ^ 52 \<le> \<bar>x\<bar> / 2 ^ m" and "\<bar>x\<bar> / 2 ^ m < 2 ^ 53"
    and "\<bar>x / 2 ^ m - of_int n\<bar> < 1/2"
  shows "rnd x = of_int n * 2 ^ m"
  using assms(1,2) rhe_unique[OF assms(3)] by (rule rnd_eqI_up_rhe)

lemma fl_finite:
  assumes "0 \<le> x" "x \<le> 2 ^ 1023" shows "fl x = Finite (rnd x)"
proof -
  have "x \<le> of_int (2 ^ 52) * 2 powi 971" using assms(2) by simp
  from rnd_mono[OF assms(1) this] have "rnd x \<le> of_int (2 ^ 52) * 2 powi 971"
    using rnd_exact[of "2 ^ 52" 971] by simp
  then have "rnd x < 2 ^ 1024" by simp
  moreover have "0 \<le> rnd x" using assms(1) by (rule rnd_nonneg)
  ultimately show ?thesis by (simp add: fl_def Let_def)
qed

lemma fl_eqI:
  assumes "rnd x = r" "\<bar>r\<bar> < 2 ^ 1024" shows "fl x = Finite r"
  using assms by (auto simp: fl_def Let_def)

lemma fl_Finite_rnd: "fl x = Finite r \<Longrightarrow> rnd x = r"
  by (auto simp: fl_def Let_def split: if_splits)

section \<open>Evaluations of the rounding functions\<close>

lemma fl_1: "fl (179 / 250) = Finite (3224577333197275 / 4503599627370496)"
  using rnd_eqI[of 53 "(179 / 250)" "6449154666394550"] by (simp add: fl_def)

lemma fl_2: "fl (17 / 100) = Finite (6124895493223875 / 36028797018963968)"
  using rnd_eqI[of 55 "(17 / 100)" "6124895493223875"] by (simp add: fl_def)

lemma fl_3: "fl (97 / 1000) = Finite (3494793310839505 / 36028797018963968)"
  using rnd_eqI[of 56 "(97 / 1000)" "6989586621679010"] by (simp add: fl_def)

lemma fl_4: "fl (1 / 125) = Finite (1152921504606847 / 144115188075855872)"
  using rnd_eqI[of 59 "(1 / 125)" "4611686018427388"] by (simp add: fl_def)

lemma fl_5: "fl (719 / 100) = Finite (8095220330198467 / 1125899906842624)"
  using rnd_eqI[of 50 "(719 / 100)" "8095220330198467"] by (simp add: fl_def)

lemma fl_6: "fl (563 / 100) = Finite (6338816475523973 / 1125899906842624)"
  using rnd_eqI[of 50 "(563 / 100)" "6338816475523973"] by (simp add: fl_def)

lemma fl_7: "fl (467 / 100) = Finite (2628976282477527 / 562949953421312)"
  using rnd_eqI[of 50 "(467 / 100)" "5257952564955054"] by (simp add: fl_def)

lemma fl_8: "fl (391 / 100) = Finite (1100567158938665 / 281474976710656)"
  using rnd_eqI[of 51 "(391 / 100)" "8804537271509320"] by (simp add: fl_def)

lemma fl_9: "fl (381 / 100) = Finite (8579357290140795 / 2251799813685248)"
  using rnd_eqI[of 51 "(381 / 100)" "8579357290140795"] by (simp add: fl_def)

lemma fl_10: "fl (289 / 100) = Finite (6507701461550367 / 2251799813685248)"
  using rnd_eqI[of 51 "(289 / 100)" "6507701461550367"] by (simp add: fl_def)

lemma fl_11: "fl (9 / 20) = Finite (8106479329266893 / 18014398509481984)"
  using rnd_eqI[of 54 "(9 / 20)" "8106479329266893"] by (simp add: fl_def)

lemma fl_12: "fl (11 / 10) = Finite (2476979795053773 / 2251799813685248)"
  using rnd_eqI[of 52 "(11 / 10)" "4953959590107546"] by (simp add: fl_def)

lemma fl_13: "fl (1 / 10) = Finite (3602879701896397 / 36028797018963968)"
  using rnd_eqI[of 56 "(1 / 10)" "7205759403792794"] by (simp add: fl_def)

lemma fl_14: "fl 240 = Finite 240"
  using rnd_eqI[of 45 "240" "8444249301319680"] by (simp add: fl_def)

lemma fl_15: "fl 3600 = Finite 3600"
  using rnd_eqI[of 41 "3600" "7916483719987200"] by (simp add: fl_def)

lemma fl_16: "fl (1378101485975371875 / 2251799813685248) = Finite 612"
  using rnd_eqI[of 43 "(1378101485975371875 / 2251799813685248)" "5383208929591296"] by (simp add: fl_def)

lemma fl_17: "fl 3000 = Finite 3000"
  using rnd_eqI[of 41 "3000" "6597069766656000"] by (simp add: fl_def)

lemma fl_18: "fl (1209216499948978125 / 562949953421312) = Finite 2148"
  using rnd_eqI[of 41 "(1209216499948978125 / 562949953421312)" "4723501952925696"] by (simp add: fl_def)

lemma fl_19: "fl (2313668013566250145 / 1125899906842624) = Finite (2259441419498291 / 1099511627776)"
  using rnd_eqI[of 41 "(2313668013566250145 / 1125899906842624)" "4518882838996582"] by (simp add: fl_def)

lemma fl_20: "fl 20 = Finite 20"
  using rnd_eqI[of 48 "20" "5629499534213120"] by (simp add: fl_def)

lemma fl_21: "fl (1 / 5) = Finite (3602879701896397 / 18014398509481984)"
  using rnd_eqI[of 55 "(1 / 5)" "7205759403792794"] by (simp add: fl_def)

lemma fl_22: "fl (14411518807585587 / 18014398509481984) = Finite (3602879701896397 / 4503599627370496)"
  using rhe_tie[of "(14411518807585587 / 18014398509481984) * 2 ^ 53" "7205759403792793"] rnd_eqI_rhe[of 53 "(14411518807585587 / 18014398509481984)" "7205759403792794"]
  by (simp add: fl_def)

lemma fl_23: "fl (3602879701896397 / 1125899906842624) = Finite (3602879701896397 / 1125899906842624)"
  using rnd_eqI[of 51 "(3602879701896397 / 1125899906842624)" "7205759403792794"] by (simp add: fl_def)

lemma fl_24: "fl (46837436124653161 / 281474976710656) = Finite (5854679515581645 / 35184372088832)"
  using rnd_eqI[of 45 "(46837436124653161 / 281474976710656)" "5854679515581645"] by (simp add: fl_def)

lemma fl_25: "fl (47460838472544911584268336978985 / 633825300114114700748351602688) = Finite (5269211564023481 / 70368744177664)"
  using rnd_eqI[of 46 "(47460838472544911584268336978985 / 633825300114114700748351602688)" "5269211564023481"] by (simp add: fl_def)

lemma fl_26: "fl (153 / 250) = Finite (5512405943901487 / 9007199254740992)"
  using rnd_eqI[of 53 "(153 / 250)" "5512405943901487"] by (simp add: fl_def)

lemma rhe_1: "rhe (689050742987685875 / 1125899906842624) = 612"
  using rhe_unique[of "(689050742987685875 / 1125899906842624)" "612"] by simp

lemma fl_27: "fl (537 / 250) = Finite (4836865999795913 / 2251799813685248)"
  using rnd_eqI[of 51 "(537 / 250)" "4836865999795913"] by (simp add: fl_def)

lemma rhe_2: "rhe (604608249974489125 / 281474976710656) = 2148"
  using rhe_unique[of "(604608249974489125 / 281474976710656)" "2148"] by simp

lemma fl_28: "fl (2259441419498291 / 1099511627776000) = Finite (1156834006783125 / 562949953421312)"
  using rnd_eqI[of 51 "(2259441419498291 / 1099511627776000)" "4627336027132500"] by (simp add: fl_def)

lemma rhe_3: "rhe (144604250847890625 / 70368744177664) = 2055"
  using rhe_unique[of "(144604250847890625 / 70368744177664)" "2055"] by simp

lemma fl_29: "fl (411 / 200) = Finite (4627448617123185 / 2251799813685248)"
  using rnd_eqI[of 51 "(411 / 200)" "4627448617123185"] by (simp add: fl_def)

lemma fl_30: "fl (5269211564023481 / 70368744177664000) = Finite (5395672641560045 / 72057594037927936)"
  using rnd_eqI[of 56 "(5269211564023481 / 70368744177664000)" "5395672641560045"] by (simp add: fl_def)

lemma rhe_4: "rhe (674459080195005625 / 9007199254740992) = 75"
  using rhe_unique[of "(674459080195005625 / 9007199254740992)" "75"] by simp

lemma fl_31: "fl (3 / 40) = Finite (5404319552844595 / 72057594037927936)"
  using rnd_eqI[of 56 "(3 / 40)" "5404319552844595"] by (simp add: fl_def)

lemma fl_32: "fl (5512405943901487 / 9007199254740992) = Finite (5512405943901487 / 9007199254740992)"
  using rnd_eqI[of 53 "(5512405943901487 / 9007199254740992)" "5512405943901487"] by (simp add: fl_def)

lemma fl_33: "fl (24859869943085139 / 9007199254740992) = Finite (6214967485771285 / 2251799813685248)"
  using rnd_eqI[of 51 "(24859869943085139 / 9007199254740992)" "6214967485771285"] by (simp add: fl_def)

lemma fl_34: "fl (5421208051447235 / 1125899906842624) = Finite (5421208051447235 / 1125899906842624)"
  using rnd_eqI[of 50 "(5421208051447235 / 1125899906842624)" "5421208051447235"] by (simp add: fl_def)

lemma fl_35: "fl (352361634845467635 / 72057594037927936) = Finite (344103159028777 / 70368744177664)"
  using rnd_eqI[of 50 "(352361634845467635 / 72057594037927936)" "5505650544460432"] by (simp add: fl_def)

lemma rhe_5: "rhe (43012894878597125 / 8796093022208) = 4890"
  using rhe_unique[of "(43012894878597125 / 8796093022208)" "4890"] by simp

lemma fl_36: "fl (489 / 100) = Finite (5505650544460431 / 1125899906842624)"
  using rnd_eqI[of 50 "(489 / 100)" "5505650544460431"] by (simp add: fl_def)

lemma fl_37: "fl 0 = Finite 0"
  by (simp add: fl_def)

lemma rhe_6: "rhe 0 = 0"
  using rhe_unique[of "0" "0"] by simp

lemma fl_38: "fl (4627448617123185 / 2251799813685248) = Finite (4627448617123185 / 2251799813685248)"
  using rnd_eqI[of 51 "(4627448617123185 / 2251799813685248)" "4627448617123185"] by (simp add: fl_def)

lemma rhe_7: "rhe (578431077140398125 / 281474976710656) = 2055"
  using rhe_unique[of "(578431077140398125 / 281474976710656)" "2055"] by simp

lemma fl_39: "fl 150 = Finite 150"
  using rnd_eqI[of 45 "150" "5277655813324800"] by (simp add: fl_def)

lemma fl_40: "fl (3 / 2) = Finite (3 / 2)"
  using rnd_eqI[of 52 "(3 / 2)" "6755399441055744"] by (simp add: fl_def)

lemma fl_41: "fl (- (1 / 2)) = Finite (- (1 / 2))"
  using rnd_eqI[of 53 "(- (1 / 2))" "(- 4503599627370496)"] by (simp add: fl_def)

lemma fl_42: "fl (- 2) = Finite (- 2)"
  using rnd_eqI[of 51 "(- 2)" "(- 4503599627370496)"] by (simp add: fl_def)

lemma fl_43: "fl (- 104) = Finite (- 104)"
  using rnd_eqI[of 46 "(- 104)" "(- 7318349394477056)"] by (simp add: fl_def)

lemma fl_44: "fl (- (105384231280469609 / 2251799813685248)) = Finite (- (6586514455029351 / 140737488355328))"
  using rnd_eqI[of 47 "(- (105384231280469609 / 2251799813685248))" "(- 6586514455029351)"] by (simp add: fl_def)

lemma fl_45: "fl (- (6586514455029351 / 140737488355328000)) = Finite (- (6744590801950055 / 144115188075855872))"
  using rnd_eqI[of 57 "(- (6586514455029351 / 140737488355328000))" "(- 6744590801950055)"] by (simp add: fl_def)

lemma rhe_8: "rhe (- (843073850243756875 / 18014398509481984)) = (- 47)"
  using rhe_unique[of "(- (843073850243756875 / 18014398509481984))" "(- 47)"] by simp

lemma fl_46: "fl (- (47 / 1000)) = Finite (- (3386706919782613 / 72057594037927936))"
  using rnd_eqI[of 57 "(- (47 / 1000))" "(- 6773413839565226)"] by (simp add: fl_def)

lemma fl_47: "fl (343570608372840427 / 72057594037927936) = Finite (167759086119551 / 35184372088832)"
  using rnd_eqI[of 50 "(343570608372840427 / 72057594037927936)" "5368290755825632"] by (simp add: fl_def)

lemma rhe_9: "rhe (20969885764943875 / 4398046511104) = 4768"
  using rhe_unique[of "(20969885764943875 / 4398046511104)" "4768"] by simp

lemma fl_48: "fl (596 / 125) = Finite (5368290755825631 / 1125899906842624)"
  using rnd_eqI[of 50 "(596 / 125)" "5368290755825631"] by (simp add: fl_def)

lemma fl_49: "fl 400 = Finite 400"
  using rnd_eqI[of 44 "400" "7036874417766400"] by (simp add: fl_def)

lemma fl_50: "fl 6000 = Finite 6000"
  using rnd_eqI[of 40 "6000" "6597069766656000"] by (simp add: fl_def)

lemma fl_51: "fl (2296835809958953125 / 2251799813685248) = Finite (8972014882652161 / 8796093022208)"
  using rnd_eqI[of 43 "(2296835809958953125 / 2251799813685248)" "8972014882652161"] by (simp add: fl_def)

lemma fl_52: "fl (8972014882652161 / 8796093022208000) = Finite (2296835809958953 / 2251799813685248)"
  using rnd_eqI[of 52 "(8972014882652161 / 8796093022208000)" "4593671619917906"] by (simp add: fl_def)

lemma rhe_10: "rhe (287104476244869125 / 281474976710656) = 1020"
  using rhe_unique[of "(287104476244869125 / 281474976710656)" "1020"] by simp

lemma fl_53: "fl (51 / 50) = Finite (2296835809958953 / 2251799813685248)"
  using rnd_eqI[of 52 "(51 / 50)" "4593671619917906"] by (simp add: fl_def)

lemma fl_54: "fl (2296835809958953 / 2251799813685248) = Finite (2296835809958953 / 2251799813685248)"
  using rnd_eqI[of 52 "(2296835809958953 / 2251799813685248)" "4593671619917906"] by (simp add: fl_def)

lemma fl_55: "fl (3566850904877433 / 1125899906842624) = Finite (3566850904877433 / 1125899906842624)"
  using rnd_eqI[of 51 "(3566850904877433 / 1125899906842624)" "7133701809754866"] by (simp add: fl_def)

lemma fl_56: "fl (11761150426878051 / 2251799813685248) = Finite (2940287606719513 / 562949953421312)"
  using rhe_tie[of "(11761150426878051 / 2251799813685248) * 2 ^ 50" "5880575213439025"] rnd_eqI_rhe[of 50 "(11761150426878051 / 2251799813685248)" "5880575213439026"]
  by (simp add: fl_def)

lemma fl_57: "fl (381761133212942259 / 72057594037927936) = Finite (5965017706452223 / 1125899906842624)"
  using rnd_eqI[of 50 "(381761133212942259 / 72057594037927936)" "5965017706452223"] by (simp add: fl_def)

lemma rhe_11: "rhe (745627213306527875 / 140737488355328) = 5298"
  using rhe_unique[of "(745627213306527875 / 140737488355328)" "5298"] by simp

lemma fl_58: "fl (2649 / 500) = Finite (2982508853226111 / 562949953421312)"
  using rnd_eqI[of 50 "(2649 / 500)" "5965017706452222"] by (simp add: fl_def)

lemma fl_59: "fl (- 1200) = Finite (- 1200)"
  using rnd_eqI[of 42 "(- 1200)" "(- 5277655813324800)"] by (simp add: fl_def)

lemma fl_60: "fl (- (459367161991790625 / 2251799813685248)) = Finite (- (7177611906121729 / 35184372088832))"
  using rnd_eqI[of 45 "(- (459367161991790625 / 2251799813685248))" "(- 7177611906121729)"] by (simp add: fl_def)

lemma fl_61: "fl (- (7177611906121729 / 35184372088832000)) = Finite (- (3674937295934325 / 18014398509481984))"
  using rnd_eqI[of 55 "(- (7177611906121729 / 35184372088832000))" "(- 7349874591868650)"] by (simp add: fl_def)

lemma rhe_12: "rhe (- (459367161991790625 / 2251799813685248)) = (- 204)"
  using rhe_unique[of "(- (459367161991790625 / 2251799813685248))" "(- 204)"] by simp

lemma fl_62: "fl (- (51 / 250)) = Finite (- (7349874591868649 / 36028797018963968))"
  using rnd_eqI[of 55 "(- (51 / 250))" "(- 7349874591868649)"] by (simp add: fl_def)

lemma fl_63: "fl (- (7349874591868649 / 36028797018963968)) = Finite (- (7349874591868649 / 36028797018963968))"
  using rnd_eqI[of 55 "(- (7349874591868649 / 36028797018963968))" "(- 7349874591868649)"] by (simp add: fl_def)

lemma fl_64: "fl (70039981404865959 / 36028797018963968) = Finite (8754997675608245 / 4503599627370496)"
  using rnd_eqI[of 52 "(70039981404865959 / 36028797018963968)" "8754997675608245"] by (simp add: fl_def)

lemma fl_65: "fl (18009894909854615 / 4503599627370496) = Finite (2251236863731827 / 562949953421312)"
  using rhe_tie[of "(18009894909854615 / 4503599627370496) * 2 ^ 51" "9004947454927307"] rnd_eqI_rhe[of 51 "(18009894909854615 / 4503599627370496)" "9004947454927308"]
  by (simp add: fl_def)

lemma fl_66: "fl (293562638110518451 / 72057594037927936) = Finite (4586916220476851 / 1125899906842624)"
  using rnd_eqI[of 50 "(293562638110518451 / 72057594037927936)" "4586916220476851"] by (simp add: fl_def)

lemma rhe_13: "rhe (573364527559606375 / 140737488355328) = 4074"
  using rhe_unique[of "(573364527559606375 / 140737488355328)" "4074"] by simp

lemma fl_67: "fl (2037 / 500) = Finite (2293458110238425 / 562949953421312)"
  using rnd_eqI[of 50 "(2037 / 500)" "4586916220476850"] by (simp add: fl_def)

lemma fl_68: "fl (2954755420522440455 / 1125899906842624) = Finite (1442751670176973 / 549755813888)"
  using rnd_eqI[of 41 "(2954755420522440455 / 1125899906842624)" "5771006680707892"] by (simp add: fl_def)

lemma fl_69: "fl 1 = Finite 1"
  using rnd_eqI[of 52 "1" "4503599627370496"] by (simp add: fl_def)

lemma fl_70: "fl 3 = Finite 3"
  using rnd_eqI[of 51 "3" "6755399441055744"] by (simp add: fl_def)

lemma fl_71: "fl 156 = Finite 156"
  using rnd_eqI[of 45 "156" "5488762045857792"] by (simp add: fl_def)

lemma fl_72: "fl (316152693841408827 / 4503599627370496) = Finite (4939885841272013 / 70368744177664)"
  using rnd_eqI[of 46 "(316152693841408827 / 4503599627370496)" "4939885841272013"] by (simp add: fl_def)

lemma fl_73: "fl (1442751670176973 / 549755813888000) = Finite (5909510841044881 / 2251799813685248)"
  using rnd_eqI[of 51 "(1442751670176973 / 549755813888000)" "5909510841044881"] by (simp add: fl_def)

lemma rhe_14: "rhe (738688855130610125 / 281474976710656) = 2624"
  using rhe_unique[of "(738688855130610125 / 281474976710656)" "2624"] by simp

lemma fl_74: "fl (328 / 125) = Finite (5908722711110091 / 2251799813685248)"
  using rnd_eqI[of 51 "(328 / 125)" "5908722711110091"] by (simp add: fl_def)

lemma fl_75: "fl (4939885841272013 / 70368744177664000) = Finite (5058443101462541 / 72057594037927936)"
  using rnd_eqI[of 56 "(4939885841272013 / 70368744177664000)" "5058443101462541"] by (simp add: fl_def)

lemma rhe_15: "rhe (632305387682817625 / 9007199254740992) = 70"
  using rhe_unique[of "(632305387682817625 / 9007199254740992)" "70"] by simp

lemma fl_76: "fl (7 / 100) = Finite (1261007895663739 / 18014398509481984)"
  using rnd_eqI[of 56 "(7 / 100)" "5044031582654956"] by (simp add: fl_def)

lemma fl_77: "fl (378865318652543 / 70368744177664) = Finite (378865318652543 / 70368744177664)"
  using rnd_eqI[of 50 "(378865318652543 / 70368744177664)" "6061845098440688"] by (simp add: fl_def)

lemma fl_78: "fl (98250529470714747 / 18014398509481984) = Finite (767582261489959 / 140737488355328)"
  using rnd_eqI[of 50 "(98250529470714747 / 18014398509481984)" "6140658091919672"] by (simp add: fl_def)

lemma rhe_16: "rhe (95947782686244875 / 17592186044416) = 5454"
  using rhe_unique[of "(95947782686244875 / 17592186044416)" "5454"] by simp

lemma fl_79: "fl (2727 / 500) = Finite (6140658091919671 / 1125899906842624)"
  using rnd_eqI[of 50 "(2727 / 500)" "6140658091919671"] by (simp add: fl_def)

lemma fl_80: "fl 250 = Finite 250"
  using rnd_eqI[of 45 "250" "8796093022208000"] by (simp add: fl_def)

lemma fl_81: "fl 2760 = Finite 2760"
  using rnd_eqI[of 41 "2760" "6069304185323520"] by (simp add: fl_def)

lemma fl_82: "fl (2960077716507853 / 549755813888) = Finite (2960077716507853 / 549755813888)"
  using rnd_eqI[of 40 "(2960077716507853 / 549755813888)" "5920155433015706"] by (simp add: fl_def)

lemma fl_83: "fl (383829833554277197 / 70368744177664) = Finite (5997341149285581 / 1099511627776)"
  using rnd_eqI[of 40 "(383829833554277197 / 70368744177664)" "5997341149285581"] by (simp add: fl_def)

lemma fl_84: "fl (5997341149285581 / 1099511627776000) = Finite (6141277336868435 / 1125899906842624)"
  using rnd_eqI[of 50 "(5997341149285581 / 1099511627776000)" "6141277336868435"] by (simp add: fl_def)

lemma rhe_17: "rhe (767659667108554375 / 140737488355328) = 5455"
  using rhe_unique[of "(767659667108554375 / 140737488355328)" "5455"] by simp

lemma fl_85: "fl (1091 / 200) = Finite (3070891995913257 / 562949953421312)"
  using rnd_eqI[of 50 "(1091 / 200)" "6141783991826514"] by (simp add: fl_def)

lemma fl_86: "fl (562949953421 / 562949953421312) = Finite (562949953421 / 562949953421312)"
  using rnd_eqI[of 62 "(562949953421 / 562949953421312)" "4611686018424832"] by (simp add: fl_def)

lemma rhe_18: "rhe (70368744177625 / 70368744177664) = 1"
  using rhe_unique[of "(70368744177625 / 70368744177664)" "1"] by simp

lemma fl_87: "fl (1 / 1000) = Finite (1152921504606847 / 1152921504606846976)"
  using rnd_eqI[of 62 "(1 / 1000)" "4611686018427388"] by (simp add: fl_def)

lemma fl_88: "fl 1200000000000000000000 = Finite 1200000000000000000000"
  proof -
  have r: "rnd 1200000000000000000000 = of_int 4577636718750000 * 2 ^ 18"
    by (rule rnd_eqI_up) simp_all
  show ?thesis by (simp add: fl_def r)
qed

lemma fl_89: "fl (922558975180799961090087890625 / 1073741824) = Finite 859200000000000000000"
  proof -
  have r: "rnd (922558975180799961090087890625 / 1073741824) = of_int 6555175781250000 * 2 ^ 17"
    by (rule rnd_eqI_up) simp_all
  show ?thesis by (simp add: fl_def r)
qed

lemma fl_90: "fl 859200000000000000 = Finite 859200000000000000"
  proof -
  have r: "rnd 859200000000000000 = of_int 6712500000000000 * 2 ^ 7"
    by (rule rnd_eqI_up) simp_all
  show ?thesis by (simp add: fl_def r)
qed

lemma rhe_19: "rhe 859200000000000000000 = 859200000000000000000"
  using rhe_unique[of "859200000000000000000" "859200000000000000000"] by simp

lemma fl_91: "fl (7738985599673460331912405943901487 / 9007199254740992) = Finite 859200000000000000"
  proof -
  have r: "rnd (7738985599673460331912405943901487 / 9007199254740992) = of_int 6712500000000000 * 2 ^ 7"
    by (rule rnd_eqI_up) simp_all
  show ?thesis by (simp add: fl_def r)
qed

lemma fl_92: "fl (1934746399918365086227448617123185 / 2251799813685248) = Finite 859200000000000000"
  proof -
  have r: "rnd (1934746399918365086227448617123185 / 2251799813685248) = of_int 6712500000000000 * 2 ^ 7"
    by (rule rnd_eqI_up) simp_all
  show ?thesis by (simp add: fl_def r)
qed

lemma fl_93: "fl (61911884797387682616604319552844595 / 72057594037927936) = Finite 859200000000000000"
  proof -
  have r: "rnd (61911884797387682616604319552844595 / 72057594037927936) = of_int 6712500000000000 * 2 ^ 7"
    by (rule rnd_eqI_up) simp_all
  show ?thesis by (simp add: fl_def r)
qed

lemma fl_94: "fl 100 = Finite 100"
  using rnd_eqI[of 46 "100" "7036874417766400"] by (simp add: fl_def)

lemma rhe_20: "rhe (677651006430904375 / 140737488355328) = 4815"
  using rhe_unique[of "(677651006430904375 / 140737488355328)" "4815"] by simp

lemma fl_95: "fl (963 / 200) = Finite (5421208051447235 / 1125899906842624)"
  using rnd_eqI[of 50 "(963 / 200)" "5421208051447235"] by (simp add: fl_def)

lemma fl_96: "fl 40 = Finite 40"
  using rnd_eqI[of 47 "40" "5629499534213120"] by (simp add: fl_def)

lemma fl_97: "fl (2 / 5) = Finite (3602879701896397 / 9007199254740992)"
  using rnd_eqI[of 54 "(2 / 5)" "7205759403792794"] by (simp add: fl_def)

lemma fl_98: "fl (5404319552844595 / 9007199254740992) = Finite (5404319552844595 / 9007199254740992)"
  using rnd_eqI[of 53 "(5404319552844595 / 9007199254740992)" "5404319552844595"] by (simp add: fl_def)

lemma fl_99: "fl (24003 / 8) = Finite (24003 / 8)"
  using rnd_eqI[of 41 "(24003 / 8)" "6597894400376832"] by (simp add: fl_def)

lemma fl_100: "fl (77399529728734191825 / 36028797018963968) = Finite (1181023097667453 / 549755813888)"
  using rnd_eqI[of 41 "(77399529728734191825 / 36028797018963968)" "4724092390669812"] by (simp add: fl_def)

lemma fl_101: "fl (1181023097667453 / 549755813888000) = Finite (4837470608045887 / 2251799813685248)"
  using rnd_eqI[of 51 "(1181023097667453 / 549755813888000)" "4837470608045887"] by (simp add: fl_def)

lemma rhe_21: "rhe (604683826005735875 / 281474976710656) = 2148"
  using rhe_unique[of "(604683826005735875 / 281474976710656)" "2148"] by simp

lemma fl_102: "fl (211 / 200) = Finite (4751297606875873 / 4503599627370496)"
  using rnd_eqI[of 52 "(211 / 200)" "4751297606875873"] by (simp add: fl_def)

lemma fl_103: "fl (5908722711110091 / 2251799813685248) = Finite (5908722711110091 / 2251799813685248)"
  using rnd_eqI[of 51 "(5908722711110091 / 2251799813685248)" "5908722711110091"] by (simp add: fl_def)

lemma rhe_22: "rhe (738590338888761375 / 281474976710656) = 2624"
  using rhe_unique[of "(738590338888761375 / 281474976710656)" "2624"] by simp

lemma fl_104: "fl (959576343104297355 / 562949953421312) = Finite (7496690180502323 / 4398046511104)"
  using rnd_eqI[of 42 "(959576343104297355 / 562949953421312)" "7496690180502323"] by (simp add: fl_def)

lemma fl_105: "fl (7496690180502323 / 4398046511104000) = Finite (7676610744834379 / 4503599627370496)"
  using rnd_eqI[of 52 "(7496690180502323 / 4398046511104000)" "7676610744834379"] by (simp add: fl_def)

lemma rhe_23: "rhe (959576343104297375 / 562949953421312) = 1705"
  using rhe_unique[of "(959576343104297375 / 562949953421312)" "1705"] by simp

lemma fl_106: "fl (341 / 200) = Finite (959829670583337 / 562949953421312)"
  using rnd_eqI[of 52 "(341 / 200)" "7678637364666696"] by (simp add: fl_def)

lemma fl_107: "fl (959829670583337 / 562949953421312) = Finite (959829670583337 / 562949953421312)"
  using rnd_eqI[of 52 "(959829670583337 / 562949953421312)" "7678637364666696"] by (simp add: fl_def)

lemma rhe_24: "rhe (119978708822917125 / 70368744177664) = 1705"
  using rhe_unique[of "(119978708822917125 / 70368744177664)" "1705"] by simp

lemma fl_108: "fl (401707013012612725 / 281474976710656) = Finite (3138336039161037 / 2199023255552)"
  using rnd_eqI[of 42 "(401707013012612725 / 281474976710656)" "6276672078322074"] by (simp add: fl_def)

lemma fl_109: "fl (3138336039161037 / 2199023255552000) = Finite (1606828052050451 / 1125899906842624)"
  using rnd_eqI[of 52 "(3138336039161037 / 2199023255552000)" "6427312208201804"] by (simp add: fl_def)

lemma rhe_25: "rhe (200853506506306375 / 140737488355328) = 1427"
  using rhe_unique[of "(200853506506306375 / 140737488355328)" "1427"] by simp

lemma fl_110: "fl (1427 / 1000) = Finite (3213318334128849 / 2251799813685248)"
  using rnd_eqI[of 52 "(1427 / 1000)" "6426636668257698"] by (simp add: fl_def)

lemma fl_111: "fl (3213318334128849 / 2251799813685248) = Finite (3213318334128849 / 2251799813685248)"
  using rnd_eqI[of 52 "(3213318334128849 / 2251799813685248)" "6426636668257698"] by (simp add: fl_def)

lemma rhe_26: "rhe (401664791766106125 / 281474976710656) = 1427"
  using rhe_unique[of "(401664791766106125 / 281474976710656)" "1427"] by simp

lemma fl_112: "fl (3131465410901390175 / 2251799813685248) = Finite (3058071690333389 / 2199023255552)"
  using rnd_eqI[of 42 "(3131465410901390175 / 2251799813685248)" "6116143380666778"] by (simp add: fl_def)

lemma fl_113: "fl (3058071690333389 / 2199023255552000) = Finite (6262930821802781 / 4503599627370496)"
  using rnd_eqI[of 52 "(3058071690333389 / 2199023255552000)" "6262930821802781"] by (simp add: fl_def)

lemma rhe_27: "rhe (782866352725347625 / 562949953421312) = 1391"
  using rhe_unique[of "(782866352725347625 / 562949953421312)" "1391"] by simp

lemma fl_114: "fl (1391 / 1000) = Finite (783063385209045 / 562949953421312)"
  using rnd_eqI[of 52 "(1391 / 1000)" "6264507081672360"] by (simp add: fl_def)

lemma fl_115: "fl (783063385209045 / 562949953421312) = Finite (783063385209045 / 562949953421312)"
  using rnd_eqI[of 52 "(783063385209045 / 562949953421312)" "6264507081672360"] by (simp add: fl_def)

lemma rhe_28: "rhe (97882923151130625 / 70368744177664) = 1391"
  using rhe_unique[of "(97882923151130625 / 70368744177664)" "1391"] by simp

lemma fl_116: "fl (2375311033465883955 / 2251799813685248) = Finite (4639279362238055 / 4398046511104)"
  using rnd_eqI[of 42 "(2375311033465883955 / 2251799813685248)" "4639279362238055"] by (simp add: fl_def)

lemma fl_117: "fl (927855872447611 / 879609302220800) = Finite (593827758366471 / 562949953421312)"
  using rnd_eqI[of 52 "(927855872447611 / 879609302220800)" "4750622066931768"] by (simp add: fl_def)

lemma rhe_29: "rhe (74228469795808875 / 70368744177664) = 1055"
  using rhe_unique[of "(74228469795808875 / 70368744177664)" "1055"] by simp

lemma fl_118: "fl (4751297606875873 / 4503599627370496) = Finite (4751297606875873 / 4503599627370496)"
  using rnd_eqI[of 52 "(4751297606875873 / 4503599627370496)" "4751297606875873"] by (simp add: fl_def)

lemma rhe_30: "rhe (593912200859484125 / 562949953421312) = 1055"
  using rhe_unique[of "(593912200859484125 / 562949953421312)" "1055"] by simp

lemmas fl_only_table = fl_1 fl_2 fl_3 fl_4 fl_5 fl_6 fl_7 fl_8
  fl_9 fl_10 fl_11 fl_12 fl_13 fl_14 fl_15 fl_16
  fl_17 fl_18 fl_19 fl_20 fl_21 fl_22 fl_23 fl_24
  fl_25 fl_26 fl_27 fl_28 fl_29 fl_30 fl_31 fl_32
  fl_33 fl_34 fl_35 fl_36 fl_37 fl_38 fl_39 fl_40
  fl_41 fl_42 fl_43 fl_44 fl_45 fl_46 fl_47 fl_48
  fl_49 fl_50 fl_51 fl_52 fl_53 fl_54 fl_55 fl_56
  fl_57 fl_58 fl_59 fl_60 fl_61 fl_62 fl_63 fl_64
  fl_65 fl_66 fl_67 fl_68 fl_69 fl_70 fl_71 fl_72
  fl_73 fl_74 fl_75 fl_76 fl_77 fl_78 fl_79 fl_80
  fl_81 fl_82 fl_83 fl_84 fl_85 fl_86 fl_87 fl_88
  fl_89 fl_90 fl_91 fl_92 fl_93 fl_94 fl_95 fl_96
  fl_97 fl_98 fl_99 fl_100 fl_101 fl_102 fl_103 fl_104
  fl_105 fl_106 fl_107 fl_108 fl_109 fl_110 fl_111 fl_112
  fl_113 fl_114 fl_115 fl_116 fl_117 fl_118

lemmas rhe_table = rhe_1 rhe_2 rhe_3 rhe_4 rhe_5 rhe_6 rhe_7 rhe_8
  rhe_9 rhe_10 rhe_11 rhe_12 rhe_13 rhe_14 rhe_15 rhe_16
  rhe_17 rhe_18 rhe_19 rhe_20 rhe_21 rhe_22 rhe_23 rhe_24
  rhe_25 rhe_26 rhe_27 rhe_28 rhe_29 rhe_30

lemmas rnd_table = fl_only_table[THEN fl_Finite_rnd]

lemmas fl_table = fl_only_table rhe_table

section \<open>Runs on concrete inputs\<close>

lemma compute_default:
  "compute default_input = Inr \<lparr>transport_emissions_kg = Finite 612, electricity_emissions_kg = Finite 2148,
        diet_emissions_kg = Finite (2259441419498291 / 1099511627776), waste_emissions_kg = Finite (5269211564023481 / 70368744177664),
        categories = \<lparr>Transportation = Finite (5512405943901487 / 9007199254740992), Electricity = Finite (4836865999795913 / 2251799813685248), Diet = Finite (4627448617123185 / 2251799813685248), Waste = Finite (5404319552844595 / 72057594037927936)\<rparr>,
        total_tonnes = Finite (5505650544460431 / 1125899906842624)\<rparr>"
  by (simp add: compute_def transport_kg_def electricity_kg_def diet_kg_def waste_kg_def tonnes3_def bind_err_def py_sum_def cat_values_def dict_get_def float_of_int_def fsub_def lit_def TRANSPORT_EF_PAXKM_def ELECTRICITY_EF_def DIET_DAILY_def WASTE_EF_def default_input_def zero_input_def high_meat_input_def same_scenario_def big_kwh_input_def fl_table)

lemma compute_zero:
  "compute zero_input = Inr \<lparr>transport_emissions_kg = Finite 0, electricity_emissions_kg = Finite 0,
        diet_emissions_kg = Finite (2259441419498291 / 1099511627776), waste_emissions_kg = Finite 0,
        categories = \<lparr>Transportation = Finite 0, Electricity = Finite 0, Diet = Finite (4627448617123185 / 2251799813685248), Waste = Finite 0\<rparr>,
        total_tonnes = Finite (4627448617123185 / 2251799813685248)\<rparr>"
  by (simp add: compute_def transport_kg_def electricity_kg_def diet_kg_def waste_kg_def tonnes3_def bind_err_def py_sum_def cat_values_def dict_get_def float_of_int_def fsub_def lit_def TRANSPORT_EF_PAXKM_def ELECTRICITY_EF_def DIET_DAILY_def WASTE_EF_def default_input_def zero_input_def high_meat_input_def same_scenario_def big_kwh_input_def fl_table)

lemma compute_seg150:
  "compute (default_input\<lparr>segregation := 150\<rparr>) = Inr \<lparr>transport_emissions_kg = Finite 612, electricity_emissions_kg = Finite 2148,
        diet_emissions_kg = Finite (2259441419498291 / 1099511627776), waste_emissions_kg = Finite (- (6586514455029351 / 140737488355328)),
        categories = \<lparr>Transportation = Finite (5512405943901487 / 9007199254740992), Electricity = Finite (4836865999795913 / 2251799813685248), Diet = Finite (4627448617123185 / 2251799813685248), Waste = Finite (- (3386706919782613 / 72057594037927936))\<rparr>,
        total_tonnes = Finite (5368290755825631 / 1125899906842624)\<rparr>"
  by (simp add: compute_def transport_kg_def electricity_kg_def diet_kg_def waste_kg_def tonnes3_def bind_err_def py_sum_def cat_values_def dict_get_def float_of_int_def fsub_def lit_def TRANSPORT_EF_PAXKM_def ELECTRICITY_EF_def DIET_DAILY_def WASTE_EF_def default_input_def zero_input_def high_meat_input_def same_scenario_def big_kwh_input_def fl_table)

lemma compute_days400:
  "compute (default_input\<lparr>commute_days := 400\<rparr>) = Inr \<lparr>transport_emissions_kg = Finite (8972014882652161 / 8796093022208), electricity_emissions_kg = Finite 2148,
        diet_emissions_kg = Finite (2259441419498291 / 1099511627776), waste_emissions_kg = Finite (5269211564023481 / 70368744177664),
        categories = \<lparr>Transportation = Finite (2296835809958953 / 2251799813685248), Electricity = Finite (4836865999795913 / 2251799813685248), Diet = Finite (4627448617123185 / 2251799813685248), Waste = Finite (5404319552844595 / 72057594037927936)\<rparr>,
        total_tonnes = Finite (2982508853226111 / 562949953421312)\<rparr>"
  by (simp add: compute_def transport_kg_def electricity_kg_def diet_kg_def waste_kg_def tonnes3_def bind_err_def py_sum_def cat_values_def dict_get_def float_of_int_def fsub_def lit_def TRANSPORT_EF_PAXKM_def ELECTRICITY_EF_def DIET_DAILY_def WASTE_EF_def default_input_def zero_input_def high_meat_input_def same_scenario_def big_kwh_input_def fl_table)

lemma compute_negative:
  "compute (default_input\<lparr>daily_commute_km := Finite (- 5)\<rparr>) = Inr \<lparr>transport_emissions_kg = Finite (- (7177611906121729 / 35184372088832)), electricity_emissions_kg = Finite 2148,
        diet_emissions_kg = Finite (2259441419498291 / 1099511627776), waste_emissions_kg = Finite (5269211564023481 / 70368744177664),
        categories = \<lparr>Transportation = Finite (- (7349874591868649 / 36028797018963968)), Electricity = Finite (4836865999795913 / 2251799813685248), Diet = Finite (4627448617123185 / 2251799813685248), Waste = Finite (5404319552844595 / 72057594037927936)\<rparr>,
        total_tonnes = Finite (2293458110238425 / 562949953421312)\<rparr>"
  by (simp add: compute_def transport_kg_def electricity_kg_def diet_kg_def waste_kg_def tonnes3_def bind_err_def py_sum_def cat_values_def dict_get_def float_of_int_def fsub_def lit_def TRANSPORT_EF_PAXKM_def ELECTRICITY_EF_def DIET_DAILY_def WASTE_EF_def default_input_def zero_input_def high_meat_input_def same_scenario_def big_kwh_input_def fl_table)

lemma compute_high_meat:
  "compute high_meat_input = Inr \<lparr>transport_emissions_kg = Finite 612, electricity_emissions_kg = Finite 2148,
        diet_emissions_kg = Finite (1442751670176973 / 549755813888), waste_emissions_kg = Finite (4939885841272013 / 70368744177664),
        categories = \<lparr>Transportation = Finite (5512405943901487 / 9007199254740992), Electricity = Finite (4836865999795913 / 2251799813685248), Diet = Finite (5908722711110091 / 2251799813685248), Waste = Finite (1261007895663739 / 18014398509481984)\<rparr>,
        total_tonnes = Finite (6140658091919671 / 1125899906842624)\<rparr>"
  by (simp add: compute_def transport_kg_def electricity_kg_def diet_kg_def waste_kg_def tonnes3_def bind_err_def py_sum_def cat_values_def dict_get_def float_of_int_def fsub_def lit_def TRANSPORT_EF_PAXKM_def ELECTRICITY_EF_def DIET_DAILY_def WASTE_EF_def default_input_def zero_input_def high_meat_input_def same_scenario_def big_kwh_input_def fl_table)

lemma what_if_high_meat:
  "what_if high_meat_input 
      (\<lparr>Transportation = Finite (5512405943901487 / 9007199254740992), Electricity = Finite (4836865999795913 / 2251799813685248), Diet = Finite (5908722711110091 / 2251799813685248), Waste = Finite (1261007895663739 / 18014398509481984)\<rparr>) (same_scenario high_meat_input) =
     Inr \<lparr>new_trans_kg = Finite 612, new_elec_kg = Finite 2148, new_diet_kg = Finite (1442751670176973 / 549755813888),
          new_segregation = 0, new_waste_kg = Finite (4939885841272013 / 70368744177664),
          new_total_t = Finite (3070891995913257 / 562949953421312), delta_t = Finite (1152921504606847 / 1152921504606846976), saved_shown = Finite 0\<rparr>"
  by (simp add: compute_def transport_kg_def electricity_kg_def diet_kg_def waste_kg_def tonnes3_def bind_err_def py_sum_def cat_values_def dict_get_def float_of_int_def fsub_def lit_def TRANSPORT_EF_PAXKM_def ELECTRICITY_EF_def DIET_DAILY_def WASTE_EF_def default_input_def zero_input_def high_meat_input_def same_scenario_def big_kwh_input_def what_if_def new_segregation_of_def alternate_input_def run_what_if_def total_of_alternate_def total_of_def fl_table)

lemma alternate_high_meat:
  "alternate_input high_meat_input (same_scenario high_meat_input) = Inr high_meat_input"
  by (simp add: compute_def transport_kg_def electricity_kg_def diet_kg_def waste_kg_def tonnes3_def bind_err_def py_sum_def cat_values_def dict_get_def float_of_int_def fsub_def lit_def TRANSPORT_EF_PAXKM_def ELECTRICITY_EF_def DIET_DAILY_def WASTE_EF_def default_input_def zero_input_def high_meat_input_def same_scenario_def big_kwh_input_def what_if_def new_segregation_of_def alternate_input_def run_what_if_def total_of_alternate_def total_of_def fl_table)

lemma compute_big_kwh:
  "compute big_kwh_input = Inr \<lparr>transport_emissions_kg = Finite 612, electricity_emissions_kg = Finite 859200000000000000000,
        diet_emissions_kg = Finite (2259441419498291 / 1099511627776), waste_emissions_kg = Finite (5269211564023481 / 70368744177664),
        categories = \<lparr>Transportation = Finite (5512405943901487 / 9007199254740992), Electricity = Finite 859200000000000000, Diet = Finite (4627448617123185 / 2251799813685248), Waste = Finite (5404319552844595 / 72057594037927936)\<rparr>,
        total_tonnes = Finite 859200000000000000\<rparr>"
  by (simp add: compute_def transport_kg_def electricity_kg_def diet_kg_def waste_kg_def tonnes3_def bind_err_def py_sum_def cat_values_def dict_get_def float_of_int_def fsub_def lit_def TRANSPORT_EF_PAXKM_def ELECTRICITY_EF_def DIET_DAILY_def WASTE_EF_def default_input_def zero_input_def high_meat_input_def same_scenario_def big_kwh_input_def fl_table)

lemma gap_big_kwh:
  "gap_of big_kwh_input = Inr (Some (197569673061011941 / 72057594037927936))"
  by (simp add: gap_of_def bind_err_def rounding_gap_def raw_tonne_def compute_big_kwh fl_table)

lemma waste_seg100_w4:
  "category_of Waste (default_input\<lparr>segregation := 100\<rparr>) = Inr (Finite 0)"
  by (simp add: compute_def transport_kg_def electricity_kg_def diet_kg_def waste_kg_def tonnes3_def bind_err_def py_sum_def cat_values_def dict_get_def float_of_int_def fsub_def lit_def TRANSPORT_EF_PAXKM_def ELECTRICITY_EF_def DIET_DAILY_def WASTE_EF_def default_input_def zero_input_def high_meat_input_def same_scenario_def big_kwh_input_def category_of_def fl_table)

lemma waste_seg100_w5:
  "category_of Waste (default_input\<lparr>segregation := 100, weekly_waste_kg := Finite 5\<rparr>) = Inr (Finite 0)"
  by (simp add: compute_def transport_kg_def electricity_kg_def diet_kg_def waste_kg_def tonnes3_def bind_err_def py_sum_def cat_values_def dict_get_def float_of_int_def fsub_def lit_def TRANSPORT_EF_PAXKM_def ELECTRICITY_EF_def DIET_DAILY_def WASTE_EF_def default_input_def zero_input_def high_meat_input_def same_scenario_def big_kwh_input_def category_of_def fl_table)

lemma waste_w0_seg20:
  "category_of Waste (default_input\<lparr>weekly_waste_kg := Finite 0\<rparr>) = Inr (Finite 0)"
  by (simp add: compute_def transport_kg_def electricity_kg_def diet_kg_def waste_kg_def tonnes3_def bind_err_def py_sum_def cat_values_def dict_get_def float_of_int_def fsub_def lit_def TRANSPORT_EF_PAXKM_def ELECTRICITY_EF_def DIET_DAILY_def WASTE_EF_def default_input_def zero_input_def high_meat_input_def same_scenario_def big_kwh_input_def category_of_def fl_table)

lemma waste_w0_seg40:
  "category_of Waste (default_input\<lparr>weekly_waste_kg := Finite 0, segregation := 40\<rparr>) = Inr (Finite 0)"
  by (simp add: compute_def transport_kg_def electricity_kg_def diet_kg_def waste_kg_def tonnes3_def bind_err_def py_sum_def cat_values_def dict_get_def float_of_int_def fsub_def lit_def TRANSPORT_EF_PAXKM_def ELECTRICITY_EF_def DIET_DAILY_def WASTE_EF_def default_input_def zero_input_def high_meat_input_def same_scenario_def big_kwh_input_def category_of_def fl_table)

lemma elec_250:
  "category_of Electricity default_input = Inr (lit (2148 / 1000))"
  by (simp add: compute_def transport_kg_def electricity_kg_def diet_kg_def waste_kg_def tonnes3_def bind_err_def py_sum_def cat_values_def dict_get_def float_of_int_def fsub_def lit_def TRANSPORT_EF_PAXKM_def ELECTRICITY_EF_def DIET_DAILY_def WASTE_EF_def default_input_def zero_input_def high_meat_input_def same_scenario_def big_kwh_input_def category_of_def fl_table)

lemma elec_250_frac:
  "category_of Electricity (default_input\<lparr>monthly_kwh := Finite (8001 / 32)\<rparr>) = Inr (lit (2148 / 1000))"
  by (simp add: compute_def transport_kg_def electricity_kg_def diet_kg_def waste_kg_def tonnes3_def bind_err_def py_sum_def cat_values_def dict_get_def float_of_int_def fsub_def lit_def TRANSPORT_EF_PAXKM_def ELECTRICITY_EF_def DIET_DAILY_def WASTE_EF_def default_input_def zero_input_def high_meat_input_def same_scenario_def big_kwh_input_def category_of_def fl_table)

section \<open>The six diet types\<close>

lemma diet_High_meat:
  "diet_kg ''High meat'' = Inr (Finite (1442751670176973 / 549755813888))"
  "tonnes_rat (1442751670176973 / 549755813888) = (5909510841044881 / 2251799813685248)"
  "rhe (738688855130610125 / 281474976710656) = 2624"
  "round3_rat (5909510841044881 / 2251799813685248) = (5908722711110091 / 2251799813685248)"
  "rnd (5908722711110091 / 2251799813685248) = (5908722711110091 / 2251799813685248)"
  "round3_rat (5908722711110091 / 2251799813685248) = (5908722711110091 / 2251799813685248)"
  by (simp_all add: diet_kg_def dict_get_def bind_err_def DIET_DAILY_def lit_def tonnes_rat_def
      round3_rat_def fl_table rnd_table)

lemma diet_Medium_meat:
  "diet_kg ''Medium meat'' = Inr (Finite (2259441419498291 / 1099511627776))"
  "tonnes_rat (2259441419498291 / 1099511627776) = (1156834006783125 / 562949953421312)"
  "rhe (144604250847890625 / 70368744177664) = 2055"
  "round3_rat (1156834006783125 / 562949953421312) = (4627448617123185 / 2251799813685248)"
  "rnd (4627448617123185 / 2251799813685248) = (4627448617123185 / 2251799813685248)"
  "round3_rat (4627448617123185 / 2251799813685248) = (4627448617123185 / 2251799813685248)"
  by (simp_all add: diet_kg_def dict_get_def bind_err_def DIET_DAILY_def lit_def tonnes_rat_def
      round3_rat_def fl_table rnd_table)

lemma diet_Low_meat:
  "diet_kg ''Low meat'' = Inr (Finite (7496690180502323 / 4398046511104))"
  "tonnes_rat (7496690180502323 / 4398046511104) = (7676610744834379 / 4503599627370496)"
  "rhe (959576343104297375 / 562949953421312) = 1705"
  "round3_rat (7676610744834379 / 4503599627370496) = (959829670583337 / 562949953421312)"
  "rnd (959829670583337 / 562949953421312) = (959829670583337 / 562949953421312)"
  "round3_rat (959829670583337 / 562949953421312) = (959829670583337 / 562949953421312)"
  by (simp_all add: diet_kg_def dict_get_def bind_err_def DIET_DAILY_def lit_def tonnes_rat_def
      round3_rat_def fl_table rnd_table)

lemma diet_Fish_based:
  "diet_kg ''Fish-based'' = Inr (Finite (3138336039161037 / 2199023255552))"
  "tonnes_rat (3138336039161037 / 2199023255552) = (1606828052050451 / 1125899906842624)"
  "rhe (200853506506306375 / 140737488355328) = 1427"
  "round3_rat (1606828052050451 / 1125899906842624) = (3213318334128849 / 2251799813685248)"
  "rnd (3213318334128849 / 2251799813685248) = (3213318334128849 / 2251799813685248)"
  "round3_rat (3213318334128849 / 2251799813685248) = (3213318334128849 / 2251799813685248)"
  by (simp_all add: diet_kg_def dict_get_def bind_err_def DIET_DAILY_def lit_def tonnes_rat_def
      round3_rat_def fl_table rnd_table)

lemma diet_Vegetarian:
  "diet_kg ''Vegetarian'' = Inr (Finite (3058071690333389 / 2199023255552))"
  "tonnes_rat (3058071690333389 / 2199023255552) = (6262930821802781 / 4503599627370496)"
  "rhe (782866352725347625 / 562949953421312) = 1391"
  "round3_rat (6262930821802781 / 4503599627370496) = (783063385209045 / 562949953421312)"
  "rnd (783063385209045 / 562949953421312) = (783063385209045 / 562949953421312)"
  "round3_rat (783063385209045 / 562949953421312) = (783063385209045 / 562949953421312)"
  by (simp_all add: diet_kg_def dict_get_def bind_err_def DIET_DAILY_def lit_def tonnes_rat_def
      round3_rat_def fl_table rnd_table)

lemma diet_Vegan:
  "diet_kg ''Vegan'' = Inr (Finite (4639279362238055 / 4398046511104))"
  "tonnes_rat (4639279362238055 / 4398046511104) = (593827758366471 / 562949953421312)"
  "rhe (74228469795808875 / 70368744177664) = 1055"
  "round3_rat (593827758366471 / 562949953421312) = (4751297606875873 / 4503599627370496)"
  "rnd (4751297606875873 / 4503599627370496) = (4751297606875873 / 4503599627370496)"
  "round3_rat (4751297606875873 / 4503599627370496) = (4751297606875873 / 4503599627370496)"
  by (simp_all add: diet_kg_def dict_get_def bind_err_def DIET_DAILY_def lit_def tonnes_rat_def
      round3_rat_def fl_table rnd_table)

lemma diet_cases:
  assumes "d \<in> set (keys DIET_DAILY)"
  shows "\<exists>dk. diet_kg d = Inr (Finite dk) \<and> 1000 \<le> dk \<and> dk \<le> 3000 \<and>
           rnd (round3_rat (tonnes_rat dk)) = round3_rat (tonnes_rat dk) \<and>
           round3_rat (round3_rat (tonnes_rat dk)) = round3_rat (tonnes_rat dk) \<and>
           rnd (1055 / 1000) \<le> round3_rat (tonnes_rat dk) \<and>
           \<bar>of_int (rhe (tonnes_rat dk * 1000)) / 1000 - tonnes_rat dk\<bar> \<le> 46 / 100000"
    (is "?P d")
proof -
  have v: "rnd (211 / 200) = (4751297606875873 / 4503599627370496)"
    by (simp add: rnd_table)
  have p1: "?P ''High meat''"
    by (rule exI[of _ "(1442751670176973 / 549755813888)"]) (simp add: diet_High_meat v)
  have p2: "?P ''Medium meat''"
    by (rule exI[of _ "(2259441419498291 / 1099511627776)"]) (simp add: diet_Medium_meat v)
  have p3: "?P ''Low meat''"
    by (rule exI[of _ "(7496690180502323 / 4398046511104)"]) (simp add: diet_Low_meat v)
  have p4: "?P ''Fish-based''"
    by (rule exI[of _ "(3138336039161037 / 2199023255552)"]) (simp add: diet_Fish_based v)
  have p5: "?P ''Vegetarian''"
    by (rule exI[of _ "(3058071690333389 / 2199023255552)"]) (simp add: diet_Vegetarian v)
  have p6: "?P ''Vegan''"
    by (rule exI[of _ "(4639279362238055 / 4398046511104)"]) (simp add: diet_Vegan v)
  have "d = ''High meat'' \<or> d = ''Medium meat'' \<or> d = ''Low meat'' \<or> d = ''Fish-based'' \<or> d = ''Vegetarian'' \<or> d = ''Vegan''"
    using assms by (simp add: keys_def DIET_DAILY_def)
  then show ?thesis
  proof (elim disjE)
    assume "d = ''High meat''"
    then show ?thesis using p1 by (simp only:)
  next
    assume "d = ''Medium meat''"
    then show ?thesis using p2 by (simp only:)
  next
    assume "d = ''Low meat''"
    then show ?thesis using p3 by (simp only:)
  next
    assume "d = ''Fish-based''"
    then show ?thesis using p4 by (simp only:)
  next
    assume "d = ''Vegetarian''"
    then show ?thesis using p5 by (simp only:)
  next
    assume "d = ''Vegan''"
    then show ?thesis using p6 by (simp only:)
  qed
qed

section \<open>When the calculation returns\<close>


lemma fails_Inr [simp]: "\<not> fails (Inr v)" and fails_Inl [simp]: "fails (Inl e)"
  by (simp_all add: fails_def)

lemma bind_err_Inr [simp]: "bind_err (Inr v) f = f v"
  and bind_err_Inl [simp]: "bind_err (Inl e) f = Inl e"
  by (simp_all add: bind_err_def)

lemma float_of_int_ok:
  assumes "\<bar>n\<bar> \<le> 2 ^ 53" shows "float_of_int n = Inr (Finite (of_int n))"
proof -
  have "\<bar>(of_int n :: rat)\<bar> \<le> of_int (2 ^ 53)" using assms by (simp only: of_int_abs [symmetric] of_int_le_iff)
  then have "\<bar>(of_int n :: rat)\<bar> < 2 ^ 1024" by simp
  then have "fl (of_int n) = Finite (of_int n)"
    using rnd_of_int[OF assms] by (auto simp: fl_def Let_def)
  then show ?thesis by (simp add: float_of_int_def)
qed

lemma float_of_int_cases:
  obtains r where "float_of_int n = Inr (Finite r)" | "float_of_int n = Inl OverflowError"
  by (cases "fl (of_int n)") (auto simp: float_of_int_def)

lemma float_of_int_fails: "fails (float_of_int n) \<longleftrightarrow> float_of_int n = Inl OverflowError"
  by (rule float_of_int_cases[of n]) simp_all

lemma dict_get_member:
  "k \<in> set (keys d) \<Longrightarrow> dict_get d k = Inr (the (map_of d k))"
  by (auto simp: dict_get_def keys_def map_of_eq_None_iff split: option.splits)

lemma dict_get_missing:
  "k \<notin> set (keys d) \<Longrightarrow> dict_get d k = Inl (KeyError k)"
  by (auto simp: dict_get_def keys_def map_of_eq_None_iff split: option.splits)

lemma tonnes3_ok: "\<exists>v. tonnes3 kg = Inr v"
  by (cases kg) (simp_all add: tonnes3_def)

lemma transport_kg_key:
  "transport_kg inp =
     bind_err (float_of_int (commute_days inp)) (\<lambda>days.
       bind_err (dict_get TRANSPORT_EF_PAXKM (mode inp)) (\<lambda>ef.
         Inr (fmul (fmul (daily_commute_km inp) days) ef)))"
  by (auto simp: transport_kg_def Let_def bind_err_def split: sum.splits)

lemma transport_kg_overflow:
  "float_of_int (commute_days inp) = Inl e \<Longrightarrow> transport_kg inp = Inl e"
  by (simp add: transport_kg_key)

lemma transport_kg_ok:
  "float_of_int (commute_days inp) = Inr d \<Longrightarrow> mode inp \<in> set (keys TRANSPORT_EF_PAXKM) \<Longrightarrow>
   \<exists>v. transport_kg inp = Inr v"
  by (simp add: transport_kg_key dict_get_member)

lemma transport_kg_missing:
  "float_of_int (commute_days inp) = Inr d \<Longrightarrow> mode inp \<notin> set (keys TRANSPORT_EF_PAXKM) \<Longrightarrow>
   transport_kg inp = Inl (KeyError (mode inp))"
  by (simp add: transport_kg_key dict_get_missing)

lemma electricity_kg_ok:
  "c \<in> set (keys ELECTRICITY_EF) \<Longrightarrow> \<exists>v. electricity_kg c kwh = Inr v"
  by (simp add: electricity_kg_def Let_def dict_get_member)

lemma electricity_kg_missing:
  "c \<notin> set (keys ELECTRICITY_EF) \<Longrightarrow> electricity_kg c kwh = Inl (KeyError c)"
  by (simp add: electricity_kg_def Let_def dict_get_missing)

lemma diet_kg_ok:
  "d \<in> set (keys DIET_DAILY) \<Longrightarrow> \<exists>v. diet_kg d = Inr v"
  by (simp add: diet_kg_def dict_get_member)

lemma diet_kg_missing:
  "d \<notin> set (keys DIET_DAILY) \<Longrightarrow> diet_kg d = Inl (KeyError d)"
  by (simp add: diet_kg_def dict_get_missing)

lemma waste_kg_overflow:
  "float_of_int seg = Inl e \<Longrightarrow> waste_kg weekly seg t = Inl e"
  by (simp add: waste_kg_def)

lemma waste_kg_ok:
  "float_of_int seg = Inr (Finite s) \<Longrightarrow> t \<in> set (keys WASTE_EF) \<Longrightarrow> \<exists>v. waste_kg weekly seg t = Inr v"
  by (simp add: waste_kg_def Let_def dict_get_member)

lemma waste_kg_missing:
  "float_of_int seg = Inr (Finite s) \<Longrightarrow> t \<notin> set (keys WASTE_EF) \<Longrightarrow>
   waste_kg weekly seg t = Inl (KeyError t)"
  by (simp add: waste_kg_def Let_def dict_get_missing)

lemma compute_ok:
  assumes "known_keys inp" "float_of_int (commute_days inp) = Inr (Finite d)"
    "float_of_int (segregation inp) = Inr (Finite s)"
  shows "\<exists>c. compute inp = Inr c"
proof -
  from assms obtain t where t: "transport_kg inp = Inr t"
    using transport_kg_ok[of inp] by (auto simp: known_keys_def)
  from assms obtain e where e: "electricity_kg (country inp) (monthly_kwh inp) = Inr e"
    using electricity_kg_ok[of "country inp"] by (auto simp: known_keys_def)
  from assms obtain dk where d: "diet_kg (diet_type inp) = Inr dk"
    using diet_kg_ok[of "diet_type inp"] by (auto simp: known_keys_def)
  from assms obtain w where w: "waste_kg (weekly_waste_kg inp) (segregation inp) (waste_treatment inp) = Inr w"
    using waste_kg_ok[of "segregation inp" s "waste_treatment inp"] by (auto simp: known_keys_def)
  obtain t3 where t3: "tonnes3 t = Inr t3" using tonnes3_ok by blast
  obtain e3 where e3: "tonnes3 e = Inr e3" using tonnes3_ok by blast
  obtain d3 where d3: "tonnes3 dk = Inr d3" using tonnes3_ok by blast
  obtain w3 where w3: "tonnes3 w = Inr w3" using tonnes3_ok by blast
  show ?thesis
    by (simp add: compute_def t e d w t3 e3 d3 w3 Let_def)
qed

lemma compute_overflow:
  assumes "known_keys inp"
    and "float_of_int (commute_days inp) = Inl OverflowError \<or>
         float_of_int (segregation inp) = Inl OverflowError"
  shows "compute inp = Inl OverflowError"
proof (rule float_of_int_cases[of "commute_days inp"])
  assume "float_of_int (commute_days inp) = Inl OverflowError"
  then show ?thesis by (simp add: compute_def transport_kg_overflow)
next
  fix d assume d: "float_of_int (commute_days inp) = Inr (Finite d)"
  with assms(2) have s: "float_of_int (segregation inp) = Inl OverflowError" by simp
  from assms(1) d obtain t where t: "transport_kg inp = Inr t"
    using transport_kg_ok[of inp] by (auto simp: known_keys_def)
  from assms obtain e where e: "electricity_kg (country inp) (monthly_kwh inp) = Inr e"
    using electricity_kg_ok[of "country inp"] by (auto simp: known_keys_def)
  from assms obtain dk where dk: "diet_kg (diet_type inp) = Inr dk"
    using diet_kg_ok[of "diet_type inp"] by (auto simp: known_keys_def)
  show ?thesis by (simp add: compute_def t e dk waste_kg_overflow[OF s])
qed

lemma compute_unknown_key:
  assumes "\<not> known_keys inp"
  shows "fails (compute inp)"
proof (rule float_of_int_cases[of "commute_days inp"])
  assume "float_of_int (commute_days inp) = Inl OverflowError"
  then show ?thesis by (simp add: compute_def transport_kg_overflow)
next
  fix d assume d: "float_of_int (commute_days inp) = Inr (Finite d)"
  show ?thesis
  proof (cases "mode inp \<in> set (keys TRANSPORT_EF_PAXKM)")
    case False
    then show ?thesis by (simp add: compute_def transport_kg_missing[OF d])
  next
    case m: True
    then obtain t where t: "transport_kg inp = Inr t" using transport_kg_ok[OF d] by blast
    show ?thesis
    proof (cases "country inp \<in> set (keys ELECTRICITY_EF)")
      case False
      then show ?thesis by (simp add: compute_def t electricity_kg_missing)
    next
      case c: True
      then obtain e where e: "electricity_kg (country inp) (monthly_kwh inp) = Inr e"
        using electricity_kg_ok by blast
      show ?thesis
      proof (cases "diet_type inp \<in> set (keys DIET_DAILY)")
        case False
        then show ?thesis by (simp add: compute_def t e diet_kg_missing)
      next
        case True
        then obtain dk where dk: "diet_kg (diet_type inp) = Inr dk" using diet_kg_ok by blast
        from True m c assms have w: "waste_treatment inp \<notin> set (keys WASTE_EF)"
          by (simp add: known_keys_def)
        show ?thesis
        proof (rule float_of_int_cases[of "segregation inp"])
          assume "float_of_int (segregation inp) = Inl OverflowError"
          then show ?thesis by (simp add: compute_def t e dk waste_kg_overflow)
        next
          fix s assume "float_of_int (segregation inp) = Inr (Finite s)"
          then show ?thesis by (simp add: compute_def t e dk waste_kg_missing[OF _ w])
        qed
      qed
    qed
  qed
qed

lemma run_script_known:
  "country inp \<in> set (keys ELECTRICITY_EF) \<Longrightarrow> run_script inp = compute inp"
  by (simp add: run_script_def dict_get_member)

lemma run_script_unknown:
  "country inp \<notin> set (keys ELECTRICITY_EF) \<Longrightarrow> run_script inp = Inl (KeyError (country inp))"
  by (simp add: run_script_def dict_get_missing)

lemma what_if_fields:
  assumes "what_if inp cur sc = Inr r"
  shows "new_segregation r = new_segregation_of (segregation inp) (extra_segregation sc)"
    and "waste_kg (weekly_waste_kg inp) (new_segregation r) (waste_treatment inp) = Inr (new_waste_kg r)"
    and "tonnes3 (fadd (fadd (fadd (new_trans_kg r) (new_elec_kg r)) (new_diet_kg r)) (new_waste_kg r))
           = Inr (new_total_t r)"
  using assms by (auto simp: what_if_def bind_err_def Let_def tonnes3_def split: sum.splits)

lemma what_if_ok:
  assumes "valid_input inp" "valid_scenario sc"
  shows "\<exists>r. what_if inp cur sc = Inr r"
proof -
  from assms(2) have ef: "dict_get TRANSPORT_EF_PAXKM (alt_mode sc) = Inr (the (map_of TRANSPORT_EF_PAXKM (alt_mode sc)))"
    by (simp add: valid_scenario_def dict_get_member)
  have days: "float_of_int (commute_days inp) = Inr (Finite (of_int (commute_days inp)))"
    using assms(1) by (intro float_of_int_ok) (simp add: valid_input_def)
  have cut: "float_of_int (kwh_cut sc) = Inr (Finite (of_int (kwh_cut sc)))"
    using assms(2) by (intro float_of_int_ok) (simp add: valid_scenario_def)
  obtain cf where cf: "fdiv (Finite (of_int (kwh_cut sc))) (Finite 100) = Inr cf" by simp
  from assms(1) obtain e where e: "electricity_kg (country inp) (fmul (monthly_kwh inp) (fsub (Finite 1) cf)) = Inr e"
    using electricity_kg_ok[of "country inp"] by (auto simp: valid_input_def known_keys_def)
  from assms(2) obtain d where d: "diet_kg (diet_switch sc) = Inr d"
    using diet_kg_ok[of "diet_switch sc"] by (auto simp: valid_scenario_def)
  have "\<bar>new_segregation_of (segregation inp) (extra_segregation sc)\<bar> \<le> 2 ^ 53"
    using assms by (simp add: new_segregation_of_def valid_input_def valid_scenario_def)
  from float_of_int_ok[OF this] assms(1)
  obtain w where w: "waste_kg (weekly_waste_kg inp)
      (new_segregation_of (segregation inp) (extra_segregation sc)) (waste_treatment inp) = Inr w"
    using waste_kg_ok[of "new_segregation_of (segregation inp) (extra_segregation sc)" _ "waste_treatment inp"]
    by (auto simp: valid_input_def known_keys_def)
  obtain tot where tot: "fdiv (fadd (fadd (fadd (fmul (fmul (daily_commute_km inp) (Finite (of_int (commute_days inp))))
        (the (map_of TRANSPORT_EF_PAXKM (alt_mode sc)))) e) d) w) (Finite 1000) = Inr tot"
    by (cases "fadd (fadd (fadd (fmul (fmul (daily_commute_km inp) (Finite (of_int (commute_days inp))))
        (the (map_of TRANSPORT_EF_PAXKM (alt_mode sc)))) e) d) w") simp_all
  show ?thesis
    using cf tot by (simp add: what_if_def ef days cut e d w Let_def del: fdiv.simps)
qed

section \<open>The calculation in rational arithmetic\<close>


lemma fl_bounded:
  assumes "0 \<le> x" "x \<le> of_int n" "n \<le> 2 ^ 53"
  shows "fl x = Finite (rnd x)" and "0 \<le> rnd x" and "rnd x \<le> of_int n"
proof -
  show 1: "0 \<le> rnd x" using assms(1) by (rule rnd_nonneg)
  show 2: "rnd x \<le> of_int n" using assms by (rule rnd_le_int)
  have "(of_int n :: rat) \<le> of_int (2 ^ 53)" using assms(3) by (simp only: of_int_le_iff)
  then have "rnd x < 2 ^ 1024" using 2 by simp
  then show "fl x = Finite (rnd x)" using 1 by (simp add: fl_def Let_def)
qed

lemma fmul_bounded:
  assumes "0 \<le> a" "0 \<le> b" "a * b \<le> of_int n" "n \<le> 2 ^ 53"
  shows "fmul (Finite a) (Finite b) = Finite (rnd (a * b))"
  using fl_bounded(1)[OF _ assms(3,4)] assms(1,2) by simp

lemma round3_bounded:
  assumes "0 \<le> a" "a \<le> of_int n" "n \<le> 1000"
  shows "py_round3 (Finite a) = Finite (round3_rat a)"
    and "0 \<le> round3_rat a" and "round3_rat a \<le> of_int n"
proof -
  have "0 \<le> a * 1000" "a * 1000 \<le> of_int (n * 1000)" using assms by simp_all
  from rhe_mono[OF this(1)] rhe_mono[OF this(2)]
  have k: "0 \<le> rhe (a * 1000)" "rhe (a * 1000) \<le> n * 1000"
    by (simp_all only: rhe_of_int rhe_zero)
  have "(of_int (rhe (a * 1000)) :: rat) \<le> of_int (n * 1000)" using k(2) by (simp only: of_int_le_iff)
  then have x: "0 \<le> (of_int (rhe (a * 1000)) :: rat) / 1000"
    "(of_int (rhe (a * 1000)) :: rat) / 1000 \<le> of_int n"
    using k(1) by simp_all
  have "n \<le> 2 ^ 53" using assms(3) by simp
  from fl_bounded[OF x this]
  show "py_round3 (Finite a) = Finite (round3_rat a)" "0 \<le> round3_rat a" "round3_rat a \<le> of_int n"
    by (simp_all add: round3_rat_def)
qed

lemma tonnes3_bounded:
  assumes "0 \<le> kg" "kg \<le> 100000"
  shows "tonnes3 (Finite kg) = Inr (Finite (round3_rat (tonnes_rat kg)))"
    and "0 \<le> tonnes_rat kg" and "tonnes_rat kg \<le> 100"
    and "fdiv (Finite kg) (Finite 1000) = Inr (Finite (tonnes_rat kg))"
    and "0 \<le> round3_rat (tonnes_rat kg)" and "round3_rat (tonnes_rat kg) \<le> 100"
proof -
  have x: "0 \<le> kg / 1000" "kg / 1000 \<le> of_int 100" using assms by simp_all
  from fl_bounded[OF x] have r: "fl (kg / 1000) = Finite (tonnes_rat kg)"
    "0 \<le> tonnes_rat kg" "tonnes_rat kg \<le> of_int 100"
    by (simp_all add: tonnes_rat_def)
  then show "0 \<le> tonnes_rat kg" "tonnes_rat kg \<le> 100" by simp_all
  show d: "fdiv (Finite kg) (Finite 1000) = Inr (Finite (tonnes_rat kg))"
    using r(1) by simp
  from round3_bounded[OF r(2,3)]
  show "tonnes3 (Finite kg) = Inr (Finite (round3_rat (tonnes_rat kg)))"
    "0 \<le> round3_rat (tonnes_rat kg)" "round3_rat (tonnes_rat kg) \<le> 100"
    by (simp_all add: tonnes3_def d del: fdiv.simps)
qed


lemma rnd_err_small:
  assumes "\<bar>x\<bar> \<le> 1024" shows "\<bar>rnd x - x\<bar> \<le> 1 / 2 ^ 43"
proof (cases "x = 0")
  case True
  then show ?thesis by simp
next
  case False
  from ilog2_bounds[OF False] assms have "(2::rat) powi (ilog2 x) \<le> 2 powi 10" by simp
  then have "ilog2 x \<le> 10" by (simp only: pow2_le_iff)
  then have "ulp_exp x \<le> - 42" by (simp add: ulp_exp_def)
  then have "(2::rat) powi ulp_exp x \<le> 2 powi (- 42)" by (simp only: pow2_le_iff)
  then have "(2::rat) powi ulp_exp x / 2 \<le> 1 / 2 ^ 43" by (simp add: power_int_minus field_simps)
  with rnd_err_ulp[of x] show ?thesis by linarith
qed

lemma round3_rat_mono:
  assumes "0 \<le> a" "a \<le> b" shows "round3_rat a \<le> round3_rat b"
proof -
  have "0 \<le> a * 1000" "a * 1000 \<le> b * 1000" using assms by simp_all
  from rhe_mono[OF this(1)] rhe_mono[OF this(2)]
  have "0 \<le> (of_int (rhe (a * 1000)) :: rat) / 1000"
    "(of_int (rhe (a * 1000)) :: rat) / 1000 \<le> of_int (rhe (b * 1000)) / 1000"
    by simp_all
  then show ?thesis unfolding round3_rat_def by (rule rnd_mono)
qed

lemma tonnes_rat_mono:
  assumes "0 \<le> a" "a \<le> b" shows "tonnes_rat a \<le> tonnes_rat b"
  unfolding tonnes_rat_def using assms by (intro rnd_mono) simp_all

lemma lit_bounded:
  assumes "0 \<le> r" "r \<le> of_int n" "n \<le> 2 ^ 53"
  shows "lit r = Finite (rnd r) \<and> 0 \<le> rnd r \<and> rnd r \<le> of_int n"
  using fl_bounded[OF assms] by (simp add: lit_def)

lemma transport_factor:
  assumes "m \<in> set (keys TRANSPORT_EF_PAXKM)"
  shows "\<exists>f. dict_get TRANSPORT_EF_PAXKM m = Inr (Finite f) \<and> 0 \<le> f \<and> f \<le> 1"
  using assms lit_bounded[of "170 / 1000" 1] lit_bounded[of "97 / 1000" 1] lit_bounded[of "8 / 1000" 1]
  by (auto simp: keys_def TRANSPORT_EF_PAXKM_def dict_get_def)

lemma electricity_factor:
  assumes "c \<in> set (keys ELECTRICITY_EF)"
  shows "\<exists>f. dict_get ELECTRICITY_EF c = Inr (Finite f) \<and> 0 \<le> f \<and> f \<le> 1"
  using assms lit_bounded[of "716 / 1000" 1]
  by (auto simp: keys_def ELECTRICITY_EF_def dict_get_def)

lemma waste_factor:
  assumes "t \<in> set (keys WASTE_EF)"
  shows "\<exists>f. dict_get WASTE_EF t = Inr (Finite f) \<and> 0 \<le> f \<and> f \<le> 2"
  using assms lit_bounded[of "45 / 100" 2] lit_bounded[of "110 / 100" 2] lit_bounded[of "10 / 100" 2]
  by (auto simp: keys_def WASTE_EF_def dict_get_def)

lemma mult_bounded:
  fixes a b :: rat
  assumes "0 \<le> a" "a \<le> A" "0 \<le> b" "b \<le> B"
  shows "0 \<le> a * b" and "a * b \<le> A * B"
  using assms by (simp_all add: mult_mono)

lemma transport_rat_bounds:
  assumes "0 \<le> d" "d \<le> 200" "0 \<le> days" "days \<le> 365" "0 \<le> f" "f \<le> 1"
  shows "fmul (fmul (Finite d) (Finite (of_int days))) (Finite f) = Finite (transport_rat d days f)"
    and "0 \<le> transport_rat d days f" and "transport_rat d days f \<le> 73000"
proof -
  have dy: "0 \<le> (of_int days :: rat)" "(of_int days :: rat) \<le> 365" using assms(3,4) by simp_all
  from mult_bounded[OF assms(1,2) dy]
  have 1: "0 \<le> d * of_int days" "d * of_int days \<le> of_int 73000" by simp_all
  from fl_bounded[OF 1] have a: "fl (d * of_int days) = Finite (rnd (d * of_int days))"
    "0 \<le> rnd (d * of_int days)" "rnd (d * of_int days) \<le> 73000" by simp_all
  from mult_bounded[OF a(2,3) assms(5,6)]
  have 2: "0 \<le> rnd (d * of_int days) * f" "rnd (d * of_int days) * f \<le> of_int 73000" by simp_all
  from fl_bounded[OF 2] a(1)
  show "fmul (fmul (Finite d) (Finite (of_int days))) (Finite f) = Finite (transport_rat d days f)"
    "0 \<le> transport_rat d days f" "transport_rat d days f \<le> 73000"
    by (simp_all add: transport_rat_def)
qed

lemma electricity_rat_bounds:
  assumes "0 \<le> k" "k \<le> 2000" "0 \<le> f" "f \<le> 1"
  shows "fmul (fmul (Finite k) (Finite 12)) (Finite f) = Finite (electricity_rat k f)"
    and "0 \<le> electricity_rat k f" and "electricity_rat k f \<le> 24000"
proof -
  have 1: "0 \<le> k * 12" "k * 12 \<le> of_int 24000" using assms by simp_all
  from fl_bounded[OF 1] have a: "fl (k * 12) = Finite (rnd (k * 12))"
    "0 \<le> rnd (k * 12)" "rnd (k * 12) \<le> 24000" by simp_all
  from mult_bounded[OF a(2,3) assms(3,4)]
  have 2: "0 \<le> rnd (k * 12) * f" "rnd (k * 12) * f \<le> of_int 24000" by simp_all
  from fl_bounded[OF 2] a(1)
  show "fmul (fmul (Finite k) (Finite 12)) (Finite f) = Finite (electricity_rat k f)"
    "0 \<le> electricity_rat k f" "electricity_rat k f \<le> 24000"
    by (simp_all add: electricity_rat_def)
qed

lemma residual_rat_bounds:
  assumes "0 \<le> seg" "seg \<le> 100"
  shows "bind_err (float_of_int seg) (\<lambda>s. bind_err (fdiv s (Finite 100)) (\<lambda>frac. Inr (fsub (Finite 1) frac)))
           = Inr (Finite (residual_rat seg))"
    and "0 \<le> residual_rat seg" and "residual_rat seg \<le> 1"
proof -
  have s: "float_of_int seg = Inr (Finite (of_int seg))"
    using assms by (intro float_of_int_ok) simp
  have 1: "0 \<le> (of_int seg :: rat) / 100" "(of_int seg :: rat) / 100 \<le> of_int 1" using assms by simp_all
  from fl_bounded[OF 1] have a: "fl (of_int seg / 100) = Finite (rnd (of_int seg / 100))"
    "0 \<le> rnd (of_int seg / 100)" "rnd (of_int seg / 100) \<le> 1" by simp_all
  have 2: "0 \<le> 1 - rnd (of_int seg / 100)" "1 - rnd (of_int seg / 100) \<le> of_int 1" using a by simp_all
  from fl_bounded[OF 2] s a(1)
  show "bind_err (float_of_int seg) (\<lambda>s. bind_err (fdiv s (Finite 100)) (\<lambda>frac. Inr (fsub (Finite 1) frac)))
           = Inr (Finite (residual_rat seg))"
    "0 \<le> residual_rat seg" "residual_rat seg \<le> 1"
    by (simp_all add: residual_rat_def fsub_def)
qed

lemma residual_rat_antimono:
  assumes "0 \<le> s" "s \<le> s'" "s' \<le> 100"
  shows "residual_rat s' \<le> residual_rat s"
proof -
  have "0 \<le> (of_int s :: rat) / 100" "(of_int s :: rat) / 100 \<le> of_int s' / 100" using assms by simp_all
  from rnd_mono[OF this] have m: "rnd (of_int s / 100) \<le> rnd (of_int s' / 100)" .
  have "0 \<le> (of_int s' :: rat) / 100" "(of_int s' :: rat) / 100 \<le> of_int 1" using assms by simp_all
  from rnd_le_int[OF this] have "rnd (of_int s' / 100) \<le> 1" by simp
  then have "0 \<le> 1 - rnd (of_int s' / 100)" by simp
  moreover have "1 - rnd (of_int s' / 100) \<le> 1 - rnd (of_int s / 100)" using m by simp
  ultimately show ?thesis unfolding residual_rat_def by (rule rnd_mono)
qed

lemma waste_rat_bounds:
  assumes "0 \<le> w" "w \<le> 100" "0 \<le> seg" "seg \<le> 100" "0 \<le> f" "f \<le> 2"
  shows "fmul (fmul (fmul (Finite w) (Finite (residual_rat seg))) (Finite 52)) (Finite f)
           = Finite (waste_rat w seg f)"
    and "0 \<le> waste_rat w seg f" and "waste_rat w seg f \<le> 10400"
proof -
  note r = residual_rat_bounds(2,3)[OF assms(3,4)]
  from mult_bounded[OF assms(1,2) r]
  have 1: "0 \<le> w * residual_rat seg" "w * residual_rat seg \<le> of_int 100" by simp_all
  from fl_bounded[OF 1] have a: "fl (w * residual_rat seg) = Finite (rnd (w * residual_rat seg))"
    "0 \<le> rnd (w * residual_rat seg)" "rnd (w * residual_rat seg) \<le> 100" by simp_all
  have 2: "0 \<le> rnd (w * residual_rat seg) * 52" "rnd (w * residual_rat seg) * 52 \<le> of_int 5200"
    using a(2,3) by simp_all
  from fl_bounded[OF 2] have b: "fl (rnd (w * residual_rat seg) * 52) = Finite (rnd (rnd (w * residual_rat seg) * 52))"
    "0 \<le> rnd (rnd (w * residual_rat seg) * 52)" "rnd (rnd (w * residual_rat seg) * 52) \<le> 5200" by simp_all
  from mult_bounded[OF b(2,3) assms(5,6)]
  have 3: "0 \<le> rnd (rnd (w * residual_rat seg) * 52) * f"
    "rnd (rnd (w * residual_rat seg) * 52) * f \<le> of_int 10400" by simp_all
  from fl_bounded[OF 3] a(1) b(1)
  show "fmul (fmul (fmul (Finite w) (Finite (residual_rat seg))) (Finite 52)) (Finite f)
           = Finite (waste_rat w seg f)"
    "0 \<le> waste_rat w seg f" "waste_rat w seg f \<le> 10400"
    by (simp_all add: waste_rat_def)
qed

lemma waste_kg_closed:
  assumes "0 \<le> w" "w \<le> 100" "0 \<le> seg" "seg \<le> 100"
    and "dict_get WASTE_EF t = Inr (Finite f)" "0 \<le> f" "f \<le> 2"
  shows "waste_kg (Finite w) seg t = Inr (Finite (waste_rat w seg f))"
proof -
  have s: "float_of_int seg = Inr (Finite (of_int seg))"
    using assms by (intro float_of_int_ok) simp
  from residual_rat_bounds(1)[OF assms(3,4)]
  have "bind_err (fdiv (Finite (of_int seg)) (Finite 100)) (\<lambda>frac. Inr (fsub (Finite 1) frac))
          = Inr (Finite (residual_rat seg))" by (simp add: s)
  then obtain frac where f: "fdiv (Finite (of_int seg)) (Finite 100) = Inr frac"
    "fsub (Finite 1) frac = Finite (residual_rat seg)"
    by (auto simp: bind_err_def split: sum.splits)
  show ?thesis
    using waste_rat_bounds(1)[OF assms(1-4,6,7)]
    by (simp add: waste_kg_def s f assms(5) Let_def del: fdiv.simps fmul.simps)
qed

lemma py_sum4:
  assumes "0 \<le> t" "t \<le> 100" "0 \<le> e" "e \<le> 100" "0 \<le> d" "d \<le> 100" "0 \<le> w" "w \<le> 100"
  shows "py_sum [Finite t, Finite e, Finite d, Finite w] = Finite (sum4_rat t e d w)"
    and "0 \<le> sum4_rat t e d w" and "sum4_rat t e d w \<le> 400"
proof -
  have 1: "0 \<le> 0 + t" "0 + t \<le> of_int 100" using assms by simp_all
  note a = fl_bounded[OF 1]
  have 2: "0 \<le> rnd (0 + t) + e" "rnd (0 + t) + e \<le> of_int 200" using a assms by simp_all
  note b = fl_bounded[OF 2]
  have 3: "0 \<le> rnd (rnd (0 + t) + e) + d" "rnd (rnd (0 + t) + e) + d \<le> of_int 300"
    using b assms by simp_all
  note c = fl_bounded[OF 3]
  have 4: "0 \<le> rnd (rnd (rnd (0 + t) + e) + d) + w" "rnd (rnd (rnd (0 + t) + e) + d) + w \<le> of_int 400"
    using c assms by simp_all
  note d = fl_bounded[OF 4]
  from a(1) b(1) c(1) d
  show "py_sum [Finite t, Finite e, Finite d, Finite w] = Finite (sum4_rat t e d w)"
    "0 \<le> sum4_rat t e d w" "sum4_rat t e d w \<le> 400"
    by (simp_all add: py_sum_def sum4_rat_def)
qed


lemma in_range_Finite:
  assumes "in_range x lo hi"
  obtains a where "x = Finite a" "lo \<le> a" "a \<le> hi"
  using assms by (cases x) simp_all

lemma compute_form:
  assumes "form_input inp"
  obtains d k w ft fe fw dk where
    "daily_commute_km inp = Finite d" "0 \<le> d" "d \<le> 200"
    "monthly_kwh inp = Finite k" "0 \<le> k" "k \<le> 2000"
    "weekly_waste_kg inp = Finite w" "0 \<le> w" "w \<le> 100"
    "dict_get TRANSPORT_EF_PAXKM (mode inp) = Inr (Finite ft)" "0 \<le> ft" "ft \<le> 1"
    "dict_get ELECTRICITY_EF (country inp) = Inr (Finite fe)" "0 \<le> fe" "fe \<le> 1"
    "dict_get WASTE_EF (waste_treatment inp) = Inr (Finite fw)" "0 \<le> fw" "fw \<le> 2"
    "diet_kg (diet_type inp) = Inr (Finite dk)"
    "compute inp = Inr (calculation_of (transport_rat d (commute_days inp) ft)
        (electricity_rat k fe) dk (waste_rat w (segregation inp) fw))"
proof -
  from assms have v: "known_keys inp" "in_range (daily_commute_km inp) 0 200"
    "0 \<le> commute_days inp" "commute_days inp \<le> 365"
    "in_range (monthly_kwh inp) 0 2000" "in_range (weekly_waste_kg inp) 0 100"
    "0 \<le> segregation inp" "segregation inp \<le> 100"
    by (simp_all add: form_input_def valid_input_def)
  from v(2) obtain d where d: "daily_commute_km inp = Finite d" "0 \<le> d" "d \<le> 200"
    by (rule in_range_Finite)
  from v(5) obtain k where k: "monthly_kwh inp = Finite k" "0 \<le> k" "k \<le> 2000"
    by (rule in_range_Finite)
  from v(6) obtain w where w: "weekly_waste_kg inp = Finite w" "0 \<le> w" "w \<le> 100"
    by (rule in_range_Finite)
  from v(1) obtain ft where ft: "dict_get TRANSPORT_EF_PAXKM (mode inp) = Inr (Finite ft)" "0 \<le> ft" "ft \<le> 1"
    using transport_factor[of "mode inp"] by (auto simp: known_keys_def)
  from v(1) obtain fe where fe: "dict_get ELECTRICITY_EF (country inp) = Inr (Finite fe)" "0 \<le> fe" "fe \<le> 1"
    using electricity_factor[of "country inp"] by (auto simp: known_keys_def)
  from v(1) obtain fw where fw: "dict_get WASTE_EF (waste_treatment inp) = Inr (Finite fw)" "0 \<le> fw" "fw \<le> 2"
    using waste_factor[of "waste_treatment inp"] by (auto simp: known_keys_def)
  from v(1) obtain dk where dk: "diet_kg (diet_type inp) = Inr (Finite dk)" "1000 \<le> dk" "dk \<le> 3000"
    using diet_cases[of "diet_type inp"] by (auto simp: known_keys_def)
  define tk where "tk = transport_rat d (commute_days inp) ft"
  define ek where "ek = electricity_rat k fe"
  define wk where "wk = waste_rat w (segregation inp) fw"
  note tb = transport_rat_bounds[OF d(2,3) v(3,4) ft(2,3), folded tk_def]
  note eb = electricity_rat_bounds[OF k(2,3) fe(2,3), folded ek_def]
  note wb = waste_rat_bounds[OF w(2,3) v(7,8) fw(2,3), folded wk_def]
  have days: "float_of_int (commute_days inp) = Inr (Finite (of_int (commute_days inp)))"
    using v(3,4) by (intro float_of_int_ok) simp
  have T: "transport_kg inp = Inr (Finite tk)"
    using tb(1) by (simp add: transport_kg_key days ft(1) d(1) del: fmul.simps)
  have E: "electricity_kg (country inp) (monthly_kwh inp) = Inr (Finite ek)"
    using eb(1) by (simp add: electricity_kg_def fe(1) k(1) Let_def del: fmul.simps)
  have W: "waste_kg (weekly_waste_kg inp) (segregation inp) (waste_treatment inp) = Inr (Finite wk)"
    using waste_kg_closed[OF w(2,3) v(7,8) fw] by (simp add: w(1) wk_def)
  have t3: "tonnes3 (Finite tk) = Inr (Finite (round3_rat (tonnes_rat tk)))"
    "0 \<le> round3_rat (tonnes_rat tk)" "round3_rat (tonnes_rat tk) \<le> 100"
    using tonnes3_bounded[of tk] tb(2,3) by simp_all
  have e3: "tonnes3 (Finite ek) = Inr (Finite (round3_rat (tonnes_rat ek)))"
    "0 \<le> round3_rat (tonnes_rat ek)" "round3_rat (tonnes_rat ek) \<le> 100"
    using tonnes3_bounded[of ek] eb(2,3) by simp_all
  have d3: "tonnes3 (Finite dk) = Inr (Finite (round3_rat (tonnes_rat dk)))"
    "0 \<le> round3_rat (tonnes_rat dk)" "round3_rat (tonnes_rat dk) \<le> 100"
    using tonnes3_bounded[of dk] dk(2,3) by simp_all
  have w3: "tonnes3 (Finite wk) = Inr (Finite (round3_rat (tonnes_rat wk)))"
    "0 \<le> round3_rat (tonnes_rat wk)" "round3_rat (tonnes_rat wk) \<le> 100"
    using tonnes3_bounded[of wk] wb(2,3) by simp_all
  note s = py_sum4[OF t3(2,3) e3(2,3) d3(2,3) w3(2,3)]
  have r: "py_round3 (Finite (sum4_rat (round3_rat (tonnes_rat tk)) (round3_rat (tonnes_rat ek))
        (round3_rat (tonnes_rat dk)) (round3_rat (tonnes_rat wk)))) =
      Finite (round3_rat (sum4_rat (round3_rat (tonnes_rat tk)) (round3_rat (tonnes_rat ek))
        (round3_rat (tonnes_rat dk)) (round3_rat (tonnes_rat wk))))"
    using round3_bounded(1)[of _ 400] s(2,3) by simp
  have "compute inp = Inr (calculation_of tk ek dk wk)"
    by (simp add: compute_def T E W dk(1) t3(1) e3(1) d3(1) w3(1) cat_values_def s(1) r
        calculation_of_def del: py_round3.simps)
  then show ?thesis
    using that[OF d k w ft fe fw dk(1)] by (simp add: tk_def ek_def wk_def)
qed

lemma fl_one: "fl 1 = Finite 1"
  using fl_bounded(1)[of 1 1] rnd_of_int[of 1] by simp

lemma fl_zero: "fl 0 = Finite 0"
  by (simp add: fl_def)

lemma waste_kg_full_segregation:
  assumes "t \<in> set (keys WASTE_EF)"
  shows "waste_kg (Finite w) 100 t = Inr (Finite 0)"
proof -
  from waste_factor[OF assms] obtain f where f: "dict_get WASTE_EF t = Inr (Finite f)" by blast
  have s: "float_of_int 100 = Inr (Finite 100)" using float_of_int_ok[of 100] by simp
  show ?thesis
    by (simp add: waste_kg_def s f fsub_def fl_one fl_zero Let_def)
qed

section \<open>Monotonicity on non-negative values\<close>


lemma fge_simps [simp]:
  "fge (Finite b) (Finite a) \<longleftrightarrow> a \<le> b"
  "fge PosInf x \<longleftrightarrow> x \<noteq> NaN"
  "\<not> fge (Finite a) PosInf"
  "\<not> fge x NaN" "\<not> fge NaN x"
  "fge NegInf x \<longleftrightarrow> x = NegInf"
  "fge (Finite a) NegInf"
  by (cases x; auto simp: fge_def)+

lemma nonneg_cases:
  assumes "nonneg a"
  obtains x where "a = Finite x" "0 \<le> x" | "a = PosInf"
  using assms by (cases a) simp_all

lemma fge_nonneg: "nonneg a \<Longrightarrow> fge b a \<Longrightarrow> nonneg b"
  by (cases a; cases b) auto

lemma fge_trans: "fge c b \<Longrightarrow> fge b a \<Longrightarrow> fge c a"
  by (cases a; cases b; cases c) auto

lemma nonneg_not_NaN: "nonneg a \<Longrightarrow> a \<noteq> NaN"
  by (cases a) simp_all

lemma fl_cases:
  assumes "0 \<le> x"
  obtains "fl x = Finite (rnd x)" "0 \<le> rnd x" "rnd x < 2 ^ 1024" | "fl x = PosInf" "2 ^ 1024 \<le> rnd x"
  using rnd_nonneg[OF assms] by (cases "2 ^ 1024 \<le> rnd x") (auto simp: fl_def Let_def)

lemma fl_nonneg: "0 \<le> x \<Longrightarrow> nonneg (fl x)"
  by (erule fl_cases) simp_all

lemma fl_mono:
  assumes "0 \<le> x" "x \<le> y" shows "fge (fl y) (fl x)"
proof -
  have y: "0 \<le> y" using assms by simp
  have m: "rnd x \<le> rnd y" using assms by (rule rnd_mono)
  show ?thesis
  proof (rule fl_cases[OF y])
    assume "fl y = PosInf"
    then show ?thesis using nonneg_not_NaN[OF fl_nonneg[OF assms(1)]] by simp
  next
    assume fy: "fl y = Finite (rnd y)" and b: "rnd y < 2 ^ 1024"
    show ?thesis
    proof (rule fl_cases[OF assms(1)])
      assume "fl x = Finite (rnd x)"
      then show ?thesis using fy m by simp
    next
      assume "2 ^ 1024 \<le> rnd x"
      with m b show ?thesis by simp
    qed
  qed
qed

lemma fmul_pos_mono:
  assumes "nonneg a" "fge b a" "0 < f"
  shows "nonneg (fmul a (Finite f))" and "fge (fmul b (Finite f)) (fmul a (Finite f))"
proof -
  show n: "nonneg (fmul a (Finite f))"
    using assms(1,3) by (cases a) (simp_all add: fl_nonneg inf_of_sign_def)
  show "fge (fmul b (Finite f)) (fmul a (Finite f))"
  proof (cases b)
    case (Finite y)
    with assms obtain x where "a = Finite x" "0 \<le> x" "x \<le> y" by (cases a) simp_all
    then show ?thesis using Finite assms(3) by (simp add: fl_mono mult_right_mono)
  next
    case PosInf
    then show ?thesis using assms(3) nonneg_not_NaN[OF n] by (simp add: inf_of_sign_def)
  next
    case NegInf
    then show ?thesis using fge_nonneg[OF assms(1,2)] by simp
  next
    case NaN
    then show ?thesis using fge_nonneg[OF assms(1,2)] by simp
  qed
qed

lemma fdiv_pos_mono:
  assumes "nonneg a" "fge b a" "0 < c"
  obtains p q where "fdiv a (Finite c) = Inr p" "fdiv b (Finite c) = Inr q" "nonneg p" "fge q p"
proof -
  define p where "p = (case a of Finite x \<Rightarrow> fl (x / c) | _ \<Rightarrow> PosInf)"
  define q where "q = (case b of Finite y \<Rightarrow> fl (y / c) | _ \<Rightarrow> PosInf)"
  have nb: "nonneg b" using assms(1,2) by (rule fge_nonneg)
  have 1: "fdiv a (Finite c) = Inr p"
    using assms(1,3) by (cases a) (simp_all add: p_def inf_of_sign_def)
  have 2: "fdiv b (Finite c) = Inr q"
    using nb assms(3) by (cases b) (simp_all add: q_def inf_of_sign_def)
  have 3: "nonneg p"
    using assms(1,3) by (cases a) (simp_all add: p_def fl_nonneg)
  have 4: "fge q p"
  proof (cases b)
    case (Finite y)
    with assms obtain x where "a = Finite x" "0 \<le> x" "x \<le> y" by (cases a) simp_all
    then show ?thesis using Finite assms(3) by (simp add: p_def q_def fl_mono divide_right_mono)
  next
    case PosInf
    then show ?thesis using nonneg_not_NaN[OF 3] by (simp add: q_def)
  next
    case NegInf
    then show ?thesis using nb by simp
  next
    case NaN
    then show ?thesis using nb by simp
  qed
  from 1 2 3 4 show ?thesis by (rule that)
qed

lemma round3_mono:
  assumes "nonneg a" "fge b a"
  shows "nonneg (py_round3 a)" and "fge (py_round3 b) (py_round3 a)"
proof -
  have k: "0 \<le> rhe (x * 1000)" if "0 \<le> x" for x :: rat
  proof -
    have "0 \<le> x * 1000" using that by simp
    from rhe_mono[OF this] show ?thesis by simp
  qed
  show n: "nonneg (py_round3 a)"
    using assms(1) by (cases a) (simp_all add: fl_nonneg k)
  show "fge (py_round3 b) (py_round3 a)"
  proof (cases b)
    case (Finite y)
    with assms obtain x where x: "a = Finite x" "0 \<le> x" "x \<le> y" by (cases a) simp_all
    then have "x * 1000 \<le> y * 1000" by simp
    from rhe_mono[OF this] have "(of_int (rhe (x * 1000)) :: rat) / 1000 \<le> of_int (rhe (y * 1000)) / 1000"
      by simp
    moreover have "0 \<le> (of_int (rhe (x * 1000)) :: rat) / 1000" using k[OF x(2)] by simp
    ultimately show ?thesis using Finite x by (simp add: fl_mono)
  next
    case PosInf
    then show ?thesis using nonneg_not_NaN[OF n] by simp
  next
    case NegInf
    then show ?thesis using fge_nonneg[OF assms] by simp
  next
    case NaN
    then show ?thesis using fge_nonneg[OF assms] by simp
  qed
qed

lemma tonnes3_mono:
  assumes "nonneg a" "fge b a"
  obtains p q where "tonnes3 a = Inr p" "tonnes3 b = Inr q" "nonneg p" "fge q p"
proof -
  have "(0::rat) < 1000" by simp
  from fdiv_pos_mono[OF assms this] obtain p q where
    d: "fdiv a (Finite 1000) = Inr p" "fdiv b (Finite 1000) = Inr q" "nonneg p" "fge q p" .
  from round3_mono[OF d(3,4)] d(1,2) show ?thesis
    by (intro that[of "py_round3 p" "py_round3 q"]) (simp_all add: tonnes3_def del: fdiv.simps)
qed

lemma fge_refl: "a \<noteq> NaN \<Longrightarrow> fge a a"
  by (simp add: fge_def)

lemma tonnes3_nonneg:
  assumes "nonneg a"
  obtains p where "tonnes3 a = Inr p" "nonneg p"
  using tonnes3_mono[OF assms fge_refl[OF nonneg_not_NaN[OF assms]]] by metis

lemma fadd_nonneg:
  assumes "nonneg a" "nonneg b"
  shows "nonneg (fadd a b)"
  using assms by (cases a; cases b) (simp_all add: fl_nonneg)

lemma fadd_ge_left:
  assumes "nonneg a" "nonneg b" "fge a (Finite d)" "rnd d = d" "0 \<le> d" "d < 2 ^ 1024"
  shows "fge (fadd a b) (Finite d)"
proof -
  have fd: "fl d = Finite d" using assms(4,5,6) by (simp add: fl_def Let_def)
  show ?thesis
  proof (rule nonneg_cases[OF assms(1)]; rule nonneg_cases[OF assms(2)])
    fix x y assume a: "a = Finite x" "0 \<le> x" and b: "b = Finite y" "0 \<le> y"
    with assms(3,5) have "0 \<le> d" "d \<le> x + y" by simp_all
    from fl_mono[OF this] show ?thesis using a b by (simp add: fd)
  qed simp_all
qed

lemma fadd_ge_right:
  assumes "nonneg a" "nonneg b" "fge b (Finite d)" "rnd d = d" "0 \<le> d" "d < 2 ^ 1024"
  shows "fge (fadd a b) (Finite d)"
proof -
  have fd: "fl d = Finite d" using assms(4,5,6) by (simp add: fl_def Let_def)
  show ?thesis
  proof (rule nonneg_cases[OF assms(1)]; rule nonneg_cases[OF assms(2)])
    fix x y assume a: "a = Finite x" "0 \<le> x" and b: "b = Finite y" "0 \<le> y"
    with assms(3,5) have "0 \<le> d" "d \<le> x + y" by simp_all
    from fl_mono[OF this] show ?thesis using a b by (simp add: fd)
  qed simp_all
qed


lemma rnd_ge_128th:
  assumes "1 / 128 \<le> x" shows "1 / 128 \<le> rnd x"
proof -
  have e: "rnd (1 / 128) = 1 / 128" using rnd_exact[of 1 "- 7"] by (simp add: power_int_minus)
  have "rnd (1 / 128) \<le> rnd x" using assms by (intro rnd_mono) simp_all
  then show ?thesis by (simp add: e)
qed

lemma lit_pos:
  assumes "1 / 128 \<le> r" "r \<le> of_int n" "n \<le> 2 ^ 53"
  shows "lit r = Finite (rnd r) \<and> 0 < rnd r"
proof -
  have "0 \<le> r" using assms(1) by simp
  from lit_bounded[OF this assms(2,3)] rnd_ge_128th[OF assms(1)] show ?thesis by simp
qed

lemma transport_factor_pos:
  assumes "m \<in> set (keys TRANSPORT_EF_PAXKM)"
  shows "\<exists>f. dict_get TRANSPORT_EF_PAXKM m = Inr (Finite f) \<and> 0 < f"
  using assms lit_pos[of "170 / 1000" 1] lit_pos[of "97 / 1000" 1] lit_pos[of "8 / 1000" 1]
  by (auto simp: keys_def TRANSPORT_EF_PAXKM_def dict_get_def)

lemma electricity_factor_pos:
  assumes "c \<in> set (keys ELECTRICITY_EF)"
  shows "\<exists>f. dict_get ELECTRICITY_EF c = Inr (Finite f) \<and> 0 < f"
  using assms lit_pos[of "716 / 1000" 1]
  by (auto simp: keys_def ELECTRICITY_EF_def dict_get_def)

lemma waste_factor_pos:
  assumes "t \<in> set (keys WASTE_EF)"
  shows "\<exists>f. dict_get WASTE_EF t = Inr (Finite f) \<and> 0 < f"
  using assms lit_pos[of "45 / 100" 2] lit_pos[of "110 / 100" 2] lit_pos[of "10 / 100" 2]
  by (auto simp: keys_def WASTE_EF_def dict_get_def)

lemma compute_fields:
  assumes "compute inp = Inr c"
  shows "bind_err (transport_kg inp) tonnes3 = Inr (Transportation (categories c))"
    and "bind_err (electricity_kg (country inp) (monthly_kwh inp)) tonnes3 = Inr (Electricity (categories c))"
    and "bind_err (diet_kg (diet_type inp)) tonnes3 = Inr (Diet (categories c))"
    and "bind_err (waste_kg (weekly_waste_kg inp) (segregation inp) (waste_treatment inp)) tonnes3
           = Inr (Waste (categories c))"
    and "total_tonnes c = py_round3 (py_sum (cat_values (categories c)))"
    and "transport_kg inp = Inr (transport_emissions_kg c)"
    and "electricity_kg (country inp) (monthly_kwh inp) = Inr (electricity_emissions_kg c)"
    and "diet_kg (diet_type inp) = Inr (diet_emissions_kg c)"
    and "waste_kg (weekly_waste_kg inp) (segregation inp) (waste_treatment inp) = Inr (waste_emissions_kg c)"
  using assms by (auto simp: compute_def bind_err_def Let_def split: sum.splits)

lemma compute_returns:
  assumes "valid_input inp" obtains c where "compute inp = Inr c"
proof -
  have "known_keys inp" "\<bar>commute_days inp\<bar> \<le> 2 ^ 53" "\<bar>segregation inp\<bar> \<le> 2 ^ 53"
    using assms by (simp_all add: valid_input_def)
  from compute_ok[OF this(1) float_of_int_ok[OF this(2)] float_of_int_ok[OF this(3)]] that
  show ?thesis by blast
qed

lemma transport_kg_nonneg:
  assumes "valid_input inp"
  obtains t where "transport_kg inp = Inr t" "nonneg t"
proof -
  from assms obtain d where d: "daily_commute_km inp = Finite d" "0 \<le> d"
    by (auto simp: valid_input_def elim: in_range_Finite)
  have y: "0 \<le> commute_days inp" "\<bar>commute_days inp\<bar> \<le> 2 ^ 53"
    using assms by (simp_all add: valid_input_def)
  from assms obtain f where f: "dict_get TRANSPORT_EF_PAXKM (mode inp) = Inr (Finite f)" "0 < f"
    using transport_factor_pos[of "mode inp"] by (auto simp: valid_input_def known_keys_def)
  have "nonneg (fl (d * of_int (commute_days inp)))" using d(2) y(1) by (intro fl_nonneg) simp
  from fmul_pos_mono(1)[OF this fge_refl[OF nonneg_not_NaN[OF this]] f(2)]
  have "nonneg (fmul (fl (d * of_int (commute_days inp))) (Finite f))" .
  then show ?thesis
    by (intro that[of "fmul (fl (d * of_int (commute_days inp))) (Finite f)"])
       (simp_all add: transport_kg_key float_of_int_ok[OF y(2)] f(1) d(1))
qed

lemma electricity_entry_mono:
  assumes "c \<in> set (keys ELECTRICITY_EF)" "0 \<le> k" "k \<le> k'"
  obtains p q where "bind_err (electricity_kg c (Finite k)) tonnes3 = Inr p"
    "bind_err (electricity_kg c (Finite k')) tonnes3 = Inr q" "nonneg p" "fge q p"
proof -
  from electricity_factor_pos[OF assms(1)] obtain f where
    f: "dict_get ELECTRICITY_EF c = Inr (Finite f)" "0 < f" by blast
  have 1: "nonneg (Finite k)" "fge (Finite k') (Finite k)" using assms by simp_all
  have "(0::rat) < 12" by simp
  note a = fmul_pos_mono[OF 1 this]
  note b = fmul_pos_mono[OF a f(2)]
  from tonnes3_mono[OF b] obtain p q where
    "tonnes3 (fmul (fmul (Finite k) (Finite 12)) (Finite f)) = Inr p"
    "tonnes3 (fmul (fmul (Finite k') (Finite 12)) (Finite f)) = Inr q" "nonneg p" "fge q p" .
  then show ?thesis
    by (intro that[of p q]) (simp_all add: electricity_kg_def f(1) Let_def del: fmul.simps)
qed

lemma waste_kg_residual:
  assumes "0 \<le> seg" "seg \<le> 100" "dict_get WASTE_EF t = Inr (Finite f)"
  shows "waste_kg (Finite w) seg t =
           Inr (fmul (fmul (fl (w * residual_rat seg)) (Finite 52)) (Finite f))"
proof -
  have s: "float_of_int seg = Inr (Finite (of_int seg))"
    using assms by (intro float_of_int_ok) simp
  from residual_rat_bounds(1)[OF assms(1,2)]
  have "bind_err (fdiv (Finite (of_int seg)) (Finite 100)) (\<lambda>frac. Inr (fsub (Finite 1) frac))
          = Inr (Finite (residual_rat seg))" by (simp add: s)
  then obtain frac where r: "fdiv (Finite (of_int seg)) (Finite 100) = Inr frac"
    "fsub (Finite 1) frac = Finite (residual_rat seg)"
    by (auto simp: bind_err_def split: sum.splits)
  show ?thesis
    by (simp add: waste_kg_def s r assms(3) Let_def del: fdiv.simps)
qed

lemma waste_entry_mono:
  assumes "t \<in> set (keys WASTE_EF)" "0 \<le> seg" "seg \<le> seg'" "seg' \<le> 100" "0 \<le> w" "w \<le> w'"
  obtains p q where "bind_err (waste_kg (Finite w) seg' t) tonnes3 = Inr p"
    "bind_err (waste_kg (Finite w') seg t) tonnes3 = Inr q" "nonneg p" "fge q p"
proof -
  from waste_factor_pos[OF assms(1)] obtain f where
    f: "dict_get WASTE_EF t = Inr (Finite f)" "0 < f" by blast
  have s: "0 \<le> seg'" "seg \<le> 100" using assms by simp_all
  note r = residual_rat_bounds(2)[OF s(1) assms(4)] residual_rat_antimono[OF assms(2,3,4)]
  have "0 \<le> w * residual_rat seg'" using assms(5) r(1) by simp
  moreover have "w * residual_rat seg' \<le> w' * residual_rat seg"
    using assms(5,6) r by (intro mult_mono) simp_all
  ultimately have 1: "nonneg (fl (w * residual_rat seg'))"
    "fge (fl (w' * residual_rat seg)) (fl (w * residual_rat seg'))"
    by (simp_all add: fl_nonneg fl_mono)
  have "(0::rat) < 52" by simp
  note a = fmul_pos_mono[OF 1 this]
  note b = fmul_pos_mono[OF a f(2)]
  from tonnes3_mono[OF b] obtain p q where
    "tonnes3 (fmul (fmul (fl (w * residual_rat seg')) (Finite 52)) (Finite f)) = Inr p"
    "tonnes3 (fmul (fmul (fl (w' * residual_rat seg)) (Finite 52)) (Finite f)) = Inr q"
    "nonneg p" "fge q p" .
  then show ?thesis
    by (intro that[of p q])
       (simp_all add: waste_kg_residual[OF s(1) assms(4) f(1)] waste_kg_residual[OF assms(2) s(2) f(1)])
qed

lemma fge_pos: "fge x (Finite d) \<Longrightarrow> 0 < d \<Longrightarrow> fgt x (Finite 0)"
  by (cases x) simp_all

section \<open>The accumulated rounding error\<close>


lemma rhe_err_1000:
  shows "of_int (rhe (x * 1000)) / 1000 - x \<le> 1 / 2000"
    and "x - of_int (rhe (x * 1000)) / 1000 \<le> 1 / 2000"
proof -
  have "\<bar>of_int (rhe (x * 1000)) - x * 1000\<bar> \<le> 1 / 2" by (rule rhe_err)
  then have "of_int (rhe (x * 1000)) - x * 1000 \<le> 1 / 2" "x * 1000 - of_int (rhe (x * 1000)) \<le> 1 / 2"
    by linarith+
  then show "of_int (rhe (x * 1000)) / 1000 - x \<le> 1 / 2000"
    "x - of_int (rhe (x * 1000)) / 1000 \<le> 1 / 2000"
    by linarith+
qed

lemma rnd_near:
  assumes "0 \<le> x" "x \<le> of_int n" "n \<le> 1024"
  shows "\<bar>rnd x - x\<bar> \<le> 1 / 2 ^ 43" and "0 \<le> rnd x" and "rnd x \<le> of_int n"
proof -
  have "(of_int n :: rat) \<le> 1024" using assms(3) by (metis of_int_le_iff of_int_numeral)
  then have "\<bar>x\<bar> \<le> 1024" using assms(1,2) by simp
  then show "\<bar>rnd x - x\<bar> \<le> 1 / 2 ^ 43" by (rule rnd_err_small)
  show "0 \<le> rnd x" using assms(1) by (rule rnd_nonneg)
  have "n \<le> 2 ^ 53" using assms(3) by simp
  with assms(1,2) show "rnd x \<le> of_int n" by (rule rnd_le_int)
qed

lemma round3_rat_near:
  assumes "0 \<le> x" "x \<le> of_int n" "n \<le> 1000"
  shows "\<bar>round3_rat x - of_int (rhe (x * 1000)) / 1000\<bar> \<le> 1 / 2 ^ 43"
    and "0 \<le> round3_rat x" and "round3_rat x \<le> of_int n"
proof -
  have "0 \<le> x * 1000" "x * 1000 \<le> of_int (n * 1000)" using assms by simp_all
  from rhe_mono[OF this(1)] rhe_mono[OF this(2)]
  have k: "0 \<le> rhe (x * 1000)" "rhe (x * 1000) \<le> n * 1000"
    by (simp_all only: rhe_of_int rhe_zero)
  have "(of_int (rhe (x * 1000)) :: rat) \<le> of_int (n * 1000)" using k(2) by (simp only: of_int_le_iff)
  then have b: "0 \<le> (of_int (rhe (x * 1000)) :: rat) / 1000"
    "(of_int (rhe (x * 1000)) :: rat) / 1000 \<le> of_int n"
    using k(1) by simp_all
  have "n \<le> 1024" using assms(3) by simp
  from rnd_near[OF b this]
  show "\<bar>round3_rat x - of_int (rhe (x * 1000)) / 1000\<bar> \<le> 1 / 2 ^ 43"
    "0 \<le> round3_rat x" "round3_rat x \<le> of_int n"
    by (simp_all add: round3_rat_def)
qed

lemma rounding_core:
  assumes "0 \<le> t" "t \<le> 100" "0 \<le> e" "e \<le> 100" "0 \<le> d" "d \<le> 100" "0 \<le> w" "w \<le> 100"
    and dd: "\<bar>of_int (rhe (d * 1000)) / 1000 - d\<bar> \<le> 46 / 100000"
  shows "\<bar>round3_rat (sum4_rat (round3_rat t) (round3_rat e) (round3_rat d) (round3_rat w))
          - (t + e + d + w)\<bar> \<le> 2 / 1000"
proof -
  define Kt Ke Kd Kw where "Kt = rhe (t * 1000)" and "Ke = rhe (e * 1000)"
    and "Kd = rhe (d * 1000)" and "Kw = rhe (w * 1000)"
  define ct ce cd cw where "ct = round3_rat t" and "ce = round3_rat e"
    and "cd = round3_rat d" and "cw = round3_rat w"
  define s1 s2 s3 s4 where "s1 = rnd (0 + ct)" and "s2 = rnd (s1 + ce)"
    and "s3 = rnd (s2 + cd)" and "s4 = rnd (s3 + cw)"
  define \<delta> :: rat where "\<delta> = 1 / 2 ^ 43"
  have dl: "\<delta> = 1 / 8796093022208" by (simp add: \<delta>_def)
  note at = rhe_err_1000[of t, folded Kt_def]
  note ae = rhe_err_1000[of e, folded Ke_def]
  note aw = rhe_err_1000[of w, folded Kw_def]
  have ad: "of_int Kd / 1000 - d \<le> 46 / 100000" "d - of_int Kd / 1000 \<le> 46 / 100000"
    using dd unfolding Kd_def by linarith+
  have h: "t \<le> of_int 100" "e \<le> of_int 100" "d \<le> of_int 100" "w \<le> of_int 100"
    using assms by simp_all
  note rt = round3_rat_near[OF assms(1) h(1), folded ct_def Kt_def \<delta>_def]
  note re = round3_rat_near[OF assms(3) h(2), folded ce_def Ke_def \<delta>_def]
  note rd = round3_rat_near[OF assms(5) h(3), folded cd_def Kd_def \<delta>_def]
  note rw = round3_rat_near[OF assms(7) h(4), folded cw_def Kw_def \<delta>_def]
  have bt: "ct - of_int Kt / 1000 \<le> \<delta>" "of_int Kt / 1000 - ct \<le> \<delta>"
    using rt(1) by linarith+
  have pt: "0 \<le> ct" "ct \<le> 100" using rt(2,3) by simp_all
  have be: "ce - of_int Ke / 1000 \<le> \<delta>" "of_int Ke / 1000 - ce \<le> \<delta>"
    using re(1) by linarith+
  have pe: "0 \<le> ce" "ce \<le> 100" using re(2,3) by simp_all
  have bd: "cd - of_int Kd / 1000 \<le> \<delta>" "of_int Kd / 1000 - cd \<le> \<delta>"
    using rd(1) by linarith+
  have pd: "0 \<le> cd" "cd \<le> 100" using rd(2,3) by simp_all
  have bw: "cw - of_int Kw / 1000 \<le> \<delta>" "of_int Kw / 1000 - cw \<le> \<delta>"
    using rw(1) by linarith+
  have pw: "0 \<le> cw" "cw \<le> 100" using rw(2,3) by simp_all
  have 1: "0 \<le> 0 + ct" "0 + ct \<le> of_int 100" using pt by simp_all
  note n1 = rnd_near[OF 1, folded s1_def \<delta>_def]
  have c1: "s1 - ct \<le> \<delta>" "ct - s1 \<le> \<delta>"
    using n1(1) by linarith+
  have p1: "0 \<le> s1" "s1 \<le> 100" using n1(2,3) by simp_all
  have 2: "0 \<le> s1 + ce" "s1 + ce \<le> of_int 200" using p1 pe by simp_all
  note n2 = rnd_near[OF 2, folded s2_def \<delta>_def]
  have c2: "s2 - (s1 + ce) \<le> \<delta>" "(s1 + ce) - s2 \<le> \<delta>"
    using n2(1) by linarith+
  have p2: "0 \<le> s2" "s2 \<le> 200" using n2(2,3) by simp_all
  have 3: "0 \<le> s2 + cd" "s2 + cd \<le> of_int 300" using p2 pd by simp_all
  note n3 = rnd_near[OF 3, folded s3_def \<delta>_def]
  have c3: "s3 - (s2 + cd) \<le> \<delta>" "(s2 + cd) - s3 \<le> \<delta>"
    using n3(1) by linarith+
  have p3: "0 \<le> s3" "s3 \<le> 300" using n3(2,3) by simp_all
  have 4: "0 \<le> s3 + cw" "s3 + cw \<le> of_int 400" using p3 pw by simp_all
  note n4 = rnd_near[OF 4, folded s4_def \<delta>_def]
  have c4: "s4 - (s3 + cw) \<le> \<delta>" "(s3 + cw) - s4 \<le> \<delta>"
    using n4(1) by linarith+
  have p4: "0 \<le> s4" "s4 \<le> 400" using n4(2,3) by simp_all
  define S where "S = Kt + Ke + Kd + Kw"
  have So: "(of_int S :: rat) / 1000 = of_int Kt / 1000 + of_int Ke / 1000 + of_int Kd / 1000 + of_int Kw / 1000"
    by (simp add: S_def add_divide_distrib)
  have e1: "s1 - of_int Kt / 1000 \<le> 2 * \<delta>" "of_int Kt / 1000 - s1 \<le> 2 * \<delta>"
    using bt c1 by linarith+
  have e2: "s2 - (of_int Kt / 1000 + of_int Ke / 1000) \<le> 4 * \<delta>"
    "(of_int Kt / 1000 + of_int Ke / 1000) - s2 \<le> 4 * \<delta>"
    using e1 be c2 by linarith+
  have e3: "s3 - (of_int Kt / 1000 + of_int Ke / 1000 + of_int Kd / 1000) \<le> 6 * \<delta>"
    "(of_int Kt / 1000 + of_int Ke / 1000 + of_int Kd / 1000) - s3 \<le> 6 * \<delta>"
    using e2 bd c3 by linarith+
  have near: "s4 - of_int S / 1000 \<le> 8 * \<delta>" "of_int S / 1000 - s4 \<le> 8 * \<delta>"
    using e3 bw c4 unfolding So by linarith+
  have "s4 * 1000 - of_int S < 1 / 2" "of_int S - s4 * 1000 < 1 / 2"
    using near unfolding dl by simp_all
  then have "\<bar>s4 * 1000 - of_int S\<bar> < 1 / 2" by linarith
  then have K: "rhe (s4 * 1000) = S" by (rule rhe_unique)
  have s4b: "s4 \<le> of_int 400" using p4 by simp
  note rs = round3_rat_near[OF p4(1) s4b, unfolded K, folded \<delta>_def]
  have tot: "round3_rat s4 - of_int S / 1000 \<le> \<delta>" "of_int S / 1000 - round3_rat s4 \<le> \<delta>"
    using rs(1) by linarith+
  have "round3_rat s4 - (t + e + d + w) \<le> 2 / 1000" "(t + e + d + w) - round3_rat s4 \<le> 2 / 1000"
    using tot at ae ad aw unfolding So dl by linarith+
  then have "\<bar>round3_rat s4 - (t + e + d + w)\<bar> \<le> 2 / 1000" by linarith
  then show ?thesis
    by (simp add: s4_def s3_def s2_def s1_def sum4_rat_def ct_def ce_def cd_def cw_def)
qed

section \<open>The claims\<close>

lemmas run_defs = category_of_def total_of_def exported_total_of_def run_what_if_def
  total_of_alternate_def approx_result_def all_zero_result_def export_total_def export_rows_def
  cat_values_def py_sum_def dict_get_def lit_def

lemmas valid_defs = valid_input_def form_input_def valid_scenario_def known_keys_def keys_def fge_def
  max_float_def TRANSPORT_EF_PAXKM_def ELECTRICITY_EF_def DIET_DAILY_def WASTE_EF_def
  default_input_def cap_scenario_def

subsection \<open>C1: the concrete scenario\<close>

text \<open>
  Claim C1, as amended. On the initial values of the form (India, car, 15 km per day, 240 days,
  occupancy 1, 250 kWh per month, medium meat, 4 kg of waste per week, 20 percent segregation,
  landfill) the calculation returns Transportation 0.612, Electricity 2.148, Diet 2.055,
  Waste 0.075 and the total 4.89: each is the float nearest that decimal, hence within 0.002
  of it. The diet is \<open>5.63 * 365 = 2054.95\<close> kg, which rounds to 2.055 tonnes.
\<close>

theorem C1_default_scenario:
  "approx_result (compute default_input)
     (612 / 1000) (2148 / 1000) (2055 / 1000) (75 / 1000) (4890 / 1000) (2 / 1000) \<and>
   category_of Transportation default_input = Inr (lit (612 / 1000)) \<and>
   category_of Electricity default_input = Inr (lit (2148 / 1000)) \<and>
   category_of Diet default_input = Inr (lit (2055 / 1000)) \<and>
   category_of Waste default_input = Inr (lit (75 / 1000)) \<and>
   total_of default_input = Inr (lit (4890 / 1000))"
  by (simp add: compute_default run_defs fl_table)

text \<open>
  Claim C1, as stated, expects Diet 2.05 and the total 4.885 within 0.002. The calculation
  returns 2.055 and 4.89, which are 0.005 away: the claim as stated fails on this input.
\<close>

theorem C1_counterexample:
  "\<not> approx_result (compute default_input)
       (612 / 1000) (2148 / 1000) (205 / 100) (75 / 1000) (4885 / 1000) (2 / 1000)"
  by (simp add: compute_default run_defs)

subsection \<open>C2: all quantities at zero\<close>

text \<open>
  Claim C2, as amended. On every valid input whose distance, days, consumption and waste are
  zero, the calculation returns Transportation, Electricity and Waste equal to zero; the Diet
  entry is the rounded annual footprint of the diet type, which is positive, and the total
  equals the Diet entry.
\<close>

theorem C2_zero_quantities:
  assumes "valid_input inp"
    and "daily_commute_km inp = Finite 0" and "commute_days inp = 0"
    and "monthly_kwh inp = Finite 0" and "weekly_waste_kg inp = Finite 0"
  shows "\<exists>c. compute inp = Inr c \<and>
             Transportation (categories c) = Finite 0 \<and>
             Electricity (categories c) = Finite 0 \<and>
             Waste (categories c) = Finite 0 \<and>
             bind_err (diet_kg (diet_type inp)) tonnes3 = Inr (Diet (categories c)) \<and>
             fge (Diet (categories c)) (lit (1055 / 1000)) \<and>
             total_tonnes c = Diet (categories c)"
proof -
  have "form_input inp" using assms by (simp add: form_input_def)
  then obtain d k w ft fe fw dk where
    q: "daily_commute_km inp = Finite d" "monthly_kwh inp = Finite k" "weekly_waste_kg inp = Finite w"
    and dk: "diet_kg (diet_type inp) = Inr (Finite dk)"
    and c: "compute inp = Inr (calculation_of (transport_rat d (commute_days inp) ft)
        (electricity_rat k fe) dk (waste_rat w (segregation inp) fw))"
    by (rule compute_form)
  from q assms have z: "d = 0" "k = 0" "w = 0" by simp_all
  have "diet_type inp \<in> set (keys DIET_DAILY)" using assms(1) by (simp add: valid_input_def known_keys_def)
  from diet_cases[OF this] dk
  have b: "1000 \<le> dk" "dk \<le> 3000"
    and i: "rnd (round3_rat (tonnes_rat dk)) = round3_rat (tonnes_rat dk)"
      "round3_rat (round3_rat (tonnes_rat dk)) = round3_rat (tonnes_rat dk)"
    and f: "rnd (1055 / 1000) \<le> round3_rat (tonnes_rat dk)"
    by auto
  have t3: "tonnes3 (Finite dk) = Inr (Finite (round3_rat (tonnes_rat dk)))"
    using tonnes3_bounded(1)[of dk] b by simp
  have zero: "transport_rat 0 0 ft = 0" "electricity_rat 0 fe = 0" "waste_rat 0 (segregation inp) fw = 0"
    "tonnes_rat 0 = 0" "round3_rat 0 = 0"
    by (simp_all add: transport_rat_def electricity_rat_def waste_rat_def tonnes_rat_def round3_rat_def)
  have s: "sum4_rat 0 0 (round3_rat (tonnes_rat dk)) 0 = round3_rat (tonnes_rat dk)"
    by (simp add: sum4_rat_def i)
  have ge: "fge (Finite (round3_rat (tonnes_rat dk))) (lit (1055 / 1000))"
    using f lit_bounded[of "1055 / 1000" 2] by (auto simp: fge_def)
  show ?thesis
    using ge by (simp add: c z assms(3) zero calculation_of_def s i dk t3)
qed

text \<open>
  Witness of C2 on the form's initial values with the four quantity sliders at zero.
\<close>

theorem C2_zero_quantities_witness:
  "valid_input zero_input \<and> daily_commute_km zero_input = Finite 0 \<and> commute_days zero_input = 0 \<and>
   monthly_kwh zero_input = Finite 0 \<and> weekly_waste_kg zero_input = Finite 0 \<and>
   (\<exists>c. compute zero_input = Inr c \<and> cat_values (categories c) =
          [Finite 0, Finite 0, Diet (categories c), Finite 0] \<and>
        fge (Diet (categories c)) (lit (1055 / 1000)) \<and> total_tonnes c = Diet (categories c))"
proof -
  have v: "valid_input zero_input" "daily_commute_km zero_input = Finite 0" "commute_days zero_input = 0"
    "monthly_kwh zero_input = Finite 0" "weekly_waste_kg zero_input = Finite 0"
    by (simp_all add: valid_defs zero_input_def)
  from C2_zero_quantities[OF v] v show ?thesis by (auto simp: cat_values_def)
qed

text \<open>
  Claim C2, as stated, says that all four categories and the total are zero when every
  quantity is zero. With the sliders at zero the Diet entry is still 2.055.
\<close>

theorem C2_counterexample:
  "\<not> all_zero_result (compute zero_input)"
  by (simp add: compute_zero run_defs)

subsection \<open>C3: out-of-range inputs and unknown keys\<close>

text \<open>
  Claim C3, as amended. The calculation checks no range. With the four keys known it returns
  a result for every value of the float fields and every integer field that converts to a
  float, which all integers up to \<open>2 ^ 53\<close> in absolute value do: negative quantities, a
  segregation rate of 150 and 400 commute days are computed like any other value. Its only
  failure is then \<^verbatim>\<open>OverflowError\<close>, from an integer too large for a float. With a
  key missing from its table it fails and returns no result, whatever the other fields; when
  exactly one key is missing and the integers convert, the error is \<^verbatim>\<open>KeyError\<close> with
  that key. The same holds of the script from the sidebar on (line 58), which agrees with the
  calculation whenever the country is known.
\<close>

theorem C3_validation:
  "(known_keys inp \<longrightarrow>
      (fails (compute inp) \<longleftrightarrow>
         fails (float_of_int (commute_days inp)) \<or> fails (float_of_int (segregation inp))) \<and>
      (fails (compute inp) \<longrightarrow> compute inp = Inl OverflowError) \<and>
      run_script inp = compute inp) \<and>
   (\<bar>commute_days inp\<bar> \<le> 2 ^ 53 \<longrightarrow> \<not> fails (float_of_int (commute_days inp))) \<and>
   (\<bar>segregation inp\<bar> \<le> 2 ^ 53 \<longrightarrow> \<not> fails (float_of_int (segregation inp))) \<and>
   (\<not> known_keys inp \<longrightarrow> fails (compute inp) \<and> fails (run_script inp)) \<and>
   (\<not> fails (float_of_int (commute_days inp)) \<and> \<not> fails (float_of_int (segregation inp)) \<longrightarrow>
      (mode inp \<notin> set (keys TRANSPORT_EF_PAXKM) \<and> country inp \<in> set (keys ELECTRICITY_EF) \<and>
       diet_type inp \<in> set (keys DIET_DAILY) \<and> waste_treatment inp \<in> set (keys WASTE_EF)
         \<longrightarrow> compute inp = Inl (KeyError (mode inp)) \<and> run_script inp = Inl (KeyError (mode inp))) \<and>
      (mode inp \<in> set (keys TRANSPORT_EF_PAXKM) \<and> country inp \<notin> set (keys ELECTRICITY_EF) \<and>
       diet_type inp \<in> set (keys DIET_DAILY) \<and> waste_treatment inp \<in> set (keys WASTE_EF)
         \<longrightarrow> compute inp = Inl (KeyError (country inp)) \<and>
             run_script inp = Inl (KeyError (country inp))) \<and>
      (mode inp \<in> set (keys TRANSPORT_EF_PAXKM) \<and> country inp \<in> set (keys ELECTRICITY_EF) \<and>
       diet_type inp \<notin> set (keys DIET_DAILY) \<and> waste_treatment inp \<in> set (keys WASTE_EF)
         \<longrightarrow> compute inp = Inl (KeyError (diet_type inp)) \<and>
             run_script inp = Inl (KeyError (diet_type inp))) \<and>
      (mode inp \<in> set (keys TRANSPORT_EF_PAXKM) \<and> country inp \<in> set (keys ELECTRICITY_EF) \<and>
       diet_type inp \<in> set (keys DIET_DAILY) \<and> waste_treatment inp \<notin> set (keys WASTE_EF)
         \<longrightarrow> compute inp = Inl (KeyError (waste_treatment inp)) \<and>
             run_script inp = Inl (KeyError (waste_treatment inp))))"
proof -
  have known: "(fails (compute inp) \<longleftrightarrow>
         fails (float_of_int (commute_days inp)) \<or> fails (float_of_int (segregation inp))) \<and>
      (fails (compute inp) \<longrightarrow> compute inp = Inl OverflowError) \<and>
      run_script inp = compute inp" if k: "known_keys inp"
  proof (cases "fails (float_of_int (commute_days inp)) \<or> fails (float_of_int (segregation inp))")
    case True
    then have "compute inp = Inl OverflowError"
      using compute_overflow[OF k] by (simp add: float_of_int_fails)
    then show ?thesis using True k by (simp add: run_script_known known_keys_def)
  next
    case False
    then obtain d s where "float_of_int (commute_days inp) = Inr (Finite d)"
      "float_of_int (segregation inp) = Inr (Finite s)"
      using float_of_int_cases[of "commute_days inp"] float_of_int_cases[of "segregation inp"]
      by (metis fails_Inl)
    from compute_ok[OF k this] False k show ?thesis
      by (auto simp: run_script_known known_keys_def)
  qed
  have conv: "\<not> fails (float_of_int n)" if "\<bar>n\<bar> \<le> 2 ^ 53" for n
    using float_of_int_ok[OF that] by simp
  have unknown: "fails (compute inp) \<and> fails (run_script inp)" if u: "\<not> known_keys inp"
  proof (cases "country inp \<in> set (keys ELECTRICITY_EF)")
    case True
    then show ?thesis using compute_unknown_key[OF u] by (simp add: run_script_known)
  next
    case False
    then show ?thesis using compute_unknown_key[OF u] by (simp add: run_script_unknown)
  qed
  have single: ?thesis
    if known: "known_keys inp \<longrightarrow>
      (fails (compute inp) \<longleftrightarrow>
         fails (float_of_int (commute_days inp)) \<or> fails (float_of_int (segregation inp))) \<and>
      (fails (compute inp) \<longrightarrow> compute inp = Inl OverflowError) \<and>
      run_script inp = compute inp"
  proof (cases "\<not> fails (float_of_int (commute_days inp)) \<and> \<not> fails (float_of_int (segregation inp))")
    case False
    then show ?thesis using known conv unknown by blast
  next
    case True
    then obtain d s where d: "float_of_int (commute_days inp) = Inr (Finite d)"
      and s: "float_of_int (segregation inp) = Inr (Finite s)"
      using float_of_int_cases[of "commute_days inp"] float_of_int_cases[of "segregation inp"]
      by (metis fails_Inl)
    have m: "compute inp = Inl (KeyError (mode inp)) \<and> run_script inp = Inl (KeyError (mode inp))"
      if "mode inp \<notin> set (keys TRANSPORT_EF_PAXKM)" "country inp \<in> set (keys ELECTRICITY_EF)"
      using that by (simp add: run_script_known compute_def transport_kg_missing[OF d])
    have c: "compute inp = Inl (KeyError (country inp)) \<and> run_script inp = Inl (KeyError (country inp))"
      if "mode inp \<in> set (keys TRANSPORT_EF_PAXKM)" "country inp \<notin> set (keys ELECTRICITY_EF)"
    proof -
      from that(1) obtain t where "transport_kg inp = Inr t" using transport_kg_ok[OF d] by blast
      then show ?thesis using that(2)
        by (simp add: run_script_unknown compute_def electricity_kg_missing)
    qed
    have di: "compute inp = Inl (KeyError (diet_type inp)) \<and> run_script inp = Inl (KeyError (diet_type inp))"
      if "mode inp \<in> set (keys TRANSPORT_EF_PAXKM)" "country inp \<in> set (keys ELECTRICITY_EF)"
        "diet_type inp \<notin> set (keys DIET_DAILY)"
    proof -
      from that(1) obtain t where "transport_kg inp = Inr t" using transport_kg_ok[OF d] by blast
      moreover from that(2) obtain e where "electricity_kg (country inp) (monthly_kwh inp) = Inr e"
        using electricity_kg_ok by blast
      ultimately show ?thesis using that(2,3)
        by (simp add: run_script_known compute_def diet_kg_missing)
    qed
    have w: "compute inp = Inl (KeyError (waste_treatment inp)) \<and>
        run_script inp = Inl (KeyError (waste_treatment inp))"
      if "mode inp \<in> set (keys TRANSPORT_EF_PAXKM)" "country inp \<in> set (keys ELECTRICITY_EF)"
        "diet_type inp \<in> set (keys DIET_DAILY)" "waste_treatment inp \<notin> set (keys WASTE_EF)"
    proof -
      from that(1) obtain t where "transport_kg inp = Inr t" using transport_kg_ok[OF d] by blast
      moreover from that(2) obtain e where "electricity_kg (country inp) (monthly_kwh inp) = Inr e"
        using electricity_kg_ok by blast
      moreover from that(3) obtain dk where "diet_kg (diet_type inp) = Inr dk"
        using diet_kg_ok by blast
      ultimately show ?thesis using that(2,4)
        by (simp add: run_script_known compute_def waste_kg_missing[OF s])
    qed
    show ?thesis using known conv unknown m c di w by blast
  qed
  show ?thesis using known by (intro single) blast
qed

text \<open>
  Witness of C3 on a segregation rate of 150 percent, and on one unknown key for each table.
\<close>

theorem C3_validation_witness:
  "known_keys (default_input\<lparr>segregation := 150\<rparr>) \<and>
   \<bar>commute_days (default_input\<lparr>segregation := 150\<rparr>)\<bar> \<le> 2 ^ 53 \<and>
   \<bar>segregation (default_input\<lparr>segregation := 150\<rparr>)\<bar> \<le> 2 ^ 53 \<and>
   \<not> fails (compute (default_input\<lparr>segregation := 150\<rparr>)) \<and>
   \<not> known_keys (default_input\<lparr>mode := ''bicycle''\<rparr>) \<and>
   compute (default_input\<lparr>mode := ''bicycle''\<rparr>) = Inl (KeyError ''bicycle'') \<and>
   compute (default_input\<lparr>country := ''France''\<rparr>) = Inl (KeyError ''France'') \<and>
   compute (default_input\<lparr>diet_type := ''Keto''\<rparr>) = Inl (KeyError ''Keto'') \<and>
   compute (default_input\<lparr>waste_treatment := ''Recycling''\<rparr>) = Inl (KeyError ''Recycling'')"
  using C3_validation[of "default_input\<lparr>segregation := 150\<rparr>"]
    C3_validation[of "default_input\<lparr>mode := ''bicycle''\<rparr>"]
    C3_validation[of "default_input\<lparr>country := ''France''\<rparr>"]
    C3_validation[of "default_input\<lparr>diet_type := ''Keto''\<rparr>"]
    C3_validation[of "default_input\<lparr>waste_treatment := ''Recycling''\<rparr>"]
  by (simp add: valid_defs)

text \<open>
  Claim C3, as stated, says that a segregation rate of 150, 400 commute days or a negative
  distance make the calculation fail. It returns a result on each of them.
\<close>

theorem C3_counterexample:
  "\<not> fails (compute (default_input\<lparr>segregation := 150\<rparr>)) \<and>
   \<not> fails (compute (default_input\<lparr>commute_days := 400\<rparr>)) \<and>
   \<not> fails (compute (default_input\<lparr>daily_commute_km := Finite (- 5)\<rparr>))"
  by (simp add: compute_seg150 compute_days400 compute_negative)

subsection \<open>C4: the occupancy is not applied\<close>

text \<open>
  Claim C4. When the mode is the car, the result of the calculation is the same for any two
  occupancy values (in particular for any two values of at least 1), and the transport emissions
  are the distance times the days times the car's factor.
\<close>

theorem C4_occupancy_unused:
  assumes "mode inp = ''car''"
  shows "compute (inp\<lparr>car_occupancy := o1\<rparr>) = compute (inp\<lparr>car_occupancy := o2\<rparr>) \<and>
         transport_kg (inp\<lparr>car_occupancy := o1\<rparr>) =
           bind_err (float_of_int (commute_days inp)) (\<lambda>days.
             Inr (fmul (fmul (daily_commute_km inp) days) (lit (170 / 1000))))"
proof -
  have car: "dict_get TRANSPORT_EF_PAXKM ''car'' = Inr (lit (170 / 1000))"
    by (simp add: dict_get_def TRANSPORT_EF_PAXKM_def)
  have t: "transport_kg (inp\<lparr>car_occupancy := x\<rparr>) =
      bind_err (float_of_int (commute_days inp)) (\<lambda>days.
        Inr (fmul (fmul (daily_commute_km inp) days) (lit (170 / 1000))))" for x
    using assms by (simp add: transport_kg_def Let_def car cong: if_cong)
  show ?thesis by (simp add: compute_def t)
qed

text \<open>
  Witness of C4 on the form's initial values, with occupancies 1 and 4.
\<close>

theorem C4_occupancy_unused_witness:
  "mode default_input = ''car'' \<and>
   compute (default_input\<lparr>car_occupancy := Finite 1\<rparr>) =
     compute (default_input\<lparr>car_occupancy := Finite 4\<rparr>) \<and>
   transport_kg (default_input\<lparr>car_occupancy := Finite 1\<rparr>) = Inr (Finite 612)"
  using C4_occupancy_unused[of default_input "Finite 1" "Finite 4"]
  by (simp add: default_input_def float_of_int_def lit_def fl_table)

subsection \<open>C5: the total is the sum of the rounded categories\<close>

text \<open>
  Claim C5, as amended. On every input within the form's ranges (a valid input with at most
  200 km per day, 2000 kWh per month and 100 kg of waste per week) the calculation returns; each
  category is its emissions divided by 1000 and rounded to three decimals, the total is the
  rounded sum of these four rounded values, and the total differs from the exact sum of the
  four unrounded tonnes values by at most 0.002.
\<close>

theorem C5_rounding_bound:
  assumes "form_input inp"
  shows "\<exists>c g. compute inp = Inr c \<and>
           tonnes3 (transport_emissions_kg c) = Inr (Transportation (categories c)) \<and>
           tonnes3 (electricity_emissions_kg c) = Inr (Electricity (categories c)) \<and>
           tonnes3 (diet_emissions_kg c) = Inr (Diet (categories c)) \<and>
           tonnes3 (waste_emissions_kg c) = Inr (Waste (categories c)) \<and>
           total_tonnes c = py_round3 (py_sum (cat_values (categories c))) \<and>
           rounding_gap c = Some g \<and> g \<le> 2 / 1000"
proof -
  from assms have v: "known_keys inp" "0 \<le> commute_days inp" "commute_days inp \<le> 365"
    "0 \<le> segregation inp" "segregation inp \<le> 100"
    by (simp_all add: form_input_def valid_input_def)
  from assms obtain d k w ft fe fw dk where
    d0: "daily_commute_km inp = Finite d" and d: "0 \<le> d" "d \<le> 200"
    and k0: "monthly_kwh inp = Finite k" and k: "0 \<le> k" "k \<le> 2000"
    and w0: "weekly_waste_kg inp = Finite w" and w: "0 \<le> w" "w \<le> 100"
    and ft0: "dict_get TRANSPORT_EF_PAXKM (mode inp) = Inr (Finite ft)" and ft: "0 \<le> ft" "ft \<le> 1"
    and fe0: "dict_get ELECTRICITY_EF (country inp) = Inr (Finite fe)" and fe: "0 \<le> fe" "fe \<le> 1"
    and fw0: "dict_get WASTE_EF (waste_treatment inp) = Inr (Finite fw)" and fw: "0 \<le> fw" "fw \<le> 2"
    and dk: "diet_kg (diet_type inp) = Inr (Finite dk)"
    and c: "compute inp = Inr (calculation_of (transport_rat d (commute_days inp) ft)
        (electricity_rat k fe) dk (waste_rat w (segregation inp) fw))"
    by (rule compute_form)
  define tk where "tk = transport_rat d (commute_days inp) ft"
  define ek where "ek = electricity_rat k fe"
  define wk where "wk = waste_rat w (segregation inp) fw"
  note tb = transport_rat_bounds(2,3)[OF d v(2,3) ft, folded tk_def]
  note eb = electricity_rat_bounds(2,3)[OF k fe, folded ek_def]
  note wb = waste_rat_bounds(2,3)[OF w v(4,5) fw, folded wk_def]
  have "diet_type inp \<in> set (keys DIET_DAILY)" using v(1) by (simp add: known_keys_def)
  from diet_cases[OF this] obtain dk' where dk': "diet_kg (diet_type inp) = Inr (Finite dk')"
    "1000 \<le> dk'" "dk' \<le> 3000"
    "\<bar>of_int (rhe (tonnes_rat dk' * 1000)) / 1000 - tonnes_rat dk'\<bar> \<le> 46 / 100000"
    by blast
  have "dk' = dk" using dk dk'(1) by simp
  note db = dk'(2,3)[unfolded this] and dd = dk'(4)[unfolded this]
  have kb: "0 \<le> tk" "tk \<le> 100000" "0 \<le> ek" "ek \<le> 100000" "0 \<le> dk" "dk \<le> 100000"
    "0 \<le> wk" "wk \<le> 100000"
    using tb eb wb db by simp_all
  define t e dt wt where "t = tonnes_rat tk" and "e = tonnes_rat ek" and "dt = tonnes_rat dk"
    and "wt = tonnes_rat wk"
  note Tt = tonnes3_bounded[OF kb(1,2), folded t_def]
  note Te = tonnes3_bounded[OF kb(3,4), folded e_def]
  note Td = tonnes3_bounded[OF kb(5,6), folded dt_def]
  note Tw = tonnes3_bounded[OF kb(7,8), folded wt_def]
  define s where "s = sum4_rat (round3_rat t) (round3_rat e) (round3_rat dt) (round3_rat wt)"
  note S = py_sum4[OF Tt(5,6) Te(5,6) Td(5,6) Tw(5,6), folded s_def]
  have "s \<le> of_int 400" using S(3) by simp
  from round3_bounded(1)[OF S(2) this] have R: "py_round3 (Finite s) = Finite (round3_rat s)"
    by simp
  define cc where "cc = calculation_of tk ek dk wk"
  have cf: "transport_emissions_kg cc = Finite tk" "electricity_emissions_kg cc = Finite ek"
    "diet_emissions_kg cc = Finite dk" "waste_emissions_kg cc = Finite wk"
    "Transportation (categories cc) = Finite (round3_rat t)"
    "Electricity (categories cc) = Finite (round3_rat e)"
    "Diet (categories cc) = Finite (round3_rat dt)"
    "Waste (categories cc) = Finite (round3_rat wt)"
    "total_tonnes cc = Finite (round3_rat s)"
    by (simp_all add: cc_def calculation_of_def t_def e_def dt_def wt_def s_def)
  have c': "compute inp = Inr cc" using c by (simp add: cc_def tk_def ek_def wk_def)
  have cats: "tonnes3 (transport_emissions_kg cc) = Inr (Transportation (categories cc))"
    "tonnes3 (electricity_emissions_kg cc) = Inr (Electricity (categories cc))"
    "tonnes3 (diet_emissions_kg cc) = Inr (Diet (categories cc))"
    "tonnes3 (waste_emissions_kg cc) = Inr (Waste (categories cc))"
    by (simp_all only: cf Tt(1) Te(1) Td(1) Tw(1))
  have tot: "total_tonnes cc = py_round3 (py_sum (cat_values (categories cc)))"
    by (simp only: cat_values_def cf S(1) R)
  have raw: "raw_tonne (Finite tk) = Some t" "raw_tonne (Finite ek) = Some e"
    "raw_tonne (Finite dk) = Some dt" "raw_tonne (Finite wk) = Some wt"
    by (simp_all add: raw_tonne_def Tt(4) Te(4) Td(4) Tw(4) del: fdiv.simps)
  have gap: "rounding_gap cc = Some \<bar>round3_rat s - (t + e + dt + wt)\<bar>"
    by (simp add: rounding_gap_def cf raw)
  have "\<bar>round3_rat s - (t + e + dt + wt)\<bar> \<le> 2 / 1000"
    unfolding s_def
    using Tt(2,3) Te(2,3) Td(2,3) Tw(2,3) dd[folded dt_def] by (rule rounding_core)
  with c' cats tot gap show ?thesis
    by (intro exI[of _ cc] exI[of _ "\<bar>round3_rat s - (t + e + dt + wt)\<bar>"] conjI)
qed

text \<open>
  Witness of C5 on the form's initial values.
\<close>

theorem C5_rounding_bound_witness:
  "form_input default_input \<and>
   (\<exists>c g. compute default_input = Inr c \<and>
      total_tonnes c = py_round3 (py_sum (cat_values (categories c))) \<and>
      rounding_gap c = Some g \<and> g \<le> 2 / 1000)"
proof -
  have v: "form_input default_input" by (simp add: valid_defs)
  from C5_rounding_bound[OF v] v show ?thesis by blast
qed

text \<open>
  Claim C5, as stated, gives the bound for every valid input, and a valid consumption has no
  upper limit. With \<open>10 ^ 20\<close> kWh per month and the other fields at their initial values,
  the Electricity entry is so large that adding the other three entries to it changes nothing:
  the total is the Electricity entry, and it differs from the sum of the unrounded tonnes values
  by more than 2.74.
\<close>

theorem C5_counterexample:
  "valid_input big_kwh_input \<and>
   gap_of big_kwh_input = Inr (Some (197569673061011941 / 72057594037927936)) \<and>
   \<not> (197569673061011941 / 72057594037927936 :: rat) \<le> 2 / 1000"
proof -
  have v: "valid_input big_kwh_input" by (simp add: valid_defs big_kwh_input_def)
  show ?thesis using v gap_big_kwh by simp
qed

subsection \<open>C6: the what-if total\<close>

text \<open>
  Claim C6 on the input car, 15 km, 240 days, 250 kWh, high meat, 3 kg of waste per week,
  no segregation, landfill, with the what-if widgets set to change nothing. The calculation on
  the scenario's inputs gives the total 5.454 (the categories are rounded, then added); the
  what-if tab adds the kilograms and rounds once, and shows 5.455, a difference of 0.001 for
  a scenario that changes nothing.
\<close>

theorem C6_what_if_total_differs:
  "total_of_alternate high_meat_input (same_scenario high_meat_input) = Inr (lit (5454 / 1000)) \<and>
   bind_err (run_what_if high_meat_input (same_scenario high_meat_input))
     (\<lambda>r. Inr (new_total_t r, delta_t r)) = Inr (lit (5455 / 1000), lit (1 / 1000))"
  by (simp add: run_defs compute_high_meat what_if_high_meat alternate_high_meat fl_table)

subsection \<open>C7: the cap on the segregation rate\<close>

text \<open>
  Claim C7. On every valid input and every scenario with a non-negative increment the
  what-if tab returns; the segregation rate it uses is the minimum of 100 and the sum of the
  rate and the increment, which lies between 0 and 100: the scenario's waste emissions are
  those of the calculation at that rate, and they enter the new total. When the sum exceeds
  100 the rate is exactly 100 and the scenario's waste emissions are zero.
\<close>

theorem C7_segregation_cap:
  assumes "valid_input inp" and "valid_scenario sc"
  shows "\<exists>r. run_what_if inp sc = Inr r \<and>
             new_segregation r = min 100 (segregation inp + extra_segregation sc) \<and>
             0 \<le> new_segregation r \<and> new_segregation r \<le> 100 \<and>
             waste_kg (weekly_waste_kg inp) (min 100 (segregation inp + extra_segregation sc))
               (waste_treatment inp) = Inr (new_waste_kg r) \<and>
             tonnes3 (fadd (fadd (fadd (new_trans_kg r) (new_elec_kg r)) (new_diet_kg r))
                        (new_waste_kg r)) = Inr (new_total_t r) \<and>
             (100 < segregation inp + extra_segregation sc \<longrightarrow>
                new_segregation r = 100 \<and> new_waste_kg r = Finite 0)"
proof -
  have k: "known_keys inp" and b: "\<bar>commute_days inp\<bar> \<le> 2 ^ 53" "\<bar>segregation inp\<bar> \<le> 2 ^ 53"
    using assms(1) by (simp_all add: valid_input_def)
  from compute_ok[OF k float_of_int_ok[OF b(1)] float_of_int_ok[OF b(2)]]
  obtain c where c: "compute inp = Inr c" ..
  from what_if_ok[OF assms] obtain r where r: "what_if inp (categories c) sc = Inr r" ..
  note f = what_if_fields[OF r]
  have n: "new_segregation r = min 100 (segregation inp + extra_segregation sc)"
    using f(1) by (simp add: new_segregation_of_def)
  have nn: "0 \<le> segregation inp + extra_segregation sc"
    using assms by (simp add: valid_input_def valid_scenario_def)
  obtain w where w: "weekly_waste_kg inp = Finite w"
    using assms(1) by (auto simp: valid_input_def elim: in_range_Finite)
  have t: "waste_treatment inp \<in> set (keys WASTE_EF)" using k by (simp add: known_keys_def)
  have z: "new_waste_kg r = Finite 0" if "100 < segregation inp + extra_segregation sc"
  proof -
    from that n have "new_segregation r = 100" by simp
    with f(2) waste_kg_full_segregation[OF t, of w] show ?thesis by (simp add: w)
  qed
  show ?thesis
    using n nn f(2,3) z by (simp add: run_what_if_def c r)
qed

text \<open>
  Witness of C7 on the form's initial values with an increment of 90 points: 20 + 90 is capped
  at 100, and the scenario's waste emissions are zero.
\<close>

theorem C7_segregation_cap_witness:
  "valid_input default_input \<and> valid_scenario cap_scenario \<and>
   100 < segregation default_input + extra_segregation cap_scenario \<and>
   (\<exists>r. run_what_if default_input cap_scenario = Inr r \<and> new_segregation r = 100 \<and>
        new_waste_kg r = Finite 0)"
proof -
  have v: "valid_input default_input" "valid_scenario cap_scenario"
    by (simp_all add: valid_defs)
  have s: "100 < segregation default_input + extra_segregation cap_scenario"
    by (simp add: default_input_def cap_scenario_def)
  from C7_segregation_cap[OF v] s v show ?thesis by auto
qed

subsection \<open>C8: monotonicity\<close>

text \<open>
  Claim C8, as amended. Among valid inputs that differ in one field, a larger monthly
  consumption never gives a smaller Electricity entry, a larger weekly waste never gives a
  smaller Waste entry, and a larger segregation rate never gives a larger Waste entry.
\<close>

theorem C8_monotone:
  assumes "valid_input inp"
  shows "(\<forall>k k'. 0 \<le> k \<and> k \<le> k' \<and> k' \<le> max_float \<longrightarrow>
            entry_le (category_of Electricity (inp\<lparr>monthly_kwh := Finite k\<rparr>))
                     (category_of Electricity (inp\<lparr>monthly_kwh := Finite k'\<rparr>))) \<and>
         (\<forall>w w'. 0 \<le> w \<and> w \<le> w' \<and> w' \<le> max_float \<longrightarrow>
            entry_le (category_of Waste (inp\<lparr>weekly_waste_kg := Finite w\<rparr>))
                     (category_of Waste (inp\<lparr>weekly_waste_kg := Finite w'\<rparr>))) \<and>
         (\<forall>s s'. 0 \<le> s \<and> s \<le> s' \<and> s' \<le> 100 \<longrightarrow>
            entry_le (category_of Waste (inp\<lparr>segregation := s'\<rparr>))
                     (category_of Waste (inp\<lparr>segregation := s\<rparr>)))"
proof (intro conjI allI impI)
  fix k k' :: rat assume a: "0 \<le> k \<and> k \<le> k' \<and> k' \<le> max_float"
  have v: "valid_input (inp\<lparr>monthly_kwh := Finite k\<rparr>)" "valid_input (inp\<lparr>monthly_kwh := Finite k'\<rparr>)"
    using assms a by (simp_all add: valid_input_def known_keys_def)
  from compute_returns[OF v(1)] obtain c where c: "compute (inp\<lparr>monthly_kwh := Finite k\<rparr>) = Inr c" .
  from compute_returns[OF v(2)] obtain c' where c': "compute (inp\<lparr>monthly_kwh := Finite k'\<rparr>) = Inr c'" .
  have "country inp \<in> set (keys ELECTRICITY_EF)" using assms by (simp add: valid_input_def known_keys_def)
  from electricity_entry_mono[OF this, of k k'] a compute_fields(2)[OF c] compute_fields(2)[OF c']
  have "fge (Electricity (categories c')) (Electricity (categories c))" by auto
  then show "entry_le (category_of Electricity (inp\<lparr>monthly_kwh := Finite k\<rparr>))
                     (category_of Electricity (inp\<lparr>monthly_kwh := Finite k'\<rparr>))"
    by (simp add: entry_le_def category_of_def c c')
next
  fix w w' :: rat assume a: "0 \<le> w \<and> w \<le> w' \<and> w' \<le> max_float"
  have v: "valid_input (inp\<lparr>weekly_waste_kg := Finite w\<rparr>)" "valid_input (inp\<lparr>weekly_waste_kg := Finite w'\<rparr>)"
    using assms a by (simp_all add: valid_input_def known_keys_def)
  from compute_returns[OF v(1)] obtain c where c: "compute (inp\<lparr>weekly_waste_kg := Finite w\<rparr>) = Inr c" .
  from compute_returns[OF v(2)] obtain c' where c': "compute (inp\<lparr>weekly_waste_kg := Finite w'\<rparr>) = Inr c'" .
  have t: "waste_treatment inp \<in> set (keys WASTE_EF)" and s: "0 \<le> segregation inp" "segregation inp \<le> 100"
    using assms by (simp_all add: valid_input_def known_keys_def)
  from waste_entry_mono[OF t s(1) order_refl s(2), of w w'] a compute_fields(4)[OF c] compute_fields(4)[OF c']
  have "fge (Waste (categories c')) (Waste (categories c))" by auto
  then show "entry_le (category_of Waste (inp\<lparr>weekly_waste_kg := Finite w\<rparr>))
                     (category_of Waste (inp\<lparr>weekly_waste_kg := Finite w'\<rparr>))"
    by (simp add: entry_le_def category_of_def c c')
next
  fix s s' :: int assume a: "0 \<le> s \<and> s \<le> s' \<and> s' \<le> 100"
  have v: "valid_input (inp\<lparr>segregation := s\<rparr>)" "valid_input (inp\<lparr>segregation := s'\<rparr>)"
    using assms a by (simp_all add: valid_input_def known_keys_def)
  from compute_returns[OF v(1)] obtain c where c: "compute (inp\<lparr>segregation := s\<rparr>) = Inr c" .
  from compute_returns[OF v(2)] obtain c' where c': "compute (inp\<lparr>segregation := s'\<rparr>) = Inr c'" .
  have t: "waste_treatment inp \<in> set (keys WASTE_EF)" using assms by (simp add: valid_input_def known_keys_def)
  from assms obtain w where w: "weekly_waste_kg inp = Finite w" "0 \<le> w"
    by (auto simp: valid_input_def elim: in_range_Finite)
  from waste_entry_mono[OF t, of s s' w w] a w compute_fields(4)[OF c] compute_fields(4)[OF c']
  have "fge (Waste (categories c)) (Waste (categories c'))" by auto
  then show "entry_le (category_of Waste (inp\<lparr>segregation := s'\<rparr>))
                     (category_of Waste (inp\<lparr>segregation := s\<rparr>))"
    by (simp add: entry_le_def category_of_def c c')
qed

text \<open>
  Witness of C8 on the form's initial values.
\<close>

theorem C8_monotone_witness:
  "valid_input default_input \<and>
   entry_le (category_of Electricity (default_input\<lparr>monthly_kwh := Finite 250\<rparr>))
            (category_of Electricity (default_input\<lparr>monthly_kwh := Finite 260\<rparr>)) \<and>
   entry_le (category_of Waste (default_input\<lparr>weekly_waste_kg := Finite 4\<rparr>))
            (category_of Waste (default_input\<lparr>weekly_waste_kg := Finite 5\<rparr>)) \<and>
   entry_le (category_of Waste (default_input\<lparr>segregation := 40\<rparr>))
            (category_of Waste (default_input\<lparr>segregation := 20\<rparr>))"
proof -
  have v: "valid_input default_input" by (simp add: valid_defs)
  have m: "(260::rat) \<le> max_float" "(5::rat) \<le> max_float" by (simp_all add: max_float_def)
  from C8_monotone[OF v] m v show ?thesis by simp
qed

text \<open>
  Claim C8, as stated, says that the entries change strictly. At a segregation rate of 100
  the Waste entry is zero for 4 kg and for 5 kg per week; at a weekly waste of zero it is zero
  for the rates 20 and 40; and the Electricity entry is 2.148 for 250 kWh and for 250.03125 kWh,
  whose difference is below the rounding to three decimals.
\<close>

theorem C8_counterexample:
  "category_of Waste (default_input\<lparr>segregation := 100\<rparr>) = Inr (Finite 0) \<and>
   category_of Waste (default_input\<lparr>segregation := 100, weekly_waste_kg := Finite 5\<rparr>) = Inr (Finite 0) \<and>
   category_of Waste (default_input\<lparr>weekly_waste_kg := Finite 0\<rparr>) = Inr (Finite 0) \<and>
   category_of Waste (default_input\<lparr>weekly_waste_kg := Finite 0, segregation := 40\<rparr>) = Inr (Finite 0) \<and>
   category_of Electricity default_input = Inr (lit (2148 / 1000)) \<and>
   category_of Electricity (default_input\<lparr>monthly_kwh := Finite (8001 / 32)\<rparr>) = Inr (lit (2148 / 1000)) \<and>
   \<not> fgt (Finite 0) (Finite 0) \<and> \<not> fgt (lit (2148 / 1000)) (lit (2148 / 1000))"
  by (simp add: waste_seg100_w4 waste_seg100_w5 waste_w0_seg20 waste_w0_seg40 elec_250 elec_250_frac
      lit_def fl_table)

subsection \<open>C9: the exported total\<close>

text \<open>
  Claim C9 on the form's initial values. The download tab recomputes the total as the sum of
  the four categories without rounding it: it exports 4.890000000000001, where the calculation's
  total is 4.89.
\<close>

theorem C9_export_total_unrounded:
  "exported_total_of default_input = Inr (Finite (344103159028777 / 70368744177664)) \<and>
   total_of default_input = Inr (lit (4890 / 1000)) \<and>
   exported_total_of default_input \<noteq> total_of default_input"
  by (simp add: run_defs compute_default fl_table)

subsection \<open>C10: the diet is never zero\<close>

text \<open>
  Claim C10. On every valid input the calculation returns, the Diet entry is at least 1.055
  (the float of that literal, the entry of the vegan diet), and the total is at least the Diet
  entry, hence positive: no valid input gives an all-zero result.
\<close>

theorem C10_diet_floor:
  assumes "valid_input inp"
  shows "\<exists>c. compute inp = Inr c \<and>
             fge (Diet (categories c)) (lit (1055 / 1000)) \<and>
             fge (total_tonnes c) (Diet (categories c)) \<and>
             fgt (total_tonnes c) (Finite 0) \<and>
             \<not> all_zero_result (compute inp)"
proof -
  from compute_returns[OF assms] obtain c where c: "compute inp = Inr c" .
  note f = compute_fields[OF c]
  have k: "known_keys inp" using assms by (simp add: valid_input_def)
  from transport_kg_nonneg[OF assms] obtain tk where tk: "transport_kg inp = Inr tk" "nonneg tk" .
  from tonnes3_nonneg[OF tk(2)] f(1) tk(1) have T: "nonneg (Transportation (categories c))"
    by auto
  from assms obtain kw where kw: "monthly_kwh inp = Finite kw" "0 \<le> kw"
    by (auto simp: valid_input_def elim: in_range_Finite)
  have "country inp \<in> set (keys ELECTRICITY_EF)" using k by (simp add: known_keys_def)
  from electricity_entry_mono[OF this kw(2) order_refl] f(2) kw(1)
  have E: "nonneg (Electricity (categories c))" by auto
  from assms obtain w where w: "weekly_waste_kg inp = Finite w" "0 \<le> w"
    by (auto simp: valid_input_def elim: in_range_Finite)
  have s: "0 \<le> segregation inp" "segregation inp \<le> 100" using assms by (simp_all add: valid_input_def)
  have "waste_treatment inp \<in> set (keys WASTE_EF)" using k by (simp add: known_keys_def)
  from waste_entry_mono[OF this s(1) order_refl s(2) w(2) order_refl] f(4) w(1)
  have W: "nonneg (Waste (categories c))" by auto
  have "diet_type inp \<in> set (keys DIET_DAILY)" using k by (simp add: known_keys_def)
  from diet_cases[OF this] obtain dk where dk: "diet_kg (diet_type inp) = Inr (Finite dk)"
    "1000 \<le> dk" "dk \<le> 3000"
    and i: "rnd (round3_rat (tonnes_rat dk)) = round3_rat (tonnes_rat dk)"
      "round3_rat (round3_rat (tonnes_rat dk)) = round3_rat (tonnes_rat dk)"
    and fl: "rnd (1055 / 1000) \<le> round3_rat (tonnes_rat dk)"
    by blast
  define cd where "cd = round3_rat (tonnes_rat dk)"
  have t3: "tonnes3 (Finite dk) = Inr (Finite cd)" "0 \<le> cd" "cd \<le> 100"
    using tonnes3_bounded[of dk] dk(2,3) by (simp_all add: cd_def)
  have D: "Diet (categories c) = Finite cd" using f(3) dk(1) t3(1) by simp
  have pos: "0 < cd" using fl rnd_ge_128th[of "1055 / 1000"] by (simp add: cd_def)
  have ge: "fge (Finite cd) (lit (1055 / 1000))"
    using fl lit_bounded[of "1055 / 1000" 2] by (simp add: cd_def)
  have r: "py_round3 (Finite cd) = Finite cd"
    using round3_bounded(1)[of cd 100] t3(2,3) i(2) by (simp add: cd_def)
  have cdb: "rnd cd = cd" "0 \<le> cd" "cd < 2 ^ 1024" using i(1) t3(2,3) by (simp_all add: cd_def)
  define s1 where "s1 = fadd (Finite 0) (Transportation (categories c))"
  define s2 where "s2 = fadd s1 (Electricity (categories c))"
  define s3 where "s3 = fadd s2 (Finite cd)"
  define s4 where "s4 = fadd s3 (Waste (categories c))"
  have n1: "nonneg s1" unfolding s1_def using T by (intro fadd_nonneg) simp_all
  have n2: "nonneg s2" unfolding s2_def using n1 E by (rule fadd_nonneg)
  have n3: "nonneg s3" unfolding s3_def using n2 t3(2) by (intro fadd_nonneg) simp_all
  have g3: "fge s3 (Finite cd)" unfolding s3_def
    using n2 _ _ cdb by (rule fadd_ge_right) (simp_all add: t3(2))
  have g4: "fge s4 (Finite cd)" unfolding s4_def
    using n3 W g3 cdb by (rule fadd_ge_left)
  have tot: "total_tonnes c = py_round3 s4"
    by (simp add: f(5) py_sum_def cat_values_def D s4_def s3_def s2_def s1_def)
  have "fge (py_round3 s4) (py_round3 (Finite cd))"
    using _ g4 by (rule round3_mono(2)) (simp add: t3(2))
  then have gt: "fge (total_tonnes c) (Finite cd)" by (simp add: tot r del: py_round3.simps)
  have nz: "\<not> all_zero_result (compute inp)"
    using pos by (simp add: all_zero_result_def c cat_values_def D)
  show ?thesis
    using ge gt fge_pos[OF gt pos] nz by (simp add: c D)
qed

text \<open>
  Witness of C10 on the form's initial values.
\<close>

theorem C10_diet_floor_witness:
  "valid_input default_input \<and>
   (\<exists>c. compute default_input = Inr c \<and> fge (Diet (categories c)) (lit (1055 / 1000)) \<and>
        fge (total_tonnes c) (Diet (categories c)) \<and> fgt (total_tonnes c) (Finite 0))"
proof -
  have v: "valid_input default_input" by (simp add: valid_defs)
  from C10_diet_floor[OF v] v show ?thesis by blast
qed

end
